theory Spec2Isabelle
  imports Main "HOL-Library.List_Lexorder" "HOL-Library.Char_ord"
begin

text \<open>
  A model of the Grafbase Terraform provider: the GraphQL transport client and the entity
  operations of \<open>internal/client\<close>, the resource adapters (graph, branch, subgraph) and
  the provider configuration of \<open>internal/provider\<close>. The repository holds two schema
  variants of the branch entity. The variant of \<open>internal/client/client.go\<close> keys a branch
  by account slug, graph slug and branch name; its definitions keep the source's names.
  The other variant keys a branch by graph identifier and name; its definitions carry the
  suffix \<open>_id\<close>. All definitions come first; the lemmas and the theorems follow.
\<close>

section \<open>Strings and errors\<close>

text \<open>
  A Go string is a sequence of bytes; it is modelled as a \<open>string\<close> (a list of 8-bit
  characters). A Go \<open>error\<close> is observed only through its \<open>Error()\<close> text, so an error
  value is modelled by that text; \<open>fmt.Errorf("p: %w", err)\<close> is the prefix followed by
  the text of the wrapped error.
\<close>

type_synonym error = string

text \<open>\<open>strings.HasPrefix\<close>, \<open>strings.Contains\<close> and \<open>strings.Join\<close> of the Go library.\<close>

definition HasPrefix :: "string \<Rightarrow> string \<Rightarrow> bool" where
  "HasPrefix s p = (take (length p) s = p)"

fun Contains :: "string \<Rightarrow> string \<Rightarrow> bool" where
  "Contains [] substr = (substr = [])"
| "Contains (c # s) substr = (HasPrefix (c # s) substr \<or> Contains s substr)"

fun Join :: "string list \<Rightarrow> string \<Rightarrow> string" where
  "Join [] sep = []"
| "Join [x] sep = x"
| "Join (x # y # ys) sep = x @ sep @ Join (y # ys) sep"

text \<open>
  \<open>strings.Split(s, sep)\<close> for a separator of one byte: the pieces of \<open>s\<close> between
  the occurrences of the separator, one more than there are occurrences.
\<close>

fun Split :: "string \<Rightarrow> char \<Rightarrow> string list" where
  "Split [] sep = [[]]"
| "Split (c # s) sep =
     (if c = sep then [] # Split s sep
      else (case Split s sep of [] \<Rightarrow> [[c]] | p # ps \<Rightarrow> (c # p) # ps))"

text \<open>The verb \<open>%d\<close> of \<open>fmt\<close> for a non-negative integer.\<close>

function fmt_d :: "nat \<Rightarrow> string" where
  "fmt_d n = (if n < 10 then [char_of (48 + n)] else fmt_d (n div 10) @ [char_of (48 + n mod 10)])"
  by pat_completeness auto
termination
  by (relation "measure id") auto

subsection \<open>Runes\<close>

text \<open>
  The conversions \<open>[]rune(s)\<close> and \<open>string(runes)\<close> of the Go runtime. The first decodes
  UTF-8 as \<open>utf8.DecodeRuneInString\<close> does: a byte that starts no well-formed sequence
  becomes the rune \<open>U+FFFD\<close> and is one byte wide. \<open>acceptRange\<close> is the library's
  table for a leading byte between \<open>0xC2\<close> and \<open>0xF4\<close>: the length of the sequence
  and the range of its second byte. The second conversion encodes each rune in UTF-8,
  a surrogate or a value beyond \<open>U+10FFFF\<close> as \<open>U+FFFD\<close>.
\<close>

type_synonym rune = nat

definition RuneError :: rune where
  "RuneError = 0xFFFD"

definition acceptRange :: "nat \<Rightarrow> nat \<times> nat \<times> nat" where
  "acceptRange s0 =
     (if s0 < 0xE0 then (2, 0x80, 0xBF)
      else if s0 = 0xE0 then (3, 0xA0, 0xBF)
      else if s0 = 0xED then (3, 0x80, 0x9F)
      else if s0 < 0xF0 then (3, 0x80, 0xBF)
      else if s0 = 0xF0 then (4, 0x90, 0xBF)
      else if s0 = 0xF4 then (4, 0x80, 0x8F)
      else (4, 0x80, 0xBF))"

definition decoderune :: "string \<Rightarrow> rune \<times> nat" where
  "decoderune s =
     (case s of
        [] \<Rightarrow> (RuneError, 0)
      | c0 # rest \<Rightarrow>
          let s0 = (of_char c0 :: nat) in
          if s0 < 0x80 then (s0, 1)
          else if s0 < 0xC2 \<or> 0xF4 < s0 then (RuneError, 1)
          else
            case acceptRange s0 of (sz, lo, hi) \<Rightarrow>
              if length s < sz then (RuneError, 1)
              else
                let s1 = (of_char (s ! 1) :: nat) in
                if s1 < lo \<or> hi < s1 then (RuneError, 1)
                else if sz \<le> 2 then ((s0 mod 32) * 64 + s1 mod 64, 2)
                else
                  let s2 = (of_char (s ! 2) :: nat) in
                  if s2 < 0x80 \<or> 0xBF < s2 then (RuneError, 1)
                  else if sz \<le> 3 then ((s0 mod 16) * 4096 + (s1 mod 64) * 64 + s2 mod 64, 3)
                  else
                    let s3 = (of_char (s ! 3) :: nat) in
                    if s3 < 0x80 \<or> 0xBF < s3 then (RuneError, 1)
                    else ((s0 mod 8) * 262144 + (s1 mod 64) * 4096 + (s2 mod 64) * 64 + s3 mod 64, 4))"

fun stringtoslicerune :: "string \<Rightarrow> rune list" where
  "stringtoslicerune [] = []"
| "stringtoslicerune (c # s) =
     fst (decoderune (c # s)) # stringtoslicerune (drop (snd (decoderune (c # s)) - 1) s)"

fun ValidString :: "string \<Rightarrow> bool" where
  "ValidString [] = True"
| "ValidString (c # s) =
     (decoderune (c # s) \<noteq> (RuneError, 1) \<and> ValidString (drop (snd (decoderune (c # s)) - 1) s))"

definition encoderune3 :: "rune \<Rightarrow> string" where
  "encoderune3 r = [char_of (0xE0 + r div 4096), char_of (0x80 + (r div 64) mod 64), char_of (0x80 + r mod 64)]"

definition encoderune :: "rune \<Rightarrow> string" where
  "encoderune r =
     (if r \<le> 0x7F then [char_of r]
      else if r \<le> 0x7FF then [char_of (0xC0 + r div 64), char_of (0x80 + r mod 64)]
      else if 0x10FFFF < r \<or> (0xD800 \<le> r \<and> r \<le> 0xDFFF) then encoderune3 RuneError
      else if r \<le> 0xFFFF then encoderune3 r
      else [char_of (0xF0 + r div 262144), char_of (0x80 + (r div 4096) mod 64),
            char_of (0x80 + (r div 64) mod 64), char_of (0x80 + r mod 64)])"

definition slicerunetostring :: "rune list \<Rightarrow> string" where
  "slicerunetostring rs = concat (map encoderune rs)"



subsection \<open>Import identifiers\<close>

text \<open>
  \<open>parseBranchImportID\<close> (branch resource, \<open>_id\<close> variant) and
  \<open>parseSubgraphImportID\<close> split at the slashes. The index \<open>parts[1]\<close> is read only
  when there are two parts.
\<close>

definition parseBranchImportID :: "string \<Rightarrow> error + string \<times> string" where
  "parseBranchImportID id' =
     (let parts = Split id' CHR ''/'' in
      if length parts \<noteq> 2 then Inl (''invalid format: expected 'graph_id/branch_name'' @ [CHR 0x27])
      else if parts ! 0 = [] \<or> parts ! 1 = []
        then Inl (''invalid format: expected 'graph_id/branch_name'' @ [CHR 0x27])
      else Inr (parts ! 0, parts ! 1))"

definition parseSubgraphImportID :: "string \<Rightarrow> error + string \<times> string" where
  "parseSubgraphImportID id' =
     (let parts = Split id' CHR ''/'' in
      if length parts \<noteq> 2 then Inl (''invalid format: expected 'branch_id/subgraph_name'' @ [CHR 0x27])
      else if parts ! 0 = [] \<or> parts ! 1 = []
        then Inl (''invalid format: expected 'branch_id/subgraph_name'' @ [CHR 0x27])
      else Inr (parts ! 0, parts ! 1))"

text \<open>
  \<open>parseImportID\<close> (graph resource) walks the runes of the identifier.
  \<open>find_slash\<close> is its loop: the runes still to visit, the index of the next one and
  \<open>slashIndex\<close>; a second slash ends it with an error.
\<close>

fun find_slash :: "rune list \<Rightarrow> nat \<Rightarrow> int \<Rightarrow> error + int" where
  "find_slash [] i slashIndex = Inr slashIndex"
| "find_slash (r # rs) i slashIndex =
     (if r = 0x2F then
        (if slashIndex = - 1 then find_slash rs (i + 1) (int i)
         else Inl ''invalid format: multiple slashes found'')
      else find_slash rs (i + 1) slashIndex)"

definition parseImportID :: "string \<Rightarrow> error + string \<times> string" where
  "parseImportID id' =
     (let parts = stringtoslicerune id' in
      case find_slash parts 0 (- 1) of
        Inl err \<Rightarrow> Inl err
      | Inr slashIndex \<Rightarrow>
          if slashIndex = - 1 \<or> slashIndex = 0 \<or> slashIndex = int (length parts) - 1
          then Inl (''invalid format: expected 'account_slug/graph_slug'' @ [CHR 0x27])
          else Inr (slicerunetostring (take (nat slashIndex) parts),
                    slicerunetostring (drop (nat slashIndex + 1) parts)))"

section \<open>The host runtime's values and diagnostics\<close>

text \<open>
  \<open>types.String\<close> and \<open>types.Bool\<close> of the plugin framework: null, unknown, or a
  known value. \<open>ValueString\<close> is the empty string for null and unknown.
\<close>

datatype tf_string = StringNull | StringUnknown | StringValue string

fun ValueString :: "tf_string \<Rightarrow> string" where
  "ValueString (StringValue s) = s"
| "ValueString StringNull = []"
| "ValueString StringUnknown = []"

fun IsNull :: "tf_string \<Rightarrow> bool" where
  "IsNull StringNull = True"
| "IsNull StringUnknown = False"
| "IsNull (StringValue s) = False"

datatype tf_bool = BoolNull | BoolUnknown | BoolValue bool

datatype severity = SeverityError | SeverityWarning

record diagnostic =
  diag_severity :: severity
  diag_summary :: string
  diag_detail :: string

type_synonym diagnostics = "diagnostic list"

text \<open>
  \<open>Diagnostics.Append\<close> skips a diagnostic that is already present;
  \<open>AddError\<close> appends a new error diagnostic; \<open>HasError\<close> looks for one of
  error severity.
\<close>

fun Append :: "diagnostics \<Rightarrow> diagnostics \<Rightarrow> diagnostics" where
  "Append diags [] = diags"
| "Append diags (d # ds) = Append (if d \<in> set diags then diags else diags @ [d]) ds"

definition NewErrorDiagnostic :: "string \<Rightarrow> string \<Rightarrow> diagnostic" where
  "NewErrorDiagnostic summary detail =
     \<lparr>diag_severity = SeverityError, diag_summary = summary, diag_detail = detail\<rparr>"

definition AddError :: "string \<Rightarrow> string \<Rightarrow> diagnostics \<Rightarrow> diagnostics" where
  "AddError summary detail diags = Append diags [NewErrorDiagnostic summary detail]"

definition HasError :: "diagnostics \<Rightarrow> bool" where
  "HasError diags = list_ex (\<lambda>d. diag_severity d = SeverityError) diags"

text \<open>
  \<open>Config.Get\<close>, \<open>Plan.Get\<close> and \<open>State.Get\<close> decode the host runtime's record
  into the adapter's model struct and report diagnostics: a request is modelled by what
  that decoding yields. The model structs mirror the schemas, so for a record of the
  resource's own schema the decoding reports no error.
\<close>

record 'm decoded =
  decode_diags :: diagnostics
  decode_value :: 'm

text \<open>
  The response of a resource hook: the diagnostics and the state record the hook leaves
  (\<open>None\<close> after \<open>State.RemoveResource\<close>, and before a record exists).
  \<open>State.Set\<close> stores the whole model and \<open>State.SetAttribute\<close> one attribute (of
  the null record \<open>null\<close> when no record exists yet); both write values of the
  attributes' own types, for which the host runtime reports no diagnostic.
\<close>

record 'm response =
  Diagnostics :: diagnostics
  State :: "'m option"

definition State_Set :: "'m \<Rightarrow> 'm response \<Rightarrow> 'm response" where
  "State_Set data resp = resp\<lparr>State := Some data\<rparr>"

definition RemoveResource :: "'m response \<Rightarrow> 'm response" where
  "RemoveResource resp = resp\<lparr>State := None\<rparr>"

definition SetAttribute :: "'m \<Rightarrow> ('m \<Rightarrow> 'm) \<Rightarrow> 'm response \<Rightarrow> 'm response" where
  "SetAttribute null upd resp =
     resp\<lparr>State := Some (upd (case State resp of None \<Rightarrow> null | Some m \<Rightarrow> m))\<rparr>"

definition resp_AddError :: "string \<Rightarrow> string \<Rightarrow> 'm response \<Rightarrow> 'm response" where
  "resp_AddError summary detail resp =
     resp\<lparr>Diagnostics := AddError summary detail (Diagnostics resp)\<rparr>"

definition resp_Append :: "diagnostics \<Rightarrow> 'm response \<Rightarrow> 'm response" where
  "resp_Append ds resp = resp\<lparr>Diagnostics := Append (Diagnostics resp) ds\<rparr>"

text \<open>
  After the Delete hook the host runtime removes the record itself when the response
  carries no error diagnostic, and keeps it otherwise.
\<close>

definition host_after_Delete :: "'m response \<Rightarrow> 'm response" where
  "host_after_Delete resp = (if HasError (Diagnostics resp) then resp else RemoveResource resp)"


section \<open>The client package\<close>

subsection \<open>Entities and inputs\<close>

text \<open>
  \<open>time.Time\<close> is kept abstract: an instant is a number, and \<open>Time.Format\<close> is a
  parameter of the hooks that print one.
\<close>

datatype Time = Time int

record Account =
  Account_ID :: string
  Account_Slug :: string
  Account_Name :: string

record Graph =
  Graph_ID :: string
  Graph_Slug :: string
  Graph_CreatedAt :: Time
  Graph_Account :: Account

record Branch =
  Branch_ID :: string
  Branch_Name :: string
  Branch_Environment :: string
  Branch_OperationChecksEnabled :: bool
  Branch_OperationChecksIgnoreUsageData :: bool
  Branch_Graph :: Graph

record Branch_id =
  Branch_id_ID :: string
  Branch_id_Name :: string
  Branch_id_CreatedAt :: Time
  Branch_id_Graph :: Graph

record Subgraph =
  Subgraph_ID :: string
  Subgraph_Name :: string
  Subgraph_URL :: string
  Subgraph_CreatedAt :: Time
  Subgraph_Branch :: Branch_id

record CreateGraphInput =
  cgi_AccountID :: string
  cgi_GraphSlug :: string

record CreateBranchInput =
  cbi_AccountSlug :: string
  cbi_GraphSlug :: string
  cbi_BranchName :: string

record DeleteBranchInput =
  dbi_AccountSlug :: string
  dbi_GraphSlug :: string
  dbi_BranchName :: string

record CreateBranchInput_id =
  cbi_id_GraphID :: string
  cbi_id_BranchName :: string

record CreateSubgraphInput =
  csi_BranchID :: string
  csi_SubgraphName :: string
  csi_URL :: string

subsection \<open>Dynamic values\<close>

text \<open>
  A value of type \<open>interface{}\<close> as \<open>encoding/json\<close> decodes it, and as the request
  variables hold it: nil, a bool, a number, a string, a slice or a map with string keys.
  A number is kept by the text \<open>fmt\<close> prints for it, the only use the client makes of
  one. A map is a list of entries with distinct keys; a struct among the request variables
  is the map of its JSON fields.
\<close>

datatype iface =
    INil
  | IBool bool
  | IFloat64 string
  | IString string
  | ISlice "iface list"
  | IMap "(string \<times> iface) list"

type_synonym gomap = "(string \<times> iface) list"

text \<open>
  The verb \<open>%v\<close> of \<open>fmt\<close> on such a value: a map prints as \<open>map[k:v k:v]\<close> with its
  keys in sorted order, a slice as \<open>[v v]\<close>, nil as \<open><nil>\<close>.
\<close>

fun fmt_v :: "iface \<Rightarrow> string" where
  "fmt_v INil = ''<nil>''"
| "fmt_v (IBool b) = (if b then ''true'' else ''false'')"
| "fmt_v (IFloat64 s) = s"
| "fmt_v (IString s) = s"
| "fmt_v (ISlice xs) = ''['' @ Join (map fmt_v xs) '' '' @ '']''"
| "fmt_v (IMap kvs) =
     ''map['' @
     Join (map (\<lambda>kv. fst kv @ '':'' @ snd kv)
             (sort_key fst (map (\<lambda>kv. (fst kv, fmt_v (snd kv))) kvs))) '' '' @
     '']''"

definition fmt_map :: "gomap \<Rightarrow> string" where
  "fmt_map m = fmt_v (IMap m)"

subsection \<open>The transport client\<close>

type_synonym raw = string

record GraphQLRequest =
  Query :: string
  Variables :: gomap

record GraphQLError =
  Message :: string
  Path :: "iface list"
  Extensions :: gomap

record GraphQLResponse =
  Data :: raw
  Errors :: "GraphQLError list"

text \<open>
  \<open>%v\<close> on the slice of errors: \<open>GraphQLError\<close> implements \<open>error\<close>, so each entry
  prints as its \<open>Error()\<close>, the message.
\<close>

definition fmt_errors :: "GraphQLError list \<Rightarrow> string" where
  "fmt_errors errs = ''['' @ Join (map Message errs) '' '' @ '']''"

record http_request =
  req_method :: string
  req_url :: string
  req_header :: "string \<rightharpoonup> string"
  req_body :: raw

definition Header_Set :: "string \<Rightarrow> string \<Rightarrow> http_request \<Rightarrow> http_request" where
  "Header_Set k v r = r\<lparr>req_header := (req_header r)(k \<mapsto> v)\<rparr>"

text \<open>The response of the server: the status code and what \<open>io.ReadAll\<close> of the body yields.\<close>

record http_response =
  StatusCode :: nat
  Body :: "error + raw"

text \<open>
  What lies outside the repository, as the client uses it: \<open>json.Marshal\<close> of the
  request, \<open>http.NewRequestWithContext\<close>, \<open>httpClient.Do\<close>, and \<open>json.Unmarshal\<close>
  into each target the client declares. \<open>Unmarshal_RawMessage f\<close> decodes into a
  struct whose one field, with JSON name \<open>f\<close>, is a \<open>json.RawMessage\<close>;
  \<open>Unmarshal_Graph\<close>, \<open>Unmarshal_Branch\<close>, \<open>Unmarshal_Branch_id\<close> and
  \<open>Unmarshal_Subgraph\<close> decode into a struct whose one field is the entity (the success
  shape of a mutation) and yield that entity; \<open>Unmarshal_DeletedID\<close> decodes into the
  success shape of a deletion; \<open>Unmarshal_map\<close> decodes into a
  \<open>map[string]interface{}\<close>; \<open>Unmarshal_GraphPtr f\<close> decodes into a struct whose one
  field, with JSON name \<open>f\<close>, is a pointer to a graph.
\<close>

record world =
  json_Marshal :: "GraphQLRequest \<Rightarrow> error + raw"
  http_NewRequest :: "string \<Rightarrow> string \<Rightarrow> raw \<Rightarrow> error + http_request"
  httpClient_Do :: "http_request \<Rightarrow> error + http_response"
  Unmarshal_GraphQLResponse :: "raw \<Rightarrow> error + GraphQLResponse"
  Unmarshal_RawMessage :: "string \<Rightarrow> raw \<Rightarrow> error + raw"
  Unmarshal_Graph :: "raw \<Rightarrow> error + Graph"
  Unmarshal_Branch :: "raw \<Rightarrow> error + Branch"
  Unmarshal_Branch_id :: "raw \<Rightarrow> error + Branch_id"
  Unmarshal_Subgraph :: "raw \<Rightarrow> error + Subgraph"
  Unmarshal_DeletedID :: "raw \<Rightarrow> error + string"
  Unmarshal_map :: "raw \<Rightarrow> error + gomap"
  Unmarshal_GraphPtr :: "string \<Rightarrow> raw \<Rightarrow> error + Graph option"

definition DefaultAPIURL :: string where
  "DefaultAPIURL = ''https://api.grafbase.com/graphql''"

record Client =
  httpClient_Timeout :: nat
  apiURL :: string
  apiKey :: string

text \<open>\<open>NewClient\<close>: a 30 second timeout, the default URL and the given key.\<close>

definition NewClient :: "string \<Rightarrow> Client" where
  "NewClient key = \<lparr>httpClient_Timeout = 30, apiURL = DefaultAPIURL, apiKey = key\<rparr>"

text \<open>
  \<open>ExecuteQuery\<close> returns a pointer to the decoded response and an error; either may
  be nil, here \<open>None\<close>.
\<close>

definition ExecuteQuery ::
  "world \<Rightarrow> Client \<Rightarrow> string \<Rightarrow> gomap \<Rightarrow> GraphQLResponse option \<times> error option" where
  "ExecuteQuery w c query variables =
     (let request = \<lparr>Query = query, Variables = variables\<rparr> in
      case json_Marshal w request of
        Inl err \<Rightarrow> (None, Some (''failed to marshal request: '' @ err))
      | Inr requestBody \<Rightarrow>
          (case http_NewRequest w ''POST'' (apiURL c) requestBody of
             Inl err \<Rightarrow> (None, Some (''failed to create request: '' @ err))
           | Inr httpReq \<Rightarrow>
               let httpReq = Header_Set ''Content-Type'' ''application/json'' httpReq;
                   httpReq = Header_Set ''Authorization'' (''Bearer '' @ apiKey c) httpReq
               in (case httpClient_Do w httpReq of
                     Inl err \<Rightarrow> (None, Some (''failed to execute request: '' @ err))
                   | Inr resp \<Rightarrow>
                       (case Body resp of
                          Inl err \<Rightarrow> (None, Some (''failed to read response body: '' @ err))
                        | Inr body \<Rightarrow>
                            if StatusCode resp \<noteq> 200 then
                              (None, Some (''API returned status '' @ fmt_d (StatusCode resp)
                                           @ '': '' @ body))
                            else
                              (case Unmarshal_GraphQLResponse w body of
                                 Inl err \<Rightarrow> (None, Some (''failed to unmarshal response: '' @ err))
                               | Inr graphqlResp \<Rightarrow>
                                   if length (Errors graphqlResp) > 0 then
                                     (Some graphqlResp,
                                      Some (''GraphQL errors: '' @ fmt_errors (Errors graphqlResp)))
                                   else (Some graphqlResp, None))))))"

subsection \<open>Entity operations\<close>

text \<open>
  An operation returns its value, or an error, or it panics (Go's run-time panic ends the
  process). The text of each operation is passed to the server unread; its layout is
  collapsed to single spaces here. A Create operation is written in two definitions: the
  operation itself, up to the payload of the mutation, and \<open>_decode\<close>, the rest of its
  body, which decodes the payload (from the source's comment \<open>Try to parse as success
  response\<close> on).
\<close>

datatype 'a result = Returns 'a | Fails error | Panics string

definition nil_dereference :: string where
  "nil_dereference = ''invalid memory address or nil pointer dereference''"

definition CreateGraph_query :: string where
  "CreateGraph_query = ''mutation CreateGraph($input: GraphCreateInput!) { graphCreate(input: $input) { ... on GraphCreateSuccess { graph { id slug createdAt account { id slug name } } } ... on AccountDoesNotExistError { __typename } ... on DisabledAccountError { __typename } ... on SlugAlreadyExistsError { __typename } ... on SlugInvalidError { __typename } ... on SlugTooLongError { __typename maxLength } } }''"

definition CreateGraph_decode :: "world \<Rightarrow> raw \<Rightarrow> Graph result" where
  "CreateGraph_decode w graphCreate =
     (let successResp = Unmarshal_Graph w graphCreate in
      if \<not> isl successResp \<and> Graph_ID (projr successResp) \<noteq> [] then
        Returns (projr successResp)
      else
        (case Unmarshal_map w graphCreate of
           Inl err \<Rightarrow> Fails (''failed to parse response: '' @ err)
         | Inr errorResp \<Rightarrow> Fails (''graph creation failed: '' @ fmt_map errorResp)))"

definition CreateGraph :: "world \<Rightarrow> Client \<Rightarrow> CreateGraphInput \<Rightarrow> Graph result" where
  "CreateGraph w c input =
     (let variables = [(''input'', IMap [(''accountId'', IString (cgi_AccountID input)),
                                         (''graphSlug'', IString (cgi_GraphSlug input))])] in
      case ExecuteQuery w c CreateGraph_query variables of
        (_, Some err) \<Rightarrow> Fails (''failed to create graph: '' @ err)
      | (None, None) \<Rightarrow> Panics nil_dereference
      | (Some resp, None) \<Rightarrow>
          (case Unmarshal_RawMessage w ''graphCreate'' (Data resp) of
             Inl err \<Rightarrow> Fails (''failed to unmarshal create response: '' @ err)
           | Inr graphCreate \<Rightarrow> CreateGraph_decode w graphCreate))"

definition GetGraph_query :: string where
  "GetGraph_query = ''query GetGraph($accountSlug: String!, $graphSlug: String!) { graphByAccountSlug(accountSlug: $accountSlug, graphSlug: $graphSlug) { id slug createdAt account { id slug name } } }''"

definition GetGraph :: "world \<Rightarrow> Client \<Rightarrow> string \<Rightarrow> string \<Rightarrow> Graph result" where
  "GetGraph w c accountSlug graphSlug =
     (let variables = [(''accountSlug'', IString accountSlug), (''graphSlug'', IString graphSlug)] in
      case ExecuteQuery w c GetGraph_query variables of
        (_, Some err) \<Rightarrow> Fails (''failed to get graph: '' @ err)
      | (None, None) \<Rightarrow> Panics nil_dereference
      | (Some resp, None) \<Rightarrow>
          (case Unmarshal_GraphPtr w ''graphByAccountSlug'' (Data resp) of
             Inl err \<Rightarrow> Fails (''failed to unmarshal get response: '' @ err)
           | Inr None \<Rightarrow> Fails ''graph not found''
           | Inr (Some graph) \<Rightarrow> Returns graph))"

definition DeleteGraph_query :: string where
  "DeleteGraph_query = ''mutation DeleteGraph($input: GraphDeleteInput!) { graphDelete(input: $input) { ... on GraphDeleteSuccess { deletedId } ... on GraphDoesNotExistError { query } } }''"

definition DeleteGraph :: "world \<Rightarrow> Client \<Rightarrow> string \<Rightarrow> unit result" where
  "DeleteGraph w c id' =
     (let variables = [(''input'', IMap [(''id'', IString id')])] in
      case ExecuteQuery w c DeleteGraph_query variables of
        (_, Some err) \<Rightarrow> Fails (''failed to delete graph: '' @ err)
      | (None, None) \<Rightarrow> Panics nil_dereference
      | (Some resp, None) \<Rightarrow>
          (case Unmarshal_RawMessage w ''graphDelete'' (Data resp) of
             Inl err \<Rightarrow> Fails (''failed to unmarshal delete response: '' @ err)
           | Inr graphDelete \<Rightarrow>
               let successResp = Unmarshal_DeletedID w graphDelete in
               if \<not> isl successResp \<and> projr successResp \<noteq> [] then Returns ()
               else
                 (case Unmarshal_map w graphDelete of
                    Inl err \<Rightarrow> Fails (''failed to parse delete response: '' @ err)
                  | Inr errorResp \<Rightarrow> Fails (''graph deletion failed: '' @ fmt_map errorResp))))"

text \<open>
  \<open>CreateBranch\<close> of \<open>client.go\<close>. The comparison \<open>errorResp["__typename"] == "..."\<close>
  holds when the key is present with that string as its value.
\<close>

definition CreateBranch_query :: string where
  "CreateBranch_query = ''mutation CreateBranch($input: BranchCreateInput!) { branchCreate(input: $input) { ... on Query { branch(accountSlug: $accountSlug, graphSlug: $graphSlug, branchName: $branchName) { id name environment operationChecksEnabled operationChecksIgnoreUsageData graph { id slug } } } ... on BranchAlreadyExistsError { __typename } ... on GraphDoesNotExistError { __typename } ... on GraphNotSelfHostedError { __typename } } }''"

definition CreateBranch_decode :: "world \<Rightarrow> raw \<Rightarrow> Branch result" where
  "CreateBranch_decode w branchCreate =
     (let successResp = Unmarshal_Branch w branchCreate in
      if \<not> isl successResp \<and> Branch_ID (projr successResp) \<noteq> [] then
        Returns (projr successResp)
      else
        (case Unmarshal_map w branchCreate of
           Inl err \<Rightarrow> Fails (''failed to parse response: '' @ err)
         | Inr errorResp \<Rightarrow>
             if map_of errorResp ''__typename'' = Some (IString ''BranchAlreadyExistsError'')
               then Fails ''branch already exists''
             else if map_of errorResp ''__typename'' = Some (IString ''GraphDoesNotExistError'')
               then Fails ''graph does not exist''
             else if map_of errorResp ''__typename'' = Some (IString ''GraphNotSelfHostedError'')
               then Fails ''graph is not self-hosted''
             else Fails (''branch creation failed: '' @ fmt_map errorResp)))"

definition CreateBranch :: "world \<Rightarrow> Client \<Rightarrow> CreateBranchInput \<Rightarrow> Branch result" where
  "CreateBranch w c input =
     (let variables =
            [(''input'', IMap [(''accountSlug'', IString (cbi_AccountSlug input)),
                               (''graphSlug'', IString (cbi_GraphSlug input)),
                               (''branchName'', IString (cbi_BranchName input))]),
             (''accountSlug'', IString (cbi_AccountSlug input)),
             (''graphSlug'', IString (cbi_GraphSlug input)),
             (''branchName'', IString (cbi_BranchName input))] in
      case ExecuteQuery w c CreateBranch_query variables of
        (_, Some err) \<Rightarrow> Fails (''failed to create branch: '' @ err)
      | (None, None) \<Rightarrow> Panics nil_dereference
      | (Some resp, None) \<Rightarrow>
          (case Unmarshal_RawMessage w ''branchCreate'' (Data resp) of
             Inl err \<Rightarrow> Fails (''failed to unmarshal create response: '' @ err)
           | Inr branchCreate \<Rightarrow> CreateBranch_decode w branchCreate))"

text \<open>
  \<open>DeleteBranch\<close> of \<open>client.go\<close>. The type assertion
  \<open>deleteResp["__typename"].(string)\<close> has no \<open>ok\<close> result: it panics unless the key
  is present with a string as its value.
\<close>

fun dynamic_type :: "iface option \<Rightarrow> string" where
  "dynamic_type None = ''nil''"
| "dynamic_type (Some INil) = ''nil''"
| "dynamic_type (Some (IBool b)) = ''bool''"
| "dynamic_type (Some (IFloat64 n)) = ''float64''"
| "dynamic_type (Some (IString s)) = ''string''"
| "dynamic_type (Some (ISlice xs)) = ''[]interface {}''"
| "dynamic_type (Some (IMap m)) = ''map[string]interface {}''"

definition interface_conversion :: "iface option \<Rightarrow> string \<Rightarrow> string" where
  "interface_conversion v T =
     ''interface conversion: interface {} is '' @ dynamic_type v @ '', not '' @ T"

definition DeleteBranch_query :: string where
  "DeleteBranch_query = ''mutation DeleteBranch($accountSlug: String!, $graphSlug: String!, $branchName: String!) { branchDelete(accountSlug: $accountSlug, graphSlug: $graphSlug, branchName: $branchName) { ... on Query { __typename } ... on BranchDoesNotExistError { __typename } ... on CannotDeleteProductionBranchError { __typename } } }''"

definition DeleteBranch :: "world \<Rightarrow> Client \<Rightarrow> DeleteBranchInput \<Rightarrow> unit result" where
  "DeleteBranch w c input =
     (let variables = [(''accountSlug'', IString (dbi_AccountSlug input)),
                       (''graphSlug'', IString (dbi_GraphSlug input)),
                       (''branchName'', IString (dbi_BranchName input))] in
      case ExecuteQuery w c DeleteBranch_query variables of
        (_, Some err) \<Rightarrow> Fails (''failed to delete branch: '' @ err)
      | (None, None) \<Rightarrow> Panics nil_dereference
      | (Some resp, None) \<Rightarrow>
          (case Unmarshal_RawMessage w ''branchDelete'' (Data resp) of
             Inl err \<Rightarrow> Fails (''failed to unmarshal delete response: '' @ err)
           | Inr branchDelete \<Rightarrow>
               (case Unmarshal_map w branchDelete of
                  Inl err \<Rightarrow> Fails (''failed to parse delete response: '' @ err)
                | Inr deleteResp \<Rightarrow>
                    (case map_of deleteResp ''__typename'' of
                       Some (IString typename) \<Rightarrow>
                         if typename = ''Query'' then Returns ()
                         else if typename = ''BranchDoesNotExistError''
                           then Fails ''branch does not exist''
                         else if typename = ''CannotDeleteProductionBranchError''
                           then Fails ''cannot delete production branch''
                         else Fails (''branch deletion failed: '' @ fmt_map deleteResp)
                     | v \<Rightarrow> Panics (interface_conversion v ''string'')))))"

text \<open>The operations of the \<open>_id\<close> variant of the client.\<close>

definition CreateBranch_id_query :: string where
  "CreateBranch_id_query = ''mutation CreateBranch($input: BranchCreateInput!) { branchCreate(input: $input) { ... on BranchCreateSuccess { branch { id name createdAt graph { id slug account { id slug name } } } } ... on GraphDoesNotExistError { __typename } ... on BranchAlreadyExistsError { __typename } ... on BranchNameInvalidError { __typename } } }''"

definition CreateBranch_id_decode :: "world \<Rightarrow> raw \<Rightarrow> Branch_id result" where
  "CreateBranch_id_decode w branchCreate =
     (let successResp = Unmarshal_Branch_id w branchCreate in
      if \<not> isl successResp \<and> Branch_id_ID (projr successResp) \<noteq> [] then
        Returns (projr successResp)
      else
        (case Unmarshal_map w branchCreate of
           Inl err \<Rightarrow> Fails (''failed to parse response: '' @ err)
         | Inr errorResp \<Rightarrow> Fails (''branch creation failed: '' @ fmt_map errorResp)))"

definition CreateBranch_id :: "world \<Rightarrow> Client \<Rightarrow> CreateBranchInput_id \<Rightarrow> Branch_id result" where
  "CreateBranch_id w c input =
     (let variables = [(''input'', IMap [(''graphId'', IString (cbi_id_GraphID input)),
                                         (''branchName'', IString (cbi_id_BranchName input))])] in
      case ExecuteQuery w c CreateBranch_id_query variables of
        (_, Some err) \<Rightarrow> Fails (''failed to create branch: '' @ err)
      | (None, None) \<Rightarrow> Panics nil_dereference
      | (Some resp, None) \<Rightarrow>
          (case Unmarshal_RawMessage w ''branchCreate'' (Data resp) of
             Inl err \<Rightarrow> Fails (''failed to unmarshal create branch response: '' @ err)
           | Inr branchCreate \<Rightarrow> CreateBranch_id_decode w branchCreate))"

definition CreateSubgraph_query :: string where
  "CreateSubgraph_query = ''mutation CreateSubgraph($input: SubgraphCreateInput!) { subgraphCreate(input: $input) { ... on SubgraphCreateSuccess { subgraph { id name url createdAt branch { id name graph { id slug account { id slug name } } } } } ... on BranchDoesNotExistError { __typename } ... on SubgraphAlreadyExistsError { __typename } ... on SubgraphNameInvalidError { __typename } ... on SubgraphUrlInvalidError { __typename } } }''"

definition CreateSubgraph_decode :: "world \<Rightarrow> raw \<Rightarrow> Subgraph result" where
  "CreateSubgraph_decode w subgraphCreate =
     (let successResp = Unmarshal_Subgraph w subgraphCreate in
      if \<not> isl successResp \<and> Subgraph_ID (projr successResp) \<noteq> [] then
        Returns (projr successResp)
      else
        (case Unmarshal_map w subgraphCreate of
           Inl err \<Rightarrow> Fails (''failed to parse response: '' @ err)
         | Inr errorResp \<Rightarrow> Fails (''subgraph creation failed: '' @ fmt_map errorResp)))"

definition CreateSubgraph :: "world \<Rightarrow> Client \<Rightarrow> CreateSubgraphInput \<Rightarrow> Subgraph result" where
  "CreateSubgraph w c input =
     (let variables = [(''input'', IMap [(''branchId'', IString (csi_BranchID input)),
                                         (''subgraphName'', IString (csi_SubgraphName input)),
                                         (''url'', IString (csi_URL input))])] in
      case ExecuteQuery w c CreateSubgraph_query variables of
        (_, Some err) \<Rightarrow> Fails (''failed to create subgraph: '' @ err)
      | (None, None) \<Rightarrow> Panics nil_dereference
      | (Some resp, None) \<Rightarrow>
          (case Unmarshal_RawMessage w ''subgraphCreate'' (Data resp) of
             Inl err \<Rightarrow> Fails (''failed to unmarshal create subgraph response: '' @ err)
           | Inr subgraphCreate \<Rightarrow> CreateSubgraph_decode w subgraphCreate))"

definition UpdateSubgraph_query :: string where
  "UpdateSubgraph_query = ''mutation UpdateSubgraph($input: SubgraphUpdateInput!) { subgraphUpdate(input: $input) { ... on SubgraphUpdateSuccess { subgraph { id name url createdAt branch { id name graph { id slug account { id slug name } } } } } ... on SubgraphDoesNotExistError { __typename } ... on SubgraphUrlInvalidError { __typename } } }''"

definition UpdateSubgraph :: "world \<Rightarrow> Client \<Rightarrow> string \<Rightarrow> string \<Rightarrow> Subgraph result" where
  "UpdateSubgraph w c id' url =
     (let variables = [(''input'', IMap [(''id'', IString id'), (''url'', IString url)])] in
      case ExecuteQuery w c UpdateSubgraph_query variables of
        (_, Some err) \<Rightarrow> Fails (''failed to update subgraph: '' @ err)
      | (None, None) \<Rightarrow> Panics nil_dereference
      | (Some resp, None) \<Rightarrow>
          (case Unmarshal_RawMessage w ''subgraphUpdate'' (Data resp) of
             Inl err \<Rightarrow> Fails (''failed to unmarshal update subgraph response: '' @ err)
           | Inr subgraphUpdate \<Rightarrow>
               let successResp = Unmarshal_Subgraph w subgraphUpdate in
               if \<not> isl successResp \<and> Subgraph_ID (projr successResp) \<noteq> [] then
                 Returns (projr successResp)
               else
                 (case Unmarshal_map w subgraphUpdate of
                    Inl err \<Rightarrow> Fails (''failed to parse response: '' @ err)
                  | Inr errorResp \<Rightarrow> Fails (''subgraph update failed: '' @ fmt_map errorResp))))"


section \<open>The resource adapters\<close>

text \<open>
  A resource holds the client handle the provider hands over. Its hooks see the client
  only through the methods they call, so a hook is modelled over \<open>client_api\<close>: for each
  method, the value or the error it returns. A hook returns the response it leaves and
  the calls it made, in order.
\<close>

record client_api =
  api_GetAccountBySlug :: "string \<Rightarrow> error + Account"
  api_CreateGraph :: "CreateGraphInput \<Rightarrow> error + Graph"
  api_GetGraph :: "string \<Rightarrow> string \<Rightarrow> error + Graph"
  api_DeleteGraph :: "string \<Rightarrow> error option"
  api_CreateBranch :: "CreateBranchInput \<Rightarrow> error + Branch"
  api_GetBranch :: "string \<Rightarrow> string \<Rightarrow> string \<Rightarrow> error + Branch"
  api_DeleteBranch :: "DeleteBranchInput \<Rightarrow> error option"
  api_CreateBranch_id :: "CreateBranchInput_id \<Rightarrow> error + Branch_id"
  api_GetBranch_id :: "string \<Rightarrow> string \<Rightarrow> error + Branch_id"
  api_DeleteBranch_id :: "string \<Rightarrow> error option"
  api_CreateSubgraph :: "CreateSubgraphInput \<Rightarrow> error + Subgraph"
  api_GetSubgraph :: "string \<Rightarrow> string \<Rightarrow> error + Subgraph"
  api_UpdateSubgraph :: "string \<Rightarrow> string \<Rightarrow> error + Subgraph"
  api_DeleteSubgraph :: "string \<Rightarrow> error option"

datatype call =
    Call_GetAccountBySlug string
  | Call_CreateGraph CreateGraphInput
  | Call_GetGraph string string
  | Call_DeleteGraph string
  | Call_CreateBranch CreateBranchInput
  | Call_GetBranch string string string
  | Call_DeleteBranch DeleteBranchInput
  | Call_CreateBranch_id CreateBranchInput_id
  | Call_GetBranch_id string string
  | Call_DeleteBranch_id string
  | Call_CreateSubgraph CreateSubgraphInput
  | Call_GetSubgraph string string
  | Call_UpdateSubgraph string string
  | Call_DeleteSubgraph string

definition layout :: string where
  "layout = ''2006-01-02T15:04:05Z07:00''"

subsection \<open>Graph\<close>

record GraphResourceModel =
  g_ID :: tf_string
  g_AccountSlug :: tf_string
  g_Slug :: tf_string
  g_CreatedAt :: tf_string

definition null_GraphResourceModel :: GraphResourceModel where
  "null_GraphResourceModel =
     \<lparr>g_ID = StringNull, g_AccountSlug = StringNull, g_Slug = StringNull, g_CreatedAt = StringNull\<rparr>"

definition GraphResource_Create ::
  "(Time \<Rightarrow> string \<Rightarrow> string) \<Rightarrow> client_api \<Rightarrow> GraphResourceModel decoded \<Rightarrow>
   GraphResourceModel response \<Rightarrow> GraphResourceModel response \<times> call list" where
  "GraphResource_Create Format cl req resp =
     (let data = decode_value req;
          resp = resp_Append (decode_diags req) resp
      in if HasError (Diagnostics resp) then (resp, [])
         else
           (case api_GetAccountBySlug cl (ValueString (g_AccountSlug data)) of
              Inl err \<Rightarrow>
                (resp_AddError ''Client Error'' (''Unable to get account: '' @ err) resp,
                 [Call_GetAccountBySlug (ValueString (g_AccountSlug data))])
            | Inr account \<Rightarrow>
                let createInput = \<lparr>cgi_AccountID = Account_ID account,
                                   cgi_GraphSlug = ValueString (g_Slug data)\<rparr>
                in (case api_CreateGraph cl createInput of
                      Inl err \<Rightarrow>
                        (resp_AddError ''Client Error'' (''Unable to create graph: '' @ err) resp,
                         [Call_GetAccountBySlug (ValueString (g_AccountSlug data)),
                          Call_CreateGraph createInput])
                    | Inr graph \<Rightarrow>
                        let data = data\<lparr>g_ID := StringValue (Graph_ID graph)\<rparr>;
                            data = data\<lparr>g_CreatedAt :=
                                     StringValue (Format (Graph_CreatedAt graph) layout)\<rparr>
                        in (State_Set data resp,
                            [Call_GetAccountBySlug (ValueString (g_AccountSlug data)),
                             Call_CreateGraph createInput]))))"

definition GraphResource_Read ::
  "(Time \<Rightarrow> string \<Rightarrow> string) \<Rightarrow> client_api \<Rightarrow> GraphResourceModel decoded \<Rightarrow>
   GraphResourceModel response \<Rightarrow> GraphResourceModel response \<times> call list" where
  "GraphResource_Read Format cl req resp =
     (let data = decode_value req;
          resp = resp_Append (decode_diags req) resp
      in if HasError (Diagnostics resp) then (resp, [])
         else
           (case api_GetGraph cl (ValueString (g_AccountSlug data)) (ValueString (g_Slug data)) of
              Inl err \<Rightarrow>
                if err = ''graph not found'' then
                  (RemoveResource resp,
                   [Call_GetGraph (ValueString (g_AccountSlug data)) (ValueString (g_Slug data))])
                else
                  (resp_AddError ''Client Error'' (''Unable to read graph: '' @ err) resp,
                   [Call_GetGraph (ValueString (g_AccountSlug data)) (ValueString (g_Slug data))])
            | Inr graph \<Rightarrow>
                let data = data\<lparr>g_ID := StringValue (Graph_ID graph)\<rparr>;
                    data = data\<lparr>g_CreatedAt :=
                             StringValue (Format (Graph_CreatedAt graph) layout)\<rparr>
                in (State_Set data resp,
                    [Call_GetGraph (ValueString (g_AccountSlug data)) (ValueString (g_Slug data))])))"

definition GraphResource_Update ::
  "client_api \<Rightarrow> GraphResourceModel decoded \<Rightarrow>
   GraphResourceModel response \<Rightarrow> GraphResourceModel response \<times> call list" where
  "GraphResource_Update cl req resp =
     (let resp = resp_Append (decode_diags req) resp
      in if HasError (Diagnostics resp) then (resp, [])
         else
           (resp_AddError ''Update Not Supported''
              ''Graph updates are not supported. Changes to account_slug or slug require resource replacement.''
              resp, []))"

definition GraphResource_Delete ::
  "client_api \<Rightarrow> GraphResourceModel decoded \<Rightarrow>
   GraphResourceModel response \<Rightarrow> GraphResourceModel response \<times> call list" where
  "GraphResource_Delete cl req resp =
     (let data = decode_value req;
          resp = resp_Append (decode_diags req) resp
      in if HasError (Diagnostics resp) then (resp, [])
         else
           (case api_DeleteGraph cl (ValueString (g_ID data)) of
              Some err \<Rightarrow>
                (resp_AddError ''Client Error'' (''Unable to delete graph: '' @ err) resp,
                 [Call_DeleteGraph (ValueString (g_ID data))])
            | None \<Rightarrow> (resp, [Call_DeleteGraph (ValueString (g_ID data))])))"

definition GraphResource_ImportState ::
  "(Time \<Rightarrow> string \<Rightarrow> string) \<Rightarrow> client_api \<Rightarrow> string \<Rightarrow>
   GraphResourceModel response \<Rightarrow> GraphResourceModel response \<times> call list" where
  "GraphResource_ImportState Format cl req_ID resp =
     (case parseImportID req_ID of
        Inl err \<Rightarrow>
          (resp_AddError ''Import Error''
             (''Invalid import ID format. Expected 'account_slug/graph_slug', got: '' @ req_ID) resp,
           [])
      | Inr (accountSlug, graphSlug) \<Rightarrow>
          let resp = SetAttribute null_GraphResourceModel
                       (\<lambda>m. m\<lparr>g_AccountSlug := StringValue accountSlug\<rparr>) resp;
              resp = SetAttribute null_GraphResourceModel
                       (\<lambda>m. m\<lparr>g_Slug := StringValue graphSlug\<rparr>) resp
          in (case api_GetGraph cl accountSlug graphSlug of
                Inl err \<Rightarrow>
                  (resp_AddError ''Import Error'' (''Unable to read graph during import: '' @ err) resp,
                   [Call_GetGraph accountSlug graphSlug])
              | Inr graph \<Rightarrow>
                  let resp = SetAttribute null_GraphResourceModel
                               (\<lambda>m. m\<lparr>g_ID := StringValue (Graph_ID graph)\<rparr>) resp;
                      resp = SetAttribute null_GraphResourceModel
                               (\<lambda>m. m\<lparr>g_CreatedAt :=
                                        StringValue (Format (Graph_CreatedAt graph) layout)\<rparr>) resp
                  in (resp, [Call_GetGraph accountSlug graphSlug])))"

subsection \<open>Branch, keyed by account slug, graph slug and name\<close>

record BranchResourceModel =
  b_ID :: tf_string
  b_AccountSlug :: tf_string
  b_GraphSlug :: tf_string
  b_Name :: tf_string
  b_Environment :: tf_string
  b_OperationChecksEnabled :: tf_bool
  b_OperationChecksIgnoreUsageData :: tf_bool

definition null_BranchResourceModel :: BranchResourceModel where
  "null_BranchResourceModel =
     \<lparr>b_ID = StringNull, b_AccountSlug = StringNull, b_GraphSlug = StringNull, b_Name = StringNull,
      b_Environment = StringNull, b_OperationChecksEnabled = BoolNull,
      b_OperationChecksIgnoreUsageData = BoolNull\<rparr>"

definition BranchResource_Create ::
  "client_api \<Rightarrow> BranchResourceModel decoded \<Rightarrow>
   BranchResourceModel response \<Rightarrow> BranchResourceModel response \<times> call list" where
  "BranchResource_Create cl req resp =
     (let data = decode_value req;
          resp = resp_Append (decode_diags req) resp
      in if HasError (Diagnostics resp) then (resp, [])
         else
           let createInput = \<lparr>cbi_AccountSlug = ValueString (b_AccountSlug data),
                              cbi_GraphSlug = ValueString (b_GraphSlug data),
                              cbi_BranchName = ValueString (b_Name data)\<rparr>
           in (case api_CreateBranch cl createInput of
                 Inl err \<Rightarrow>
                   (resp_AddError ''Client Error'' (''Unable to create branch: '' @ err) resp,
                    [Call_CreateBranch createInput])
               | Inr branch \<Rightarrow>
                   let data = data\<lparr>b_ID := StringValue (Branch_ID branch)\<rparr>;
                       data = data\<lparr>b_Environment := StringValue (Branch_Environment branch)\<rparr>;
                       data = data\<lparr>b_OperationChecksEnabled :=
                                BoolValue (Branch_OperationChecksEnabled branch)\<rparr>;
                       data = data\<lparr>b_OperationChecksIgnoreUsageData :=
                                BoolValue (Branch_OperationChecksIgnoreUsageData branch)\<rparr>
                   in (State_Set data resp, [Call_CreateBranch createInput])))"

definition BranchResource_Read ::
  "client_api \<Rightarrow> BranchResourceModel decoded \<Rightarrow>
   BranchResourceModel response \<Rightarrow> BranchResourceModel response \<times> call list" where
  "BranchResource_Read cl req resp =
     (let data = decode_value req;
          resp = resp_Append (decode_diags req) resp
      in if HasError (Diagnostics resp) then (resp, [])
         else
           let calls = [Call_GetBranch (ValueString (b_AccountSlug data))
                          (ValueString (b_GraphSlug data)) (ValueString (b_Name data))]
           in (case api_GetBranch cl (ValueString (b_AccountSlug data))
                      (ValueString (b_GraphSlug data)) (ValueString (b_Name data)) of
                 Inl err \<Rightarrow>
                   if err = ''branch not found'' then (RemoveResource resp, calls)
                   else (resp_AddError ''Client Error'' (''Unable to read branch: '' @ err) resp, calls)
               | Inr branch \<Rightarrow>
                   let data = data\<lparr>b_ID := StringValue (Branch_ID branch)\<rparr>;
                       data = data\<lparr>b_Environment := StringValue (Branch_Environment branch)\<rparr>;
                       data = data\<lparr>b_OperationChecksEnabled :=
                                BoolValue (Branch_OperationChecksEnabled branch)\<rparr>;
                       data = data\<lparr>b_OperationChecksIgnoreUsageData :=
                                BoolValue (Branch_OperationChecksIgnoreUsageData branch)\<rparr>
                   in (State_Set data resp, calls)))"

definition BranchResource_Update ::
  "client_api \<Rightarrow> BranchResourceModel decoded \<Rightarrow>
   BranchResourceModel response \<Rightarrow> BranchResourceModel response \<times> call list" where
  "BranchResource_Update cl req resp =
     (let resp = resp_Append (decode_diags req) resp
      in if HasError (Diagnostics resp) then (resp, [])
         else
           (resp_AddError ''Update Not Supported''
              ''Branch updates are not supported. Changes to account_slug, graph_slug, or name require resource replacement.''
              resp, []))"

definition BranchResource_Delete ::
  "client_api \<Rightarrow> BranchResourceModel decoded \<Rightarrow>
   BranchResourceModel response \<Rightarrow> BranchResourceModel response \<times> call list" where
  "BranchResource_Delete cl req resp =
     (let data = decode_value req;
          resp = resp_Append (decode_diags req) resp
      in if HasError (Diagnostics resp) then (resp, [])
         else
           let deleteInput = \<lparr>dbi_AccountSlug = ValueString (b_AccountSlug data),
                              dbi_GraphSlug = ValueString (b_GraphSlug data),
                              dbi_BranchName = ValueString (b_Name data)\<rparr>
           in (case api_DeleteBranch cl deleteInput of
                 Some err \<Rightarrow>
                   if Contains err ''does not exist'' then (resp, [Call_DeleteBranch deleteInput])
                   else (resp_AddError ''Client Error'' (''Unable to delete branch: '' @ err) resp,
                         [Call_DeleteBranch deleteInput])
               | None \<Rightarrow> (resp, [Call_DeleteBranch deleteInput])))"

text \<open>
  \<open>ImportState\<close> of this variant splits the identifier itself and checks the number of
  parts only.
\<close>

definition BranchResource_ImportState ::
  "client_api \<Rightarrow> string \<Rightarrow>
   BranchResourceModel response \<Rightarrow> BranchResourceModel response \<times> call list" where
  "BranchResource_ImportState cl req_ID resp =
     (let parts = Split req_ID CHR ''/'' in
      if length parts \<noteq> 3 then
        (resp_AddError ''Import Error''
           (''Invalid import ID format. Expected 'account_slug/graph_slug/branch_name', got: ''
            @ req_ID) resp, [])
      else
        let accountSlug = parts ! 0;
            graphSlug = parts ! 1;
            branchName = parts ! 2;
            resp = SetAttribute null_BranchResourceModel
                     (\<lambda>m. m\<lparr>b_AccountSlug := StringValue accountSlug\<rparr>) resp;
            resp = SetAttribute null_BranchResourceModel
                     (\<lambda>m. m\<lparr>b_GraphSlug := StringValue graphSlug\<rparr>) resp;
            resp = SetAttribute null_BranchResourceModel
                     (\<lambda>m. m\<lparr>b_Name := StringValue branchName\<rparr>) resp
        in (case api_GetBranch cl accountSlug graphSlug branchName of
              Inl err \<Rightarrow>
                (resp_AddError ''Import Error'' (''Unable to read branch during import: '' @ err) resp,
                 [Call_GetBranch accountSlug graphSlug branchName])
            | Inr branch \<Rightarrow>
                let resp = SetAttribute null_BranchResourceModel
                             (\<lambda>m. m\<lparr>b_ID := StringValue (Branch_ID branch)\<rparr>) resp;
                    resp = SetAttribute null_BranchResourceModel
                             (\<lambda>m. m\<lparr>b_Environment := StringValue (Branch_Environment branch)\<rparr>) resp;
                    resp = SetAttribute null_BranchResourceModel
                             (\<lambda>m. m\<lparr>b_OperationChecksEnabled :=
                                      BoolValue (Branch_OperationChecksEnabled branch)\<rparr>) resp;
                    resp = SetAttribute null_BranchResourceModel
                             (\<lambda>m. m\<lparr>b_OperationChecksIgnoreUsageData :=
                                      BoolValue (Branch_OperationChecksIgnoreUsageData branch)\<rparr>) resp
                in (resp, [Call_GetBranch accountSlug graphSlug branchName])))"

subsection \<open>Branch, keyed by graph identifier and name\<close>

record BranchResourceModel_id =
  bi_ID :: tf_string
  bi_GraphID :: tf_string
  bi_Name :: tf_string
  bi_CreatedAt :: tf_string

definition null_BranchResourceModel_id :: BranchResourceModel_id where
  "null_BranchResourceModel_id =
     \<lparr>bi_ID = StringNull, bi_GraphID = StringNull, bi_Name = StringNull, bi_CreatedAt = StringNull\<rparr>"

definition BranchResource_Create_id ::
  "(Time \<Rightarrow> string \<Rightarrow> string) \<Rightarrow> client_api \<Rightarrow> BranchResourceModel_id decoded \<Rightarrow>
   BranchResourceModel_id response \<Rightarrow> BranchResourceModel_id response \<times> call list" where
  "BranchResource_Create_id Format cl req resp =
     (let data = decode_value req;
          resp = resp_Append (decode_diags req) resp
      in if HasError (Diagnostics resp) then (resp, [])
         else
           let createInput = \<lparr>cbi_id_GraphID = ValueString (bi_GraphID data),
                              cbi_id_BranchName = ValueString (bi_Name data)\<rparr>
           in (case api_CreateBranch_id cl createInput of
                 Inl err \<Rightarrow>
                   (resp_AddError ''Client Error'' (''Unable to create branch: '' @ err) resp,
                    [Call_CreateBranch_id createInput])
               | Inr branch \<Rightarrow>
                   let data = data\<lparr>bi_ID := StringValue (Branch_id_ID branch)\<rparr>;
                       data = data\<lparr>bi_CreatedAt :=
                                StringValue (Format (Branch_id_CreatedAt branch) layout)\<rparr>
                   in (State_Set data resp, [Call_CreateBranch_id createInput])))"

definition BranchResource_Read_id ::
  "(Time \<Rightarrow> string \<Rightarrow> string) \<Rightarrow> client_api \<Rightarrow> BranchResourceModel_id decoded \<Rightarrow>
   BranchResourceModel_id response \<Rightarrow> BranchResourceModel_id response \<times> call list" where
  "BranchResource_Read_id Format cl req resp =
     (let data = decode_value req;
          resp = resp_Append (decode_diags req) resp
      in if HasError (Diagnostics resp) then (resp, [])
         else
           let calls = [Call_GetBranch_id (ValueString (bi_GraphID data)) (ValueString (bi_Name data))]
           in (case api_GetBranch_id cl (ValueString (bi_GraphID data)) (ValueString (bi_Name data)) of
                 Inl err \<Rightarrow>
                   if err = ''branch not found'' then (RemoveResource resp, calls)
                   else (resp_AddError ''Client Error'' (''Unable to read branch: '' @ err) resp, calls)
               | Inr branch \<Rightarrow>
                   let data = data\<lparr>bi_ID := StringValue (Branch_id_ID branch)\<rparr>;
                       data = data\<lparr>bi_CreatedAt :=
                                StringValue (Format (Branch_id_CreatedAt branch) layout)\<rparr>
                   in (State_Set data resp, calls)))"

definition BranchResource_Update_id ::
  "client_api \<Rightarrow> BranchResourceModel_id decoded \<Rightarrow>
   BranchResourceModel_id response \<Rightarrow> BranchResourceModel_id response \<times> call list" where
  "BranchResource_Update_id cl req resp =
     (let resp = resp_Append (decode_diags req) resp
      in if HasError (Diagnostics resp) then (resp, [])
         else
           (resp_AddError ''Update Not Supported''
              ''Branch updates are not supported. Changes to graph_id or name require resource replacement.''
              resp, []))"

definition BranchResource_Delete_id ::
  "client_api \<Rightarrow> BranchResourceModel_id decoded \<Rightarrow>
   BranchResourceModel_id response \<Rightarrow> BranchResourceModel_id response \<times> call list" where
  "BranchResource_Delete_id cl req resp =
     (let data = decode_value req;
          resp = resp_Append (decode_diags req) resp
      in if HasError (Diagnostics resp) then (resp, [])
         else
           (case api_DeleteBranch_id cl (ValueString (bi_ID data)) of
              Some err \<Rightarrow>
                (resp_AddError ''Client Error'' (''Unable to delete branch: '' @ err) resp,
                 [Call_DeleteBranch_id (ValueString (bi_ID data))])
            | None \<Rightarrow> (resp, [Call_DeleteBranch_id (ValueString (bi_ID data))])))"

definition BranchResource_ImportState_id ::
  "(Time \<Rightarrow> string \<Rightarrow> string) \<Rightarrow> client_api \<Rightarrow> string \<Rightarrow>
   BranchResourceModel_id response \<Rightarrow> BranchResourceModel_id response \<times> call list" where
  "BranchResource_ImportState_id Format cl req_ID resp =
     (case parseBranchImportID req_ID of
        Inl err \<Rightarrow>
          (resp_AddError ''Import Error''
             (''Invalid import ID format. Expected 'graph_id/branch_name', got: '' @ req_ID) resp,
           [])
      | Inr (graphID, branchName) \<Rightarrow>
          let resp = SetAttribute null_BranchResourceModel_id
                       (\<lambda>m. m\<lparr>bi_GraphID := StringValue graphID\<rparr>) resp;
              resp = SetAttribute null_BranchResourceModel_id
                       (\<lambda>m. m\<lparr>bi_Name := StringValue branchName\<rparr>) resp
          in (case api_GetBranch_id cl graphID branchName of
                Inl err \<Rightarrow>
                  (resp_AddError ''Import Error'' (''Unable to read branch during import: '' @ err) resp,
                   [Call_GetBranch_id graphID branchName])
              | Inr branch \<Rightarrow>
                  let resp = SetAttribute null_BranchResourceModel_id
                               (\<lambda>m. m\<lparr>bi_ID := StringValue (Branch_id_ID branch)\<rparr>) resp;
                      resp = SetAttribute null_BranchResourceModel_id
                               (\<lambda>m. m\<lparr>bi_CreatedAt :=
                                        StringValue (Format (Branch_id_CreatedAt branch) layout)\<rparr>) resp
                  in (resp, [Call_GetBranch_id graphID branchName])))"

subsection \<open>Subgraph\<close>

record SubgraphResourceModel =
  s_ID :: tf_string
  s_BranchID :: tf_string
  s_Name :: tf_string
  s_URL :: tf_string
  s_CreatedAt :: tf_string

definition null_SubgraphResourceModel :: SubgraphResourceModel where
  "null_SubgraphResourceModel =
     \<lparr>s_ID = StringNull, s_BranchID = StringNull, s_Name = StringNull, s_URL = StringNull,
      s_CreatedAt = StringNull\<rparr>"

definition SubgraphResource_Create ::
  "(Time \<Rightarrow> string \<Rightarrow> string) \<Rightarrow> client_api \<Rightarrow> SubgraphResourceModel decoded \<Rightarrow>
   SubgraphResourceModel response \<Rightarrow> SubgraphResourceModel response \<times> call list" where
  "SubgraphResource_Create Format cl req resp =
     (let data = decode_value req;
          resp = resp_Append (decode_diags req) resp
      in if HasError (Diagnostics resp) then (resp, [])
         else
           let createInput = \<lparr>csi_BranchID = ValueString (s_BranchID data),
                              csi_SubgraphName = ValueString (s_Name data),
                              csi_URL = ValueString (s_URL data)\<rparr>
           in (case api_CreateSubgraph cl createInput of
                 Inl err \<Rightarrow>
                   (resp_AddError ''Client Error'' (''Unable to create subgraph: '' @ err) resp,
                    [Call_CreateSubgraph createInput])
               | Inr subgraph \<Rightarrow>
                   let data = data\<lparr>s_ID := StringValue (Subgraph_ID subgraph)\<rparr>;
                       data = data\<lparr>s_CreatedAt :=
                                StringValue (Format (Subgraph_CreatedAt subgraph) layout)\<rparr>
                   in (State_Set data resp, [Call_CreateSubgraph createInput])))"

definition SubgraphResource_Read ::
  "(Time \<Rightarrow> string \<Rightarrow> string) \<Rightarrow> client_api \<Rightarrow> SubgraphResourceModel decoded \<Rightarrow>
   SubgraphResourceModel response \<Rightarrow> SubgraphResourceModel response \<times> call list" where
  "SubgraphResource_Read Format cl req resp =
     (let data = decode_value req;
          resp = resp_Append (decode_diags req) resp
      in if HasError (Diagnostics resp) then (resp, [])
         else
           let calls = [Call_GetSubgraph (ValueString (s_BranchID data)) (ValueString (s_Name data))]
           in (case api_GetSubgraph cl (ValueString (s_BranchID data)) (ValueString (s_Name data)) of
                 Inl err \<Rightarrow>
                   if err = ''subgraph not found'' then (RemoveResource resp, calls)
                   else (resp_AddError ''Client Error'' (''Unable to read subgraph: '' @ err) resp,
                         calls)
               | Inr subgraph \<Rightarrow>
                   let data = data\<lparr>s_ID := StringValue (Subgraph_ID subgraph)\<rparr>;
                       data = data\<lparr>s_URL := StringValue (Subgraph_URL subgraph)\<rparr>;
                       data = data\<lparr>s_CreatedAt :=
                                StringValue (Format (Subgraph_CreatedAt subgraph) layout)\<rparr>
                   in (State_Set data resp, calls)))"

definition SubgraphResource_Update ::
  "client_api \<Rightarrow> SubgraphResourceModel decoded \<Rightarrow>
   SubgraphResourceModel response \<Rightarrow> SubgraphResourceModel response \<times> call list" where
  "SubgraphResource_Update cl req resp =
     (let data = decode_value req;
          resp = resp_Append (decode_diags req) resp
      in if HasError (Diagnostics resp) then (resp, [])
         else
           let calls = [Call_UpdateSubgraph (ValueString (s_ID data)) (ValueString (s_URL data))]
           in (case api_UpdateSubgraph cl (ValueString (s_ID data)) (ValueString (s_URL data)) of
                 Inl err \<Rightarrow>
                   (resp_AddError ''Client Error'' (''Unable to update subgraph: '' @ err) resp, calls)
               | Inr subgraph \<Rightarrow>
                   let data = data\<lparr>s_URL := StringValue (Subgraph_URL subgraph)\<rparr>
                   in (State_Set data resp, calls)))"

definition SubgraphResource_Delete ::
  "client_api \<Rightarrow> SubgraphResourceModel decoded \<Rightarrow>
   SubgraphResourceModel response \<Rightarrow> SubgraphResourceModel response \<times> call list" where
  "SubgraphResource_Delete cl req resp =
     (let data = decode_value req;
          resp = resp_Append (decode_diags req) resp
      in if HasError (Diagnostics resp) then (resp, [])
         else
           (case api_DeleteSubgraph cl (ValueString (s_ID data)) of
              Some err \<Rightarrow>
                (resp_AddError ''Client Error'' (''Unable to delete subgraph: '' @ err) resp,
                 [Call_DeleteSubgraph (ValueString (s_ID data))])
            | None \<Rightarrow> (resp, [Call_DeleteSubgraph (ValueString (s_ID data))])))"

definition SubgraphResource_ImportState ::
  "(Time \<Rightarrow> string \<Rightarrow> string) \<Rightarrow> client_api \<Rightarrow> string \<Rightarrow>
   SubgraphResourceModel response \<Rightarrow> SubgraphResourceModel response \<times> call list" where
  "SubgraphResource_ImportState Format cl req_ID resp =
     (case parseSubgraphImportID req_ID of
        Inl err \<Rightarrow>
          (resp_AddError ''Import Error''
             (''Invalid import ID format. Expected 'branch_id/subgraph_name', got: '' @ req_ID) resp,
           [])
      | Inr (branchID, subgraphName) \<Rightarrow>
          let resp = SetAttribute null_SubgraphResourceModel
                       (\<lambda>m. m\<lparr>s_BranchID := StringValue branchID\<rparr>) resp;
              resp = SetAttribute null_SubgraphResourceModel
                       (\<lambda>m. m\<lparr>s_Name := StringValue subgraphName\<rparr>) resp
          in (case api_GetSubgraph cl branchID subgraphName of
                Inl err \<Rightarrow>
                  (resp_AddError ''Import Error''
                     (''Unable to read subgraph during import: '' @ err) resp,
                   [Call_GetSubgraph branchID subgraphName])
              | Inr subgraph \<Rightarrow>
                  let resp = SetAttribute null_SubgraphResourceModel
                               (\<lambda>m. m\<lparr>s_ID := StringValue (Subgraph_ID subgraph)\<rparr>) resp;
                      resp = SetAttribute null_SubgraphResourceModel
                               (\<lambda>m. m\<lparr>s_URL := StringValue (Subgraph_URL subgraph)\<rparr>) resp;
                      resp = SetAttribute null_SubgraphResourceModel
                               (\<lambda>m. m\<lparr>s_CreatedAt :=
                                        StringValue (Format (Subgraph_CreatedAt subgraph) layout)\<rparr>) resp
                  in (resp, [Call_GetSubgraph branchID subgraphName])))"


section \<open>Provider configuration\<close>

record GrafbaseProviderModel =
  APIKey :: tf_string

record ConfigureResponse =
  cfg_Diagnostics :: diagnostics
  DataSourceData :: "Client option"
  ResourceData :: "Client option"

definition new_ConfigureResponse :: ConfigureResponse where
  "new_ConfigureResponse = \<lparr>cfg_Diagnostics = [], DataSourceData = None, ResourceData = None\<rparr>"

text \<open>
  \<open>GrafbaseProvider.Configure\<close>. The first argument is \<open>os.Getenv\<close> (the
  process environment), the second what \<open>req.Config.Get\<close> yields, the third the
  response the host runtime hands in.
\<close>

definition GrafbaseProvider_Configure ::
  "(string \<Rightarrow> string) \<Rightarrow> GrafbaseProviderModel decoded \<Rightarrow> ConfigureResponse \<Rightarrow> ConfigureResponse" where
  "GrafbaseProvider_Configure Getenv req resp =
     (let resp = resp\<lparr>cfg_Diagnostics := Append (cfg_Diagnostics resp) (decode_diags req)\<rparr>;
          data = decode_value req
      in if HasError (cfg_Diagnostics resp) then resp
         else
           let key = (if IsNull (APIKey data) then Getenv ''GRAFBASE_API_KEY''
                      else ValueString (APIKey data))
           in if key = [] then
                resp\<lparr>cfg_Diagnostics :=
                  AddError ''Unable to find API key''
                    (''API key cannot be an empty string. '' @
                     ''Set the api_key attribute in the provider configuration or use the GRAFBASE_API_KEY environment variable.'')
                    (cfg_Diagnostics resp)\<rparr>
              else
                let client = NewClient key
                in resp\<lparr>DataSourceData := Some client, ResourceData := Some client\<rparr>)"


section \<open>Concrete inputs\<close>

text \<open>
  A world for concrete runs: the request is built as given, the server answers every
  request with the status \<open>status\<close> and the body \<open>body\<close>, and the JSON library
  decodes the body to \<open>resp\<close>, the operation's field of the data to \<open>payload\<close> and
  the payload, as a map, to \<open>m\<close>. The success shapes decode to entities without an
  identifier, as they do for a payload that lacks the entity.
\<close>

definition zero_Account :: Account where
  "zero_Account = \<lparr>Account_ID = [], Account_Slug = [], Account_Name = []\<rparr>"

definition zero_Graph :: Graph where
  "zero_Graph = \<lparr>Graph_ID = [], Graph_Slug = [], Graph_CreatedAt = Time 0, Graph_Account = zero_Account\<rparr>"

definition zero_Branch :: Branch where
  "zero_Branch = \<lparr>Branch_ID = [], Branch_Name = [], Branch_Environment = [],
     Branch_OperationChecksEnabled = False, Branch_OperationChecksIgnoreUsageData = False,
     Branch_Graph = zero_Graph\<rparr>"

definition zero_Branch_id :: Branch_id where
  "zero_Branch_id = \<lparr>Branch_id_ID = [], Branch_id_Name = [], Branch_id_CreatedAt = Time 0,
     Branch_id_Graph = zero_Graph\<rparr>"

definition zero_Subgraph :: Subgraph where
  "zero_Subgraph = \<lparr>Subgraph_ID = [], Subgraph_Name = [], Subgraph_URL = [],
     Subgraph_CreatedAt = Time 0, Subgraph_Branch = zero_Branch_id\<rparr>"

definition fixed_world ::
  "nat \<Rightarrow> raw \<Rightarrow> error + GraphQLResponse \<Rightarrow> error + raw \<Rightarrow> error + gomap \<Rightarrow> world" where
  "fixed_world status body resp payload m =
     \<lparr>json_Marshal = (\<lambda>r. Inr (Query r)),
      http_NewRequest = (\<lambda>method url b.
        Inr \<lparr>req_method = method, req_url = url, req_header = Map.empty, req_body = b\<rparr>),
      httpClient_Do = (\<lambda>r. Inr \<lparr>StatusCode = status, Body = Inr body\<rparr>),
      Unmarshal_GraphQLResponse = (\<lambda>b. resp),
      Unmarshal_RawMessage = (\<lambda>f d. payload),
      Unmarshal_Graph = (\<lambda>p. Inr zero_Graph),
      Unmarshal_Branch = (\<lambda>p. Inr zero_Branch),
      Unmarshal_Branch_id = (\<lambda>p. Inr zero_Branch_id),
      Unmarshal_Subgraph = (\<lambda>p. Inr zero_Subgraph),
      Unmarshal_DeletedID = (\<lambda>p. Inr []),
      Unmarshal_map = (\<lambda>p. m),
      Unmarshal_GraphPtr = (\<lambda>f d. Inr None)\<rparr>"

text \<open>A response with status 200 that carries data and two errors.\<close>

definition errors_body :: raw where
  \<open>errors_body = ''{"data":{"graphDelete":null},"errors":[{"message":"Graph does not exist"},{"message":"Unauthorized"}]}''\<close>

definition errors_response :: GraphQLResponse where
  \<open>errors_response =
     \<lparr>Data = ''{"graphDelete":null}'',
      Errors = [\<lparr>Message = ''Graph does not exist'', Path = [], Extensions = []\<rparr>,
                \<lparr>Message = ''Unauthorized'', Path = [], Extensions = []\<rparr>]\<rparr>\<close>

definition errors_world :: world where
  "errors_world = fixed_world 200 errors_body (Inr errors_response)
                    (Inl ''unexpected end of JSON input'') (Inl ''unexpected end of JSON input'')"

text \<open>A response with status 200 whose one error says that the graph is gone.\<close>

definition gone_body :: raw where
  \<open>gone_body = ''{"data":null,"errors":[{"message":"Graph does not exist"}]}''\<close>

definition gone_response :: GraphQLResponse where
  \<open>gone_response =
     \<lparr>Data = ''null'', Errors = [\<lparr>Message = ''Graph does not exist'', Path = [], Extensions = []\<rparr>]\<rparr>\<close>

definition gone_world :: world where
  "gone_world = fixed_world 200 gone_body (Inr gone_response)
                  (Inl ''unexpected end of JSON input'') (Inl ''unexpected end of JSON input'')"

definition gone_error :: error where
  "gone_error = ''failed to delete graph: GraphQL errors: [Graph does not exist]''"

text \<open>
  Responses with status 200 to the deletion of a branch: the payload is an object
  without \<open>__typename\<close>, and an object whose \<open>__typename\<close> is a number.
\<close>

definition no_typename_body :: raw where
  \<open>no_typename_body = ''{"data":{"branchDelete":{}}}''\<close>

definition no_typename_world :: world where
  \<open>no_typename_world =
     fixed_world 200 no_typename_body (Inr \<lparr>Data = ''{"branchDelete":{}}'', Errors = []\<rparr>)
       (Inr ''{}'') (Inr [])\<close>

definition number_typename_body :: raw where
  \<open>number_typename_body = ''{"data":{"branchDelete":{"__typename":1}}}''\<close>

definition number_typename_world :: world where
  \<open>number_typename_world =
     fixed_world 200 number_typename_body
       (Inr \<lparr>Data = ''{"branchDelete":{"__typename":1}}'', Errors = []\<rparr>)
       (Inr ''{"__typename":1}'') (Inr [(''__typename'', IFloat64 ''1'')])\<close>

definition main_branch :: DeleteBranchInput where
  "main_branch = \<lparr>dbi_AccountSlug = ''acct'', dbi_GraphSlug = ''api'', dbi_BranchName = ''main''\<rparr>"

text \<open>A client whose every call fails with the given error.\<close>

definition failing_api :: "error \<Rightarrow> client_api" where
  "failing_api err =
     \<lparr>api_GetAccountBySlug = (\<lambda>slug. Inl err),
      api_CreateGraph = (\<lambda>input. Inl err),
      api_GetGraph = (\<lambda>accountSlug graphSlug. Inl err),
      api_DeleteGraph = (\<lambda>id'. Some err),
      api_CreateBranch = (\<lambda>input. Inl err),
      api_GetBranch = (\<lambda>accountSlug graphSlug branchName. Inl err),
      api_DeleteBranch = (\<lambda>input. Some err),
      api_CreateBranch_id = (\<lambda>input. Inl err),
      api_GetBranch_id = (\<lambda>graphID branchName. Inl err),
      api_DeleteBranch_id = (\<lambda>id'. Some err),
      api_CreateSubgraph = (\<lambda>input. Inl err),
      api_GetSubgraph = (\<lambda>branchID subgraphName. Inl err),
      api_UpdateSubgraph = (\<lambda>id' url. Inl err),
      api_DeleteSubgraph = (\<lambda>id'. Some err)\<rparr>"

text \<open>Records of the three resources, and the response a hook starts from.\<close>

definition a_graph :: GraphResourceModel where
  "a_graph = \<lparr>g_ID = StringValue ''graph-1'', g_AccountSlug = StringValue ''acct'',
     g_Slug = StringValue ''api'', g_CreatedAt = StringValue ''2024-01-01T00:00:00Z''\<rparr>"

definition a_branch :: BranchResourceModel where
  "a_branch = \<lparr>b_ID = StringValue ''branch-1'', b_AccountSlug = StringValue ''acct'',
     b_GraphSlug = StringValue ''api'', b_Name = StringValue ''main'',
     b_Environment = StringValue ''PREVIEW'', b_OperationChecksEnabled = BoolValue False,
     b_OperationChecksIgnoreUsageData = BoolValue False\<rparr>"

definition a_branch_id :: BranchResourceModel_id where
  "a_branch_id = \<lparr>bi_ID = StringValue ''branch-1'', bi_GraphID = StringValue ''graph-1'',
     bi_Name = StringValue ''main'', bi_CreatedAt = StringValue ''2024-01-01T00:00:00Z''\<rparr>"

definition a_subgraph :: SubgraphResourceModel where
  "a_subgraph = \<lparr>s_ID = StringValue ''subgraph-1'', s_BranchID = StringValue ''branch-1'',
     s_Name = StringValue ''users'', s_URL = StringValue ''https://users.example.com/graphql'',
     s_CreatedAt = StringValue ''2024-01-01T00:00:00Z''\<rparr>"

definition request :: "'m \<Rightarrow> 'm decoded" where
  "request m = \<lparr>decode_diags = [], decode_value = m\<rparr>"

definition response :: "'m option \<Rightarrow> 'm response" where
  "response st = \<lparr>Diagnostics = [], State = st\<rparr>"

text \<open>
  Responses with status 200 to a creation: the payload is the failure variant
  \<open>BranchAlreadyExistsError\<close>, the failure variant \<open>SlugAlreadyExistsError\<close>, and
  the success shape with a graph.
\<close>

definition branch_exists_body :: raw where
  \<open>branch_exists_body = ''{"data":{"branchCreate":{"__typename":"BranchAlreadyExistsError"}}}''\<close>

definition branch_exists_payload :: raw where
  \<open>branch_exists_payload = ''{"__typename":"BranchAlreadyExistsError"}''\<close>

definition branch_exists_world :: world where
  \<open>branch_exists_world =
     fixed_world 200 branch_exists_body
       (Inr \<lparr>Data = ''{"branchCreate":{"__typename":"BranchAlreadyExistsError"}}'', Errors = []\<rparr>)
       (Inr branch_exists_payload) (Inr [(''__typename'', IString ''BranchAlreadyExistsError'')])\<close>

definition slug_exists_payload :: raw where
  \<open>slug_exists_payload = ''{"__typename":"SlugAlreadyExistsError"}''\<close>

definition slug_exists_world :: world where
  \<open>slug_exists_world =
     fixed_world 200 ''{"data":{"graphCreate":{"__typename":"SlugAlreadyExistsError"}}}''
       (Inr \<lparr>Data = ''{"graphCreate":{"__typename":"SlugAlreadyExistsError"}}'', Errors = []\<rparr>)
       (Inr slug_exists_payload) (Inr [(''__typename'', IString ''SlugAlreadyExistsError'')])\<close>

definition created_graph :: Graph where
  "created_graph = \<lparr>Graph_ID = ''graph-1'', Graph_Slug = ''api'', Graph_CreatedAt = Time 1704067200,
     Graph_Account = \<lparr>Account_ID = ''account-1'', Account_Slug = ''acct'', Account_Name = ''Acct''\<rparr>\<rparr>"

definition graph_created_payload :: raw where
  \<open>graph_created_payload = ''{"graph":{"id":"graph-1","slug":"api","createdAt":"2024-01-01T00:00:00Z","account":{"id":"account-1","slug":"acct","name":"Acct"}}}''\<close>

definition graph_created_world :: world where
  \<open>graph_created_world =
     (fixed_world 200 ''{"data":{"graphCreate":{"graph":{"id":"graph-1"}}}}''
        (Inr \<lparr>Data = ''{"graphCreate":{"graph":{"id":"graph-1"}}}'', Errors = []\<rparr>)
        (Inr graph_created_payload) (Inr [(''graph'', IMap [(''id'', IString ''graph-1'')])]))
     \<lparr>Unmarshal_Graph := (\<lambda>p. Inr created_graph)\<rparr>\<close>

definition new_branch :: CreateBranchInput where
  "new_branch = \<lparr>cbi_AccountSlug = ''acct'', cbi_GraphSlug = ''api'', cbi_BranchName = ''main''\<rparr>"

text \<open>A subgraph as the server returns it after an update of its URL.\<close>

definition updated_subgraph :: Subgraph where
  "updated_subgraph = \<lparr>Subgraph_ID = ''subgraph-1'', Subgraph_Name = ''users'',
     Subgraph_URL = ''https://users-v2.example.com/graphql'', Subgraph_CreatedAt = Time 1704067200,
     Subgraph_Branch = zero_Branch_id\<rparr>"

definition rfc3339 :: "Time \<Rightarrow> string \<Rightarrow> string" where
  "rfc3339 t l = ''2024-01-01T00:00:00Z''"


section \<open>Facts about strings\<close>

lemma HasPrefix_iff: "HasPrefix s p \<longleftrightarrow> (\<exists>q. s = p @ q)"
proof
  assume "HasPrefix s p"
  then have "s = p @ drop (length p) s"
    unfolding HasPrefix_def by (metis append_take_drop_id)
  then show "\<exists>q. s = p @ q" ..
next
  assume "\<exists>q. s = p @ q"
  then show "HasPrefix s p" by (auto simp: HasPrefix_def)
qed

lemma Contains_iff: "Contains s substr \<longleftrightarrow> (\<exists>p q. s = p @ substr @ q)"
proof (induction s)
  case Nil
  then show ?case by simp
next
  case (Cons c s)
  show ?case
  proof
    assume "Contains (c # s) substr"
    then consider "HasPrefix (c # s) substr" | "Contains s substr" by auto
    then show "\<exists>p q. c # s = p @ substr @ q"
    proof cases
      case 1
      then obtain q where "c # s = substr @ q" unfolding HasPrefix_iff ..
      then have "c # s = [] @ substr @ q" by simp
      then show ?thesis by blast
    next
      case 2
      then obtain p q where "s = p @ substr @ q" using Cons.IH by blast
      then have "c # s = (c # p) @ substr @ q" by simp
      then show ?thesis by blast
    qed
  next
    assume "\<exists>p q. c # s = p @ substr @ q"
    then obtain p q where pq: "c # s = p @ substr @ q" by blast
    show "Contains (c # s) substr"
    proof (cases p)
      case Nil
      with pq have "HasPrefix (c # s) substr" unfolding HasPrefix_iff by auto
      then show ?thesis by simp
    next
      case (Cons c' p')
      with pq have "s = p' @ substr @ q" by simp
      then have "Contains s substr" using Cons.IH by blast
      then show ?thesis by simp
    qed
  qed
qed

lemma Contains_append: "Contains s substr \<Longrightarrow> Contains (p @ s @ q) substr"
proof -
  assume "Contains s substr"
  then obtain p' q' where "s = p' @ substr @ q'" unfolding Contains_iff by blast
  then have "p @ s @ q = (p @ p') @ substr @ (q' @ q)" by simp
  then show ?thesis unfolding Contains_iff by blast
qed

lemma Contains_self: "Contains s s"
  unfolding Contains_iff by (metis append_Nil append_Nil2)

lemma Contains_prefixed: "Contains s substr \<Longrightarrow> Contains (p @ s) substr"
  using Contains_append [of s substr p "[]"] by simp

lemma Join_member: "x \<in> set xs \<Longrightarrow> \<exists>p q. Join xs sep = p @ x @ q"
proof (induction xs sep rule: Join.induct)
  case (1 sep)
  then show ?case by simp
next
  case (2 y sep)
  then have "Join [y] sep = [] @ x @ []" by simp
  then show ?case by blast
next
  case (3 y z zs sep)
  show ?case
  proof (cases "x = y")
    case True
    then have "Join (y # z # zs) sep = [] @ x @ (sep @ Join (z # zs) sep)" by simp
    then show ?thesis by blast
  next
    case False
    with 3 obtain p q where "Join (z # zs) sep = p @ x @ q" by auto
    then have "Join (y # z # zs) sep = (y @ sep @ p) @ x @ q" by simp
    then show ?thesis by blast
  qed
qed

lemma Split_no_sep: "sep \<notin> set s \<Longrightarrow> Split s sep = [s]"
  by (induction s) auto

lemma Split_append: "sep \<notin> set a \<Longrightarrow> Split (a @ sep # b) sep = a # Split b sep"
  by (induction a) auto

lemma length_Split: "length (Split s sep) = Suc (count_list s sep)"
  by (induction s) (auto split: list.splits)

lemma count_list_ge2_split:
  assumes "2 \<le> count_list s x"
  shows "\<exists>a b. s = a @ x # b \<and> x \<notin> set a \<and> x \<in> set b"
proof -
  have "x \<in> set s"
  proof (rule ccontr)
    assume "x \<notin> set s"
    then have "count_list s x = 0" by simp
    with assms show False by simp
  qed
  then obtain a b where ab: "s = a @ x # b" "x \<notin> set a" by (meson split_list_first)
  have "x \<in> set b"
  proof (rule ccontr)
    assume "x \<notin> set b"
    then have "count_list b x = 0" by simp
    with ab assms show False by simp
  qed
  with ab show ?thesis by blast
qed

section \<open>Facts about the rune conversions\<close>

lemma acceptRange_bounds:
  "acceptRange s0 = (sz, lo, hi) \<Longrightarrow> 2 \<le> sz \<and> sz \<le> 4 \<and> 0x80 \<le> lo \<and> hi \<le> 0xBF"
  by (auto simp: acceptRange_def split: if_splits)

lemma decoderune_width:
  "1 \<le> snd (decoderune (c # s)) \<and> snd (decoderune (c # s)) \<le> length (c # s)"
proof -
  obtain sz lo hi where ar: "acceptRange (of_char c) = (sz, lo, hi)"
    by (cases "acceptRange (of_char c)")
  from acceptRange_bounds [OF ar] have "2 \<le> sz" "sz \<le> 4" by simp_all
  then show ?thesis
    by (auto simp: decoderune_def Let_def ar Suc_le_eq)
qed

lemma decoderune_append_slash:
  "decoderune ((c # s) @ CHR ''/'' # t) = decoderune (c # s)"
proof -
  obtain sz lo hi where ar: "acceptRange (of_char c) = (sz, lo, hi)"
    by (cases "acceptRange (of_char c)")
  from acceptRange_bounds [OF ar] have b: "2 \<le> sz" "sz \<le> 4" "128 \<le> lo" "hi \<le> 191" by simp_all
  consider "s = []" | c1 where "s = [c1]" | c1 c2 where "s = [c1, c2]"
    | c1 c2 c3 s' where "s = c1 # c2 # c3 # s'"
    by (cases s rule: list.exhaust; (cases "tl s"; (cases "tl (tl s)"; auto)))
  then show ?thesis
  proof cases
    case 1
    with b show ?thesis by (auto simp: decoderune_def Let_def ar)
  next
    case 2
    with b show ?thesis by (auto simp: decoderune_def Let_def ar)
  next
    case 3
    with b show ?thesis by (auto simp: decoderune_def Let_def ar)
  next
    case 4
    with b show ?thesis by (auto simp: decoderune_def Let_def ar)
  qed
qed

lemma decoderune_shape:
  fixes c :: char and s :: string
  defines "a \<equiv> (of_char c :: nat)"
  shows "(a < 128 \<and> decoderune (c # s) = (a, 1)) \<or>
     (128 \<le> a \<and> decoderune (c # s) = (RuneError, 1)) \<or>
     (\<exists>c1 s'. s = c1 # s' \<and> 194 \<le> a \<and> a < 224 \<and>
        128 \<le> (of_char c1 :: nat) \<and> (of_char c1 :: nat) \<le> 191 \<and>
        decoderune (c # s) = (a mod 32 * 64 + of_char c1 mod 64, 2)) \<or>
     (\<exists>c1 c2 s'. s = c1 # c2 # s' \<and> 224 \<le> a \<and> a < 240 \<and>
        (if a = 224 then 160 else 128) \<le> (of_char c1 :: nat) \<and>
        (of_char c1 :: nat) \<le> (if a = 237 then 159 else 191) \<and>
        128 \<le> (of_char c2 :: nat) \<and> (of_char c2 :: nat) \<le> 191 \<and>
        decoderune (c # s) = (a mod 16 * 4096 + of_char c1 mod 64 * 64 + of_char c2 mod 64, 3)) \<or>
     (\<exists>c1 c2 c3 s'. s = c1 # c2 # c3 # s' \<and> 240 \<le> a \<and> a \<le> 244 \<and>
        (if a = 240 then 144 else 128) \<le> (of_char c1 :: nat) \<and>
        (of_char c1 :: nat) \<le> (if a = 244 then 143 else 191) \<and>
        128 \<le> (of_char c2 :: nat) \<and> (of_char c2 :: nat) \<le> 191 \<and>
        128 \<le> (of_char c3 :: nat) \<and> (of_char c3 :: nat) \<le> 191 \<and>
        decoderune (c # s) =
          (a mod 8 * 262144 + of_char c1 mod 64 * 4096 + of_char c2 mod 64 * 64 + of_char c3 mod 64, 4))"
proof -
  consider "s = []" | c1 where "s = [c1]" | c1 c2 where "s = [c1, c2]"
    | c1 c2 c3 s' where "s = c1 # c2 # c3 # s'"
    by (cases s rule: list.exhaust; (cases "tl s"; (cases "tl (tl s)"; auto)))
  then show ?thesis
  proof cases
    case 1
    then show ?thesis unfolding a_def
      by (simp add: decoderune_def Let_def acceptRange_def)
  next
    case 2
    then show ?thesis unfolding a_def
      by (simp add: decoderune_def Let_def acceptRange_def)
  next
    case 3
    then show ?thesis unfolding a_def
      by (simp add: decoderune_def Let_def acceptRange_def)
  next
    case 4
    then show ?thesis unfolding a_def
      by (simp add: decoderune_def Let_def acceptRange_def)
  qed
qed



lemma digits2:
  fixes x y :: nat
  assumes "y < 64"
  shows "(x * 64 + y) div 64 = x" "(x * 64 + y) mod 64 = y"
  using assms by simp_all

lemma digits3:
  fixes x y z :: nat
  assumes "y < 64" "z < 64"
  shows "(x * 4096 + y * 64 + z) div 4096 = x"
    "((x * 4096 + y * 64 + z) div 64) mod 64 = y"
    "(x * 4096 + y * 64 + z) mod 64 = z"
proof -
  have "y * 64 + z < 4096" using assms by simp
  then show "(x * 4096 + y * 64 + z) div 4096 = x" by simp
  have "(x * 4096 + y * 64 + z) div 64 = x * 64 + y"
    using digits2(1) [OF assms(2), of "x * 64 + y"] by (simp add: algebra_simps)
  then show "((x * 4096 + y * 64 + z) div 64) mod 64 = y"
    using digits2(2) [OF assms(1), of x] by simp
  show "(x * 4096 + y * 64 + z) mod 64 = z"
    using digits2(2) [OF assms(2), of "x * 64 + y"] by (simp add: algebra_simps)
qed

lemma digits4:
  fixes w x y z :: nat
  assumes "x < 64" "y < 64" "z < 64"
  shows "(w * 262144 + x * 4096 + y * 64 + z) div 262144 = w"
    "((w * 262144 + x * 4096 + y * 64 + z) div 4096) mod 64 = x"
    "((w * 262144 + x * 4096 + y * 64 + z) div 64) mod 64 = y"
    "(w * 262144 + x * 4096 + y * 64 + z) mod 64 = z"
proof -
  have s: "y * 64 + z < 4096" "x * 4096 + y * 64 + z < 262144" using assms by simp_all
  from s show "(w * 262144 + x * 4096 + y * 64 + z) div 262144 = w" by simp
  have "(w * 262144 + x * 4096 + y * 64 + z) div 4096 = w * 64 + x"
    using digits3(1) [OF assms(2,3), of "w * 64 + x"] by (simp add: algebra_simps)
  then show "((w * 262144 + x * 4096 + y * 64 + z) div 4096) mod 64 = x"
    using digits2(2) [OF assms(1), of w] by simp
  show "((w * 262144 + x * 4096 + y * 64 + z) div 64) mod 64 = y"
    using digits3(2) [OF assms(2,3), of "w * 64 + x"] by (simp add: algebra_simps)
  show "(w * 262144 + x * 4096 + y * 64 + z) mod 64 = z"
    using digits3(3) [OF assms(2,3), of "w * 64 + x"] by (simp add: algebra_simps)
qed



lemma low_bits:
  fixes a :: nat
  shows "192 \<le> a \<Longrightarrow> a < 224 \<Longrightarrow> a mod 32 = a - 192"
    and "224 \<le> a \<Longrightarrow> a < 240 \<Longrightarrow> a mod 16 = a - 224"
    and "240 \<le> a \<Longrightarrow> a < 248 \<Longrightarrow> a mod 8 = a - 240"
    and "128 \<le> a \<Longrightarrow> a \<le> 191 \<Longrightarrow> a mod 64 = a - 128"
proof -
  show "192 \<le> a \<Longrightarrow> a < 224 \<Longrightarrow> a mod 32 = a - 192"
    using mod_mult_self4 [of 32 6 "a - 192"] by simp
  show "224 \<le> a \<Longrightarrow> a < 240 \<Longrightarrow> a mod 16 = a - 224"
    using mod_mult_self4 [of 16 14 "a - 224"] by simp
  show "240 \<le> a \<Longrightarrow> a < 248 \<Longrightarrow> a mod 8 = a - 240"
    using mod_mult_self4 [of 8 30 "a - 240"] by simp
  show "128 \<le> a \<Longrightarrow> a \<le> 191 \<Longrightarrow> a mod 64 = a - 128"
    using mod_mult_self4 [of 64 2 "a - 128"] by simp
qed

lemma encoderune_by_range:
  shows "r \<le> 127 \<Longrightarrow> encoderune r = [char_of r]"
    and "128 \<le> r \<Longrightarrow> r \<le> 2047 \<Longrightarrow>
         encoderune r = [char_of (192 + r div 64), char_of (128 + r mod 64)]"
    and "2048 \<le> r \<Longrightarrow> r \<le> 65535 \<Longrightarrow> \<not> (55296 \<le> r \<and> r \<le> 57343) \<Longrightarrow>
         encoderune r = [char_of (224 + r div 4096), char_of (128 + (r div 64) mod 64),
                         char_of (128 + r mod 64)]"
    and "65536 \<le> r \<Longrightarrow> r \<le> 1114111 \<Longrightarrow>
         encoderune r = [char_of (240 + r div 262144), char_of (128 + (r div 4096) mod 64),
                         char_of (128 + (r div 64) mod 64), char_of (128 + r mod 64)]"
  by (auto simp: encoderune_def encoderune3_def)

lemma enc2:
  fixes a b :: nat
  assumes "194 \<le> a" "a < 224" "128 \<le> b" "b \<le> 191"
  shows "encoderune (a mod 32 * 64 + b mod 64) = [char_of a, char_of b]"
    and "128 \<le> a mod 32 * 64 + b mod 64"
proof -
  define x y where "x = a - 192" and "y = b - 128"
  have xy: "192 + x = a" "128 + y = b" "2 \<le> x" "x < 32" "y < 64"
    using assms by (simp_all add: x_def y_def)
  have m: "a mod 32 = x" "b mod 64 = y"
    using assms low_bits(1) [of a] low_bits(4) [of b] by (simp_all add: x_def y_def)
  define r where "r = x * 64 + y"
  have r: "128 \<le> r" "r \<le> 2047"
    using xy by (simp_all add: r_def)
  have d: "r div 64 = x" "r mod 64 = y"
    using digits2 [OF xy(5), of x] by (simp_all add: r_def)
  show "encoderune (a mod 32 * 64 + b mod 64) = [char_of a, char_of b]"
    unfolding m r_def [symmetric] encoderune_by_range(2) [OF r] d xy(1,2) ..
  show "128 \<le> a mod 32 * 64 + b mod 64"
    unfolding m r_def [symmetric] by (rule r(1))
qed

lemma enc3:
  fixes a b c :: nat
  assumes "224 \<le> a" "a < 240" "(if a = 224 then 160 else 128) \<le> b"
    "b \<le> (if a = 237 then 159 else 191)" "128 \<le> c" "c \<le> 191"
  shows "encoderune (a mod 16 * 4096 + b mod 64 * 64 + c mod 64) = [char_of a, char_of b, char_of c]"
    and "128 \<le> a mod 16 * 4096 + b mod 64 * 64 + c mod 64"
proof -
  have b0: "128 \<le> b" "b \<le> 191" using assms(3,4) by (simp_all split: if_splits)
  define x y z where "x = a - 224" and "y = b - 128" and "z = c - 128"
  have xyz: "224 + x = a" "128 + y = b" "128 + z = c" "x < 16" "y < 64" "z < 64"
    using assms b0 by (simp_all add: x_def y_def z_def)
  have e: "x = 0 \<longrightarrow> 32 \<le> y" "x = 13 \<longrightarrow> y < 32"
    using assms(3,4) xyz(1,2) by (auto split: if_splits)
  have m: "a mod 16 = x" "b mod 64 = y" "c mod 64 = z"
    using assms b0 low_bits(2) [of a] low_bits(4) [of b] low_bits(4) [of c]
    by (simp_all add: x_def y_def z_def)
  define r where "r = x * 4096 + y * 64 + z"
  have lo: "2048 \<le> r"
    using e(1) by (cases "x = 0") (simp_all add: r_def)
  have hi: "r \<le> 65535"
    using xyz(4,5,6) by (simp add: r_def)
  have sur: "\<not> (55296 \<le> r \<and> r \<le> 57343)"
  proof (cases "x = 13")
    case True
    with e(2) xyz(6) show ?thesis by (simp add: r_def)
  next
    case False
    then consider "x \<le> 12" | "14 \<le> x" by linarith
    then show ?thesis
    proof cases
      case 1 with xyz(5,6) show ?thesis by (simp add: r_def)
    next
      case 2 then show ?thesis by (simp add: r_def)
    qed
  qed
  have d: "r div 4096 = x" "(r div 64) mod 64 = y" "r mod 64 = z"
    using digits3 [OF xyz(5,6), of x] by (simp_all add: r_def)
  show "encoderune (a mod 16 * 4096 + b mod 64 * 64 + c mod 64) = [char_of a, char_of b, char_of c]"
    unfolding m r_def [symmetric] encoderune_by_range(3) [OF lo hi sur] d xyz(1,2,3) ..
  from lo show "128 \<le> a mod 16 * 4096 + b mod 64 * 64 + c mod 64"
    unfolding m r_def [symmetric] by simp
qed

lemma enc4:
  fixes a b c d :: nat
  assumes "240 \<le> a" "a \<le> 244" "(if a = 240 then 144 else 128) \<le> b"
    "b \<le> (if a = 244 then 143 else 191)" "128 \<le> c" "c \<le> 191" "128 \<le> d" "d \<le> 191"
  shows "encoderune (a mod 8 * 262144 + b mod 64 * 4096 + c mod 64 * 64 + d mod 64)
           = [char_of a, char_of b, char_of c, char_of d]"
    and "128 \<le> a mod 8 * 262144 + b mod 64 * 4096 + c mod 64 * 64 + d mod 64"
proof -
  have b0: "128 \<le> b" "b \<le> 191" using assms(3,4) by (simp_all split: if_splits)
  define w x y z where "w = a - 240" and "x = b - 128" and "y = c - 128" and "z = d - 128"
  have wxyz: "240 + w = a" "128 + x = b" "128 + y = c" "128 + z = d"
    "w \<le> 4" "x < 64" "y < 64" "z < 64"
    using assms b0 by (simp_all add: w_def x_def y_def z_def)
  have e: "w = 0 \<longrightarrow> 16 \<le> x" "w = 4 \<longrightarrow> x < 16"
    using assms(3,4) wxyz(1,2) by (auto split: if_splits)
  have m: "a mod 8 = w" "b mod 64 = x" "c mod 64 = y" "d mod 64 = z"
    using assms b0 low_bits(3) [of a] low_bits(4) [of b] low_bits(4) [of c] low_bits(4) [of d]
    by (simp_all add: w_def x_def y_def z_def)
  define r where "r = w * 262144 + x * 4096 + y * 64 + z"
  have lo: "65536 \<le> r"
    using e(1) by (cases "w = 0") (simp_all add: r_def)
  have hi: "r \<le> 1114111"
  proof (cases "w = 4")
    case True
    with e(2) wxyz(7,8) show ?thesis by (simp add: r_def)
  next
    case False
    with wxyz(5) have "w \<le> 3" by simp
    with wxyz(6,7,8) show ?thesis by (simp add: r_def)
  qed
  have dg: "r div 262144 = w" "(r div 4096) mod 64 = x" "(r div 64) mod 64 = y" "r mod 64 = z"
    using digits4 [OF wxyz(6,7,8), of w] by (simp_all add: r_def)
  show "encoderune (a mod 8 * 262144 + b mod 64 * 4096 + c mod 64 * 64 + d mod 64)
           = [char_of a, char_of b, char_of c, char_of d]"
    unfolding m r_def [symmetric] encoderune_by_range(4) [OF lo hi] dg wxyz(1,2,3,4) ..
  from lo show "128 \<le> a mod 8 * 262144 + b mod 64 * 4096 + c mod 64 * 64 + d mod 64"
    unfolding m r_def [symmetric] by simp
qed

lemma decoderune_cases [case_names ascii bad two three four]:
  fixes c :: char and s :: string
  obtains "(of_char c :: nat) < 128" "decoderune (c # s) = (of_char c, 1)"
  | "128 \<le> (of_char c :: nat)" "decoderune (c # s) = (RuneError, 1)"
  | c1 s' where "s = c1 # s'" "194 \<le> (of_char c :: nat)" "(of_char c :: nat) < 224"
      "128 \<le> (of_char c1 :: nat)" "(of_char c1 :: nat) \<le> 191"
      "decoderune (c # s) = (of_char c mod 32 * 64 + of_char c1 mod 64, 2)"
  | c1 c2 s' where "s = c1 # c2 # s'" "224 \<le> (of_char c :: nat)" "(of_char c :: nat) < 240"
      "(if (of_char c :: nat) = 224 then 160 else 128) \<le> (of_char c1 :: nat)"
      "(of_char c1 :: nat) \<le> (if (of_char c :: nat) = 237 then 159 else 191)"
      "128 \<le> (of_char c2 :: nat)" "(of_char c2 :: nat) \<le> 191"
      "decoderune (c # s) =
         (of_char c mod 16 * 4096 + of_char c1 mod 64 * 64 + of_char c2 mod 64, 3)"
  | c1 c2 c3 s' where "s = c1 # c2 # c3 # s'" "240 \<le> (of_char c :: nat)" "(of_char c :: nat) \<le> 244"
      "(if (of_char c :: nat) = 240 then 144 else 128) \<le> (of_char c1 :: nat)"
      "(of_char c1 :: nat) \<le> (if (of_char c :: nat) = 244 then 143 else 191)"
      "128 \<le> (of_char c2 :: nat)" "(of_char c2 :: nat) \<le> 191"
      "128 \<le> (of_char c3 :: nat)" "(of_char c3 :: nat) \<le> 191"
      "decoderune (c # s) =
         (of_char c mod 8 * 262144 + of_char c1 mod 64 * 4096 + of_char c2 mod 64 * 64
            + of_char c3 mod 64, 4)"
  using decoderune_shape [of c s] by (elim disjE exE conjE) blast+

lemma encoderune_decoderune:
  assumes "decoderune (c # s) \<noteq> (RuneError, 1)"
  shows "encoderune (fst (decoderune (c # s))) = take (snd (decoderune (c # s))) (c # s)"
proof (cases rule: decoderune_cases [of c s])
  case ascii
  then show ?thesis by (simp add: encoderune_by_range(1))
next
  case bad
  with assms show ?thesis by simp
next
  case (two c1 s')
  with enc2(1) [of "of_char c" "of_char c1"] show ?thesis by simp
next
  case (three c1 c2 s')
  with enc3(1) [of "of_char c" "of_char c1" "of_char c2"] show ?thesis by simp
next
  case (four c1 c2 c3 s')
  with enc4(1) [of "of_char c" "of_char c1" "of_char c2" "of_char c3"] show ?thesis by simp
qed

lemma decoderune_slash:
  assumes "fst (decoderune (c # s)) = 47"
  shows "c = CHR ''/''"
proof (cases rule: decoderune_cases [of c s])
  case ascii
  with assms have "(of_char c :: nat) = of_char CHR ''/''" by simp
  then show ?thesis by (simp only: of_char_eq_iff)
next
  case bad
  with assms show ?thesis by (simp add: RuneError_def)
next
  case (two c1 s')
  with enc2(2) [of "of_char c" "of_char c1"] assms show ?thesis by simp
next
  case (three c1 c2 s')
  with enc3(2) [of "of_char c" "of_char c1" "of_char c2"] assms show ?thesis by simp
next
  case (four c1 c2 c3 s')
  with enc4(2) [of "of_char c" "of_char c1" "of_char c2" "of_char c3"] assms show ?thesis by simp
qed

lemma stringtoslicerune_append_slash:
  "stringtoslicerune (s @ CHR ''/'' # t) = stringtoslicerune s @ 47 # stringtoslicerune t"
proof (induction s rule: length_induct)
  case (1 s)
  show ?case
  proof (cases s)
    case Nil
    then show ?thesis by (simp add: decoderune_def)
  next
    case (Cons c s')
    let ?w = "snd (decoderune (c # s'))"
    have w: "1 \<le> ?w" "?w \<le> length (c # s')" using decoderune_width [of c s'] by simp_all
    have d: "decoderune (c # s' @ CHR ''/'' # t) = decoderune (c # s')"
      using decoderune_append_slash [of c s' t] by simp
    have "drop (?w - 1) (s' @ CHR ''/'' # t) = drop (?w - 1) s' @ CHR ''/'' # t"
      using w by simp
    moreover have "length (drop (?w - 1) s') < length s" using Cons by simp
    ultimately show ?thesis
      using 1 Cons d by simp
  qed
qed

lemma stringtoslicerune_no_slash:
  "CHR ''/'' \<notin> set s \<Longrightarrow> 47 \<notin> set (stringtoslicerune s)"
proof (induction s rule: length_induct)
  case (1 s)
  show ?case
  proof (cases s)
    case Nil
    then show ?thesis by simp
  next
    case (Cons c s')
    have "c \<noteq> CHR ''/''" using 1(2) Cons by auto
    then have a: "fst (decoderune (c # s')) \<noteq> 47" using decoderune_slash [of c s'] by blast
    have "CHR ''/'' \<notin> set (drop (snd (decoderune (c # s')) - 1) s')"
      using 1(2) Cons by (auto dest: in_set_dropD)
    moreover have "length (drop (snd (decoderune (c # s')) - 1) s') < length s" using Cons by simp
    ultimately have "47 \<notin> set (stringtoslicerune (drop (snd (decoderune (c # s')) - 1) s'))"
      using 1(1) by blast
    with a Cons show ?thesis by simp
  qed
qed

lemma stringtoslicerune_Nil_iff: "stringtoslicerune s = [] \<longleftrightarrow> s = []"
  by (cases s) simp_all

lemma slicerunetostring_stringtoslicerune:
  "ValidString s \<Longrightarrow> slicerunetostring (stringtoslicerune s) = s"
proof (induction s rule: length_induct)
  case (1 s)
  show ?case
  proof (cases s)
    case Nil
    then show ?thesis by (simp add: slicerunetostring_def)
  next
    case (Cons c s')
    let ?w = "snd (decoderune (c # s'))"
    have w: "1 \<le> ?w" using decoderune_width [of c s'] by simp
    have v: "decoderune (c # s') \<noteq> (RuneError, 1)" "ValidString (drop (?w - 1) s')"
      using 1(2) Cons by simp_all
    have "length (drop (?w - 1) s') < length s" using Cons by simp
    with 1(1) v(2) have ih: "slicerunetostring (stringtoslicerune (drop (?w - 1) s')) = drop (?w - 1) s'"
      by blast
    have dr: "drop (?w - 1) s' = drop ?w (c # s')"
      using w by (cases ?w) simp_all
    have "slicerunetostring (stringtoslicerune (c # s'))
            = encoderune (fst (decoderune (c # s'))) @ drop (?w - 1) s'"
      using ih by (simp add: slicerunetostring_def)
    also have "\<dots> = take ?w (c # s') @ drop ?w (c # s')"
      unfolding encoderune_decoderune [OF v(1)] dr ..
    finally show ?thesis using Cons by simp
  qed
qed

section \<open>Facts about the import identifier parsers\<close>

lemma find_slash_none: "0x2F \<notin> set rs \<Longrightarrow> find_slash rs i si = Inr si"
  by (induction rs arbitrary: i) auto

lemma find_slash_second:
  "0x2F \<in> set rs \<Longrightarrow> si \<noteq> - 1 \<Longrightarrow> find_slash rs i si = Inl ''invalid format: multiple slashes found''"
  by (induction rs arbitrary: i) auto

lemma find_slash_first:
  "0x2F \<notin> set xs \<Longrightarrow>
   find_slash (xs @ 0x2F # ys) i (- 1) = find_slash ys (i + length xs + 1) (int (i + length xs))"
  by (induction xs arbitrary: i) (auto simp: add.assoc)

lemma slash_in_runes:
  assumes "CHR ''/'' \<in> set s"
  shows "47 \<in> set (stringtoslicerune s)"
proof -
  from assms obtain a b where "s = a @ CHR ''/'' # b" by (meson split_list)
  then show ?thesis by (simp add: stringtoslicerune_append_slash)
qed

lemma find_slash_unique:
  assumes "CHR ''/'' \<notin> set a" "CHR ''/'' \<notin> set b"
  shows "find_slash (stringtoslicerune (a @ CHR ''/'' # b)) 0 (- 1)
           = Inr (int (length (stringtoslicerune a)))"
proof -
  have "find_slash (stringtoslicerune (a @ CHR ''/'' # b)) 0 (- 1)
          = find_slash (stringtoslicerune b) (0 + length (stringtoslicerune a) + 1)
              (int (0 + length (stringtoslicerune a)))"
    unfolding stringtoslicerune_append_slash
    by (rule find_slash_first) (rule stringtoslicerune_no_slash [OF assms(1)])
  also have "\<dots> = Inr (int (0 + length (stringtoslicerune a)))"
    by (rule find_slash_none) (rule stringtoslicerune_no_slash [OF assms(2)])
  finally show ?thesis by simp
qed

lemma parseImportID_ok:
  assumes "CHR ''/'' \<notin> set a" "CHR ''/'' \<notin> set b" "a \<noteq> []" "b \<noteq> []"
  shows "parseImportID (a @ CHR ''/'' # b)
           = Inr (slicerunetostring (stringtoslicerune a), slicerunetostring (stringtoslicerune b))"
proof -
  have ne: "stringtoslicerune a \<noteq> []" "stringtoslicerune b \<noteq> []"
    using assms(3,4) by (simp_all add: stringtoslicerune_Nil_iff)
  show ?thesis
    unfolding parseImportID_def Let_def find_slash_unique [OF assms(1,2)]
    using ne by (simp add: stringtoslicerune_append_slash)
qed

lemma parseImportID_count:
  assumes "count_list s CHR ''/'' \<noteq> 1"
  shows "isl (parseImportID s)"
proof (cases "count_list s CHR ''/'' = 0")
  case True
  then have "CHR ''/'' \<notin> set s" by (simp add: count_list_0_iff)
  then have "47 \<notin> set (stringtoslicerune s)" by (rule stringtoslicerune_no_slash)
  then have "find_slash (stringtoslicerune s) 0 (- 1) = Inr (- 1)"
    by (rule find_slash_none)
  then show ?thesis by (simp add: parseImportID_def Let_def)
next
  case False
  with assms have "2 \<le> count_list s CHR ''/''" by simp
  then obtain a b where ab: "s = a @ CHR ''/'' # b" "CHR ''/'' \<notin> set a" "CHR ''/'' \<in> set b"
    using count_list_ge2_split [of s "CHR ''/''"] by blast
  have "find_slash (stringtoslicerune s) 0 (- 1)
          = find_slash (stringtoslicerune b) (0 + length (stringtoslicerune a) + 1)
              (int (0 + length (stringtoslicerune a)))"
    unfolding ab(1) stringtoslicerune_append_slash
    by (rule find_slash_first) (rule stringtoslicerune_no_slash [OF ab(2)])
  also have "\<dots> = Inl ''invalid format: multiple slashes found''"
    by (rule find_slash_second) (simp_all add: slash_in_runes [OF ab(3)])
  finally show ?thesis by (simp add: parseImportID_def Let_def)
qed

lemma parseImportID_leading: "isl (parseImportID (CHR ''/'' # b))"
proof (cases "count_list (CHR ''/'' # b) CHR ''/'' = 1")
  case True
  then have "CHR ''/'' \<notin> set b" by (simp add: count_list_0_iff)
  with find_slash_unique [of "[]" b] show ?thesis
    by (simp add: parseImportID_def Let_def)
next
  case False
  then show ?thesis by (rule parseImportID_count)
qed

lemma parseImportID_trailing: "isl (parseImportID (a @ [CHR ''/'']))"
proof (cases "count_list (a @ [CHR ''/'']) CHR ''/'' = 1")
  case True
  then have "CHR ''/'' \<notin> set a" by (simp add: count_list_0_iff)
  with find_slash_unique [of a "[]"] show ?thesis
    by (simp add: parseImportID_def Let_def stringtoslicerune_append_slash)
next
  case False
  then show ?thesis by (rule parseImportID_count)
qed

lemma parseBranchImportID_ok:
  assumes "CHR ''/'' \<notin> set a" "CHR ''/'' \<notin> set b" "a \<noteq> []" "b \<noteq> []"
  shows "parseBranchImportID (a @ CHR ''/'' # b) = Inr (a, b)"
  using assms by (simp add: parseBranchImportID_def Split_append Split_no_sep)

lemma parseBranchImportID_count:
  "count_list s CHR ''/'' \<noteq> 1 \<Longrightarrow> isl (parseBranchImportID s)"
  by (simp add: parseBranchImportID_def length_Split)

lemma parseBranchImportID_leading: "isl (parseBranchImportID (CHR ''/'' # b))"
  by (simp add: parseBranchImportID_def Let_def)

lemma parseBranchImportID_trailing: "isl (parseBranchImportID (a @ [CHR ''/'']))"
proof (cases "count_list (a @ [CHR ''/'']) CHR ''/'' = 1")
  case True
  then have "CHR ''/'' \<notin> set a" by (simp add: count_list_0_iff)
  then show ?thesis by (simp add: parseBranchImportID_def Split_append)
next
  case False
  then show ?thesis by (rule parseBranchImportID_count)
qed

lemma parseSubgraphImportID_ok:
  assumes "CHR ''/'' \<notin> set a" "CHR ''/'' \<notin> set b" "a \<noteq> []" "b \<noteq> []"
  shows "parseSubgraphImportID (a @ CHR ''/'' # b) = Inr (a, b)"
  using assms by (simp add: parseSubgraphImportID_def Split_append Split_no_sep)

lemma parseSubgraphImportID_count:
  "count_list s CHR ''/'' \<noteq> 1 \<Longrightarrow> isl (parseSubgraphImportID s)"
  by (simp add: parseSubgraphImportID_def length_Split)

lemma parseSubgraphImportID_leading: "isl (parseSubgraphImportID (CHR ''/'' # b))"
  by (simp add: parseSubgraphImportID_def Let_def)

lemma parseSubgraphImportID_trailing: "isl (parseSubgraphImportID (a @ [CHR ''/'']))"
proof (cases "count_list (a @ [CHR ''/'']) CHR ''/'' = 1")
  case True
  then have "CHR ''/'' \<notin> set a" by (simp add: count_list_0_iff)
  then show ?thesis by (simp add: parseSubgraphImportID_def Split_append)
next
  case False
  then show ?thesis by (rule parseSubgraphImportID_count)
qed

section \<open>Facts about diagnostics and responses\<close>

lemma set_Append: "set (Append diags ds) = set diags \<union> set ds"
  by (induction ds arbitrary: diags) auto

lemma HasError_iff: "HasError diags \<longleftrightarrow> (\<exists>d \<in> set diags. diag_severity d = SeverityError)"
  by (simp add: HasError_def list_ex_iff)

lemma HasError_Append: "HasError (Append diags ds) \<longleftrightarrow> HasError diags \<or> HasError ds"
  by (auto simp: HasError_iff set_Append)

lemma HasError_Nil: "\<not> HasError []"
  by (simp add: HasError_def)

lemma AddError_member: "NewErrorDiagnostic s d \<in> set (AddError s d diags)"
  by (simp add: AddError_def set_Append)

lemma HasError_AddError: "HasError (AddError s d diags)"
  unfolding HasError_iff
  by (rule bexI [OF _ AddError_member]) (simp add: NewErrorDiagnostic_def)

lemma Diagnostics_resp_Append: "Diagnostics (resp_Append ds resp) = Append (Diagnostics resp) ds"
  by (simp add: resp_Append_def)

lemma State_resp_Append: "State (resp_Append ds resp) = State resp"
  by (simp add: resp_Append_def)

lemma Diagnostics_resp_AddError:
  "Diagnostics (resp_AddError s d resp) = AddError s d (Diagnostics resp)"
  by (simp add: resp_AddError_def)

lemma State_resp_AddError: "State (resp_AddError s d resp) = State resp"
  by (simp add: resp_AddError_def)

lemma HasError_resp_AddError: "HasError (Diagnostics (resp_AddError s d resp))"
  by (simp add: Diagnostics_resp_AddError HasError_AddError)

lemma resp_AddError_member:
  "NewErrorDiagnostic s d \<in> set (Diagnostics (resp_AddError s d resp))"
  by (simp add: Diagnostics_resp_AddError AddError_member)

lemma Diagnostics_State_Set: "Diagnostics (State_Set data resp) = Diagnostics resp"
  by (simp add: State_Set_def)

lemma State_State_Set: "State (State_Set data resp) = Some data"
  by (simp add: State_Set_def)

lemma Diagnostics_RemoveResource: "Diagnostics (RemoveResource resp) = Diagnostics resp"
  by (simp add: RemoveResource_def)

lemma State_RemoveResource: "State (RemoveResource resp) = None"
  by (simp add: RemoveResource_def)

lemma Diagnostics_SetAttribute: "Diagnostics (SetAttribute null upd resp) = Diagnostics resp"
  by (simp add: SetAttribute_def)

lemmas response_simps =
  Diagnostics_resp_Append State_resp_Append Diagnostics_resp_AddError State_resp_AddError
  Diagnostics_State_Set State_State_Set Diagnostics_RemoveResource State_RemoveResource
  Diagnostics_SetAttribute HasError_Append HasError_AddError


section \<open>Import identifiers\<close>

text \<open>
  C1, as amended. Let \<open>a\<close> and \<open>b\<close> be non-empty strings without a slash. On
  \<open>a/b\<close> the branch and the subgraph parser return \<open>(a, b)\<close>; the graph parser
  succeeds too and returns each part converted to runes and back, which is the part
  itself when the part is valid UTF-8. On a string \<open>s\<close> in which the number of slashes
  is not one, or which starts or ends with a slash, each of the three parsers fails.
\<close>

theorem import_id_parsers:
  "(CHR ''/'' \<notin> set a \<and> CHR ''/'' \<notin> set b \<and> a \<noteq> [] \<and> b \<noteq> [] \<longrightarrow>
      parseBranchImportID (a @ CHR ''/'' # b) = Inr (a, b) \<and>
      parseSubgraphImportID (a @ CHR ''/'' # b) = Inr (a, b) \<and>
      parseImportID (a @ CHR ''/'' # b)
        = Inr (slicerunetostring (stringtoslicerune a), slicerunetostring (stringtoslicerune b)) \<and>
      (ValidString a \<and> ValidString b \<longrightarrow> parseImportID (a @ CHR ''/'' # b) = Inr (a, b))) \<and>
   (count_list s CHR ''/'' \<noteq> 1 \<or> (\<exists>t. s = CHR ''/'' # t) \<or> (\<exists>t. s = t @ [CHR ''/'']) \<longrightarrow>
      isl (parseImportID s) \<and> isl (parseBranchImportID s) \<and> isl (parseSubgraphImportID s))"
proof -
  have ok: "CHR ''/'' \<notin> set a \<and> CHR ''/'' \<notin> set b \<and> a \<noteq> [] \<and> b \<noteq> [] \<longrightarrow>
      parseBranchImportID (a @ CHR ''/'' # b) = Inr (a, b) \<and>
      parseSubgraphImportID (a @ CHR ''/'' # b) = Inr (a, b) \<and>
      parseImportID (a @ CHR ''/'' # b)
        = Inr (slicerunetostring (stringtoslicerune a), slicerunetostring (stringtoslicerune b)) \<and>
      (ValidString a \<and> ValidString b \<longrightarrow> parseImportID (a @ CHR ''/'' # b) = Inr (a, b))"
  proof
    assume h: "CHR ''/'' \<notin> set a \<and> CHR ''/'' \<notin> set b \<and> a \<noteq> [] \<and> b \<noteq> []"
    then have g: "parseImportID (a @ CHR ''/'' # b)
        = Inr (slicerunetostring (stringtoslicerune a), slicerunetostring (stringtoslicerune b))"
      by (simp add: parseImportID_ok)
    have "ValidString a \<and> ValidString b \<longrightarrow> parseImportID (a @ CHR ''/'' # b) = Inr (a, b)"
      unfolding g by (simp add: slicerunetostring_stringtoslicerune)
    with h g show "parseBranchImportID (a @ CHR ''/'' # b) = Inr (a, b) \<and>
      parseSubgraphImportID (a @ CHR ''/'' # b) = Inr (a, b) \<and>
      parseImportID (a @ CHR ''/'' # b)
        = Inr (slicerunetostring (stringtoslicerune a), slicerunetostring (stringtoslicerune b)) \<and>
      (ValidString a \<and> ValidString b \<longrightarrow> parseImportID (a @ CHR ''/'' # b) = Inr (a, b))"
      by (simp add: parseBranchImportID_ok parseSubgraphImportID_ok)
  qed
  have bad: "count_list s CHR ''/'' \<noteq> 1 \<or> (\<exists>t. s = CHR ''/'' # t) \<or> (\<exists>t. s = t @ [CHR ''/'']) \<longrightarrow>
      isl (parseImportID s) \<and> isl (parseBranchImportID s) \<and> isl (parseSubgraphImportID s)"
  proof
    assume "count_list s CHR ''/'' \<noteq> 1 \<or> (\<exists>t. s = CHR ''/'' # t) \<or> (\<exists>t. s = t @ [CHR ''/''])"
    then consider "count_list s CHR ''/'' \<noteq> 1" | t where "s = CHR ''/'' # t"
      | t where "s = t @ [CHR ''/'']" by blast
    then show "isl (parseImportID s) \<and> isl (parseBranchImportID s) \<and> isl (parseSubgraphImportID s)"
    proof cases
      case 1
      then show ?thesis
        by (simp add: parseImportID_count parseBranchImportID_count parseSubgraphImportID_count)
    next
      case 2
      then show ?thesis
        by (simp only: parseImportID_leading parseBranchImportID_leading
            parseSubgraphImportID_leading simp_thms)
    next
      case 3
      then show ?thesis
        by (simp only: parseImportID_trailing parseBranchImportID_trailing
            parseSubgraphImportID_trailing simp_thms)
    qed
  qed
  from ok bad show ?thesis by (rule conjI)
qed

theorem import_id_parsers_witness:
  "parseImportID ''my-account/my-graph'' = Inr (''my-account'', ''my-graph'') \<and>
   parseBranchImportID ''my-account/my-graph'' = Inr (''my-account'', ''my-graph'') \<and>
   parseSubgraphImportID ''my-account/my-graph'' = Inr (''my-account'', ''my-graph'') \<and>
   isl (parseImportID ''my-account/my-graph/extra'') \<and>
   isl (parseBranchImportID ''my-account/my-graph/extra'') \<and>
   isl (parseSubgraphImportID ''my-account/my-graph/extra'')"
proof -
  have p: "CHR ''/'' \<notin> set ''my-account'' \<and> CHR ''/'' \<notin> set ''my-graph'' \<and>
           ''my-account'' \<noteq> [] \<and> ''my-graph'' \<noteq> []"
    by simp
  have v: "ValidString ''my-account'' \<and> ValidString ''my-graph''"
    by (simp add: decoderune_def RuneError_def)
  have c: "count_list ''my-account/my-graph/extra'' CHR ''/'' \<noteq> 1 \<or>
           (\<exists>t. ''my-account/my-graph/extra'' = CHR ''/'' # t) \<or>
           (\<exists>t. ''my-account/my-graph/extra'' = t @ [CHR ''/''])"
    by simp
  note t = import_id_parsers [of "''my-account''" "''my-graph''" "''my-account/my-graph/extra''"]
  note ok = t [THEN conjunct1, THEN mp, OF p]
  note g = ok [THEN conjunct2, THEN conjunct2, THEN conjunct2, THEN mp, OF v]
  note bad = t [THEN conjunct2, THEN mp, OF c]
  from ok [THEN conjunct1] ok [THEN conjunct2, THEN conjunct1] g bad show ?thesis by simp
qed

text \<open>
  C1, the unamended statement. The graph parser does not return a part unchanged when the
  part is not valid UTF-8:
  the byte \<open>0xFF\<close> before the slash comes back as the three bytes of \<open>U+FFFD\<close>.
\<close>

theorem parseImportID_counterexample:
  "count_list [CHR 0xFF, CHR ''/'', CHR ''a''] CHR ''/'' = 1 \<and>
   parseImportID [CHR 0xFF, CHR ''/'', CHR ''a''] = Inr ([CHR 0xEF, CHR 0xBF, CHR 0xBD], ''a'') \<and>
   parseImportID [CHR 0xFF, CHR ''/'', CHR ''a''] \<noteq> Inr ([CHR 0xFF], ''a'')"
proof -
  have r: "stringtoslicerune [CHR 0xFF, CHR ''/'', CHR ''a''] = [RuneError, 47, 97]"
    by (simp add: decoderune_def)
  have e: "encoderune 97 = ''a''"
    by (simp add: encoderune_def char_of_def bit_iff_odd)
  have u: "encoderune RuneError = [CHR 0xEF, CHR 0xBF, CHR 0xBD]"
    unfolding RuneError_def encoderune_def encoderune3_def by (simp add: char_of_def bit_iff_odd)
  have f: "find_slash [RuneError, 47, 97] 0 (- 1) = Inr 1"
    by (simp add: RuneError_def)
  have "parseImportID [CHR 0xFF, CHR ''/'', CHR ''a''] = Inr ([CHR 0xEF, CHR 0xBF, CHR 0xBD], ''a'')"
    unfolding parseImportID_def Let_def r f
    by (simp add: slicerunetostring_def u e)
  then show ?thesis by simp
qed


section \<open>The transport client\<close>

lemma ExecuteQuery_not_nil_nil: "ExecuteQuery w c query variables \<noteq> (None, None)"
  by (simp add: ExecuteQuery_def Let_def split: sum.splits)

lemma ExecuteQuery_response:
  assumes "json_Marshal w \<lparr>Query = query, Variables = variables\<rparr> = Inr requestBody"
    and "http_NewRequest w ''POST'' (apiURL c) requestBody = Inr httpReq"
    and "httpClient_Do w (Header_Set ''Authorization'' (''Bearer '' @ apiKey c)
            (Header_Set ''Content-Type'' ''application/json'' httpReq)) = Inr resp"
    and "StatusCode resp = 200"
    and "Body resp = Inr body"
    and "Unmarshal_GraphQLResponse w body = Inr graphqlResp"
  shows "ExecuteQuery w c query variables =
           (if Errors graphqlResp \<noteq> []
            then (Some graphqlResp, Some (''GraphQL errors: '' @ fmt_errors (Errors graphqlResp)))
            else (Some graphqlResp, None))"
  using assms by (simp add: ExecuteQuery_def Let_def)

lemma fixed_world_ExecuteQuery:
  "ExecuteQuery (fixed_world 200 body (Inr resp) payload m) c query variables =
     (if Errors resp \<noteq> [] then (Some resp, Some (''GraphQL errors: '' @ fmt_errors (Errors resp)))
      else (Some resp, None))"
  by (simp add: ExecuteQuery_def fixed_world_def Let_def)

lemma fmt_errors_member:
  assumes "e \<in> set errs"
  shows "Contains (fmt_errors errs) (Message e)"
proof -
  from assms have "Message e \<in> set (map Message errs)" by simp
  then obtain p q where "Join (map Message errs) '' '' = p @ Message e @ q"
    using Join_member by blast
  then have "fmt_errors errs = (''['' @ p) @ Message e @ (q @ '']'')"
    by (simp add: fmt_errors_def)
  then show ?thesis unfolding Contains_iff by blast
qed

text \<open>
  C2. When the request is built and sent, the server answers with status 200 and the
  body decodes to a response whose errors array is not empty, \<open>ExecuteQuery\<close> returns
  the decoded response together with an error, whatever the data field holds. The text
  of the error is \<open>GraphQL errors: \<close> followed by the messages of all entries, and
  so contains the message of every entry.
\<close>

theorem ExecuteQuery_graphql_errors:
  assumes "json_Marshal w \<lparr>Query = query, Variables = variables\<rparr> = Inr requestBody"
    and "http_NewRequest w ''POST'' (apiURL c) requestBody = Inr httpReq"
    and "httpClient_Do w (Header_Set ''Authorization'' (''Bearer '' @ apiKey c)
            (Header_Set ''Content-Type'' ''application/json'' httpReq)) = Inr resp"
    and "StatusCode resp = 200"
    and "Body resp = Inr body"
    and "Unmarshal_GraphQLResponse w body = Inr graphqlResp"
    and "Errors graphqlResp \<noteq> []"
  shows "ExecuteQuery w c query variables =
           (Some graphqlResp,
            Some (''GraphQL errors: [''
                  @ Join (map Message (Errors graphqlResp)) '' '' @ '']'')) \<and>
         (\<forall>e \<in> set (Errors graphqlResp).
            Contains (''GraphQL errors: [''
                      @ Join (map Message (Errors graphqlResp)) '' '' @ '']'') (Message e))"
proof -
  have "ExecuteQuery w c query variables =
          (Some graphqlResp, Some (''GraphQL errors: '' @ fmt_errors (Errors graphqlResp)))"
    using ExecuteQuery_response [OF assms(1-6)] assms(7) by simp
  moreover have "\<forall>e \<in> set (Errors graphqlResp).
      Contains (''GraphQL errors: '' @ fmt_errors (Errors graphqlResp)) (Message e)"
    using fmt_errors_member Contains_prefixed by blast
  ultimately show ?thesis by (simp add: fmt_errors_def)
qed

theorem ExecuteQuery_graphql_errors_witness:
  "ExecuteQuery errors_world (NewClient ''key'') DeleteGraph_query []
     = (Some errors_response, Some ''GraphQL errors: [Graph does not exist Unauthorized]'') \<and>
   Data errors_response \<noteq> [] \<and>
   Contains ''GraphQL errors: [Graph does not exist Unauthorized]'' ''Graph does not exist'' \<and>
   Contains ''GraphQL errors: [Graph does not exist Unauthorized]'' ''Unauthorized''"
proof -
  have "ExecuteQuery errors_world (NewClient ''key'') DeleteGraph_query [] =
           (Some errors_response,
            Some (''GraphQL errors: [''
                  @ Join (map Message (Errors errors_response)) '' '' @ '']'')) \<and>
         (\<forall>e \<in> set (Errors errors_response).
            Contains (''GraphQL errors: [''
                      @ Join (map Message (Errors errors_response)) '' '' @ '']'') (Message e))"
    by (rule ExecuteQuery_graphql_errors
          [where requestBody = DeleteGraph_query
             and httpReq = "\<lparr>req_method = ''POST'', req_url = DefaultAPIURL,
                              req_header = Map.empty, req_body = DeleteGraph_query\<rparr>"
             and resp = "\<lparr>StatusCode = 200, Body = Inr errors_body\<rparr>"
             and body = errors_body])
       (simp_all add: errors_world_def fixed_world_def NewClient_def errors_response_def)
  then show ?thesis
    by (simp add: errors_response_def)
qed


section \<open>The Create operations and hooks\<close>

lemma fmt_map_tag:
  assumes "map_of m k = Some (IString tag)"
  shows "Contains (fmt_map m) tag"
proof -
  from assms have "(k, IString tag) \<in> set m" by (rule map_of_SomeD)
  then have "(k, tag) \<in> set (map (\<lambda>kv. (fst kv, fmt_v (snd kv))) m)" by force
  then have "(k, tag) \<in> set (sort_key fst (map (\<lambda>kv. (fst kv, fmt_v (snd kv))) m))" by simp
  then have "k @ '':'' @ tag
      \<in> set (map (\<lambda>kv. fst kv @ '':'' @ snd kv)
               (sort_key fst (map (\<lambda>kv. (fst kv, fmt_v (snd kv))) m)))" by force
  then obtain p q where
    "Join (map (\<lambda>kv. fst kv @ '':'' @ snd kv)
            (sort_key fst (map (\<lambda>kv. (fst kv, fmt_v (snd kv))) m))) '' ''
       = p @ (k @ '':'' @ tag) @ q"
    using Join_member by blast
  then have "fmt_map m = (''map['' @ p @ k @ '':'') @ tag @ (q @ '']'')"
    by (simp add: fmt_map_def)
  then show ?thesis unfolding Contains_iff by blast
qed

lemma CreateGraph_decode_1:
  "Unmarshal_Graph w p = Inr g \<and> Graph_ID g \<noteq> [] \<longrightarrow> CreateGraph_decode w p = Returns g"
  by (cases "Unmarshal_Graph w p"; cases "Unmarshal_map w p") (auto simp: CreateGraph_decode_def Let_def)

lemma CreateGraph_decode_2:
  "CreateGraph_decode w p = Returns g \<longrightarrow> Unmarshal_Graph w p = Inr g \<and> Graph_ID g \<noteq> []"
  by (cases "Unmarshal_Graph w p"; cases "Unmarshal_map w p") (auto simp: CreateGraph_decode_def Let_def)

lemma CreateGraph_decode_3:
  "\<not> (\<exists>e. Unmarshal_Graph w p = Inr e \<and> Graph_ID e \<noteq> []) \<and> Unmarshal_map w p = Inr m \<longrightarrow>
      CreateGraph_decode w p = Fails (''graph creation failed: '' @ fmt_map m)"
  by (cases "Unmarshal_Graph w p"; cases "Unmarshal_map w p") (auto simp: CreateGraph_decode_def Let_def)

lemma CreateGraph_decode_4:
  "\<not> (\<exists>e. Unmarshal_Graph w p = Inr e \<and> Graph_ID e \<noteq> []) \<and> Unmarshal_map w p = Inl err \<longrightarrow>
      CreateGraph_decode w p = Fails (''failed to parse response: '' @ err)"
  by (cases "Unmarshal_Graph w p"; cases "Unmarshal_map w p") (auto simp: CreateGraph_decode_def Let_def)

lemma CreateBranch_id_decode_1:
  "Unmarshal_Branch_id w p = Inr bi \<and> Branch_id_ID bi \<noteq> [] \<longrightarrow> CreateBranch_id_decode w p = Returns bi"
  by (cases "Unmarshal_Branch_id w p"; cases "Unmarshal_map w p") (auto simp: CreateBranch_id_decode_def Let_def)

lemma CreateBranch_id_decode_2:
  "CreateBranch_id_decode w p = Returns bi \<longrightarrow> Unmarshal_Branch_id w p = Inr bi \<and> Branch_id_ID bi \<noteq> []"
  by (cases "Unmarshal_Branch_id w p"; cases "Unmarshal_map w p") (auto simp: CreateBranch_id_decode_def Let_def)

lemma CreateBranch_id_decode_3:
  "\<not> (\<exists>e. Unmarshal_Branch_id w p = Inr e \<and> Branch_id_ID e \<noteq> []) \<and> Unmarshal_map w p = Inr m \<longrightarrow>
      CreateBranch_id_decode w p = Fails (''branch creation failed: '' @ fmt_map m)"
  by (cases "Unmarshal_Branch_id w p"; cases "Unmarshal_map w p") (auto simp: CreateBranch_id_decode_def Let_def)

lemma CreateBranch_id_decode_4:
  "\<not> (\<exists>e. Unmarshal_Branch_id w p = Inr e \<and> Branch_id_ID e \<noteq> []) \<and> Unmarshal_map w p = Inl err \<longrightarrow>
      CreateBranch_id_decode w p = Fails (''failed to parse response: '' @ err)"
  by (cases "Unmarshal_Branch_id w p"; cases "Unmarshal_map w p") (auto simp: CreateBranch_id_decode_def Let_def)

lemma CreateSubgraph_decode_1:
  "Unmarshal_Subgraph w p = Inr s \<and> Subgraph_ID s \<noteq> [] \<longrightarrow> CreateSubgraph_decode w p = Returns s"
  by (cases "Unmarshal_Subgraph w p"; cases "Unmarshal_map w p") (auto simp: CreateSubgraph_decode_def Let_def)

lemma CreateSubgraph_decode_2:
  "CreateSubgraph_decode w p = Returns s \<longrightarrow> Unmarshal_Subgraph w p = Inr s \<and> Subgraph_ID s \<noteq> []"
  by (cases "Unmarshal_Subgraph w p"; cases "Unmarshal_map w p") (auto simp: CreateSubgraph_decode_def Let_def)

lemma CreateSubgraph_decode_3:
  "\<not> (\<exists>e. Unmarshal_Subgraph w p = Inr e \<and> Subgraph_ID e \<noteq> []) \<and> Unmarshal_map w p = Inr m \<longrightarrow>
      CreateSubgraph_decode w p = Fails (''subgraph creation failed: '' @ fmt_map m)"
  by (cases "Unmarshal_Subgraph w p"; cases "Unmarshal_map w p") (auto simp: CreateSubgraph_decode_def Let_def)

lemma CreateSubgraph_decode_4:
  "\<not> (\<exists>e. Unmarshal_Subgraph w p = Inr e \<and> Subgraph_ID e \<noteq> []) \<and> Unmarshal_map w p = Inl err \<longrightarrow>
      CreateSubgraph_decode w p = Fails (''failed to parse response: '' @ err)"
  by (cases "Unmarshal_Subgraph w p"; cases "Unmarshal_map w p") (auto simp: CreateSubgraph_decode_def Let_def)

lemma CreateBranch_decode_1:
  "Unmarshal_Branch w p = Inr b \<and> Branch_ID b \<noteq> [] \<longrightarrow> CreateBranch_decode w p = Returns b"
  by (cases "Unmarshal_Branch w p"; cases "Unmarshal_map w p") (auto simp: CreateBranch_decode_def Let_def)

lemma CreateBranch_decode_2:
  "CreateBranch_decode w p = Returns b \<longrightarrow> Unmarshal_Branch w p = Inr b \<and> Branch_ID b \<noteq> []"
  by (cases "Unmarshal_Branch w p"; cases "Unmarshal_map w p") (auto simp: CreateBranch_decode_def Let_def)

lemma CreateBranch_decode_3:
  "\<not> (\<exists>e. Unmarshal_Branch w p = Inr e \<and> Branch_ID e \<noteq> []) \<and> Unmarshal_map w p = Inr m \<longrightarrow>
      CreateBranch_decode w p =
        Fails (if map_of m ''__typename'' = Some (IString ''BranchAlreadyExistsError'')
                 then ''branch already exists''
               else if map_of m ''__typename'' = Some (IString ''GraphDoesNotExistError'')
                 then ''graph does not exist''
               else if map_of m ''__typename'' = Some (IString ''GraphNotSelfHostedError'')
                 then ''graph is not self-hosted''
               else ''branch creation failed: '' @ fmt_map m)"
  by (cases "Unmarshal_Branch w p"; cases "Unmarshal_map w p") (auto simp: CreateBranch_decode_def Let_def)

lemma CreateBranch_decode_4:
  "\<not> (\<exists>e. Unmarshal_Branch w p = Inr e \<and> Branch_ID e \<noteq> []) \<and> Unmarshal_map w p = Inl err \<longrightarrow>
      CreateBranch_decode w p = Fails (''failed to parse response: '' @ err)"
  by (cases "Unmarshal_Branch w p"; cases "Unmarshal_map w p") (auto simp: CreateBranch_decode_def Let_def)

lemma fmt_map_typename:
  "map_of m ''__typename'' = Some (IString tag) \<longrightarrow> Contains (fmt_map m) tag"
  using fmt_map_tag by blast

lemma GraphResource_Create_failed:
  "api_GetAccountBySlug cl (ValueString (g_AccountSlug (decode_value greq))) = Inr account \<and>
    api_CreateGraph cl \<lparr>cgi_AccountID = Account_ID account,
        cgi_GraphSlug = ValueString (g_Slug (decode_value greq))\<rparr> = Inl err \<longrightarrow>
      State (fst (GraphResource_Create Format cl greq gresp)) = State gresp \<and>
      HasError (Diagnostics (fst (GraphResource_Create Format cl greq gresp)))"
  by (simp add: GraphResource_Create_def Let_def response_simps)

lemma BranchResource_Create_failed:
  "api_CreateBranch cl \<lparr>cbi_AccountSlug = ValueString (b_AccountSlug (decode_value breq)),
        cbi_GraphSlug = ValueString (b_GraphSlug (decode_value breq)),
        cbi_BranchName = ValueString (b_Name (decode_value breq))\<rparr> = Inl err \<longrightarrow>
      State (fst (BranchResource_Create cl breq bresp)) = State bresp \<and>
      HasError (Diagnostics (fst (BranchResource_Create cl breq bresp)))"
  by (simp add: BranchResource_Create_def Let_def response_simps)

lemma BranchResource_Create_id_failed:
  "api_CreateBranch_id cl \<lparr>cbi_id_GraphID = ValueString (bi_GraphID (decode_value ireq)),
        cbi_id_BranchName = ValueString (bi_Name (decode_value ireq))\<rparr> = Inl err \<longrightarrow>
      State (fst (BranchResource_Create_id Format cl ireq iresp)) = State iresp \<and>
      HasError (Diagnostics (fst (BranchResource_Create_id Format cl ireq iresp)))"
  by (simp add: BranchResource_Create_id_def Let_def response_simps)

lemma SubgraphResource_Create_failed:
  "api_CreateSubgraph cl \<lparr>csi_BranchID = ValueString (s_BranchID (decode_value sreq)),
        csi_SubgraphName = ValueString (s_Name (decode_value sreq)),
        csi_URL = ValueString (s_URL (decode_value sreq))\<rparr> = Inl err \<longrightarrow>
      State (fst (SubgraphResource_Create Format cl sreq sresp)) = State sresp \<and>
      HasError (Diagnostics (fst (SubgraphResource_Create Format cl sreq sresp)))"
  by (simp add: SubgraphResource_Create_def Let_def response_simps)

text \<open>
  C3, as amended. For every payload of a creation: the success shape is tried first, and
  the operation returns the entity exactly when that decoding yields an entity with a
  non-empty identifier. Otherwise the payload is decoded as a map and the operation
  returns an error and no entity. For \<open>CreateGraph\<close>, \<open>CreateSubgraph\<close> and
  \<open>CreateBranch\<close> keyed by graph identifier the text of the error is the failure
  prefix followed by the printed map, which contains the tag when the map has a string
  under \<open>__typename\<close>. \<open>CreateBranch\<close> keyed by slugs answers the tags
  \<open>BranchAlreadyExistsError\<close>, \<open>GraphDoesNotExistError\<close> and
  \<open>GraphNotSelfHostedError\<close> with a fixed message each and prints the map for any
  other. When the payload does not decode as a map, the error says so. A Create hook
  whose operation returns an error reports an error diagnostic and leaves the state as
  it was, so no identifier is stored.
\<close>

theorem Create_decode:
  "(Unmarshal_Graph w p = Inr g \<and> Graph_ID g \<noteq> [] \<longrightarrow> CreateGraph_decode w p = Returns g) \<and>
   (CreateGraph_decode w p = Returns g \<longrightarrow> Unmarshal_Graph w p = Inr g \<and> Graph_ID g \<noteq> []) \<and>
   (\<not> (\<exists>e. Unmarshal_Graph w p = Inr e \<and> Graph_ID e \<noteq> []) \<and> Unmarshal_map w p = Inr m \<longrightarrow>
      CreateGraph_decode w p = Fails (''graph creation failed: '' @ fmt_map m)) \<and>
   (\<not> (\<exists>e. Unmarshal_Graph w p = Inr e \<and> Graph_ID e \<noteq> []) \<and> Unmarshal_map w p = Inl err \<longrightarrow>
      CreateGraph_decode w p = Fails (''failed to parse response: '' @ err)) \<and>
   (Unmarshal_Branch_id w p = Inr bi \<and> Branch_id_ID bi \<noteq> [] \<longrightarrow> CreateBranch_id_decode w p = Returns bi) \<and>
   (CreateBranch_id_decode w p = Returns bi \<longrightarrow> Unmarshal_Branch_id w p = Inr bi \<and> Branch_id_ID bi \<noteq> []) \<and>
   (\<not> (\<exists>e. Unmarshal_Branch_id w p = Inr e \<and> Branch_id_ID e \<noteq> []) \<and> Unmarshal_map w p = Inr m \<longrightarrow>
      CreateBranch_id_decode w p = Fails (''branch creation failed: '' @ fmt_map m)) \<and>
   (\<not> (\<exists>e. Unmarshal_Branch_id w p = Inr e \<and> Branch_id_ID e \<noteq> []) \<and> Unmarshal_map w p = Inl err \<longrightarrow>
      CreateBranch_id_decode w p = Fails (''failed to parse response: '' @ err)) \<and>
   (Unmarshal_Subgraph w p = Inr s \<and> Subgraph_ID s \<noteq> [] \<longrightarrow> CreateSubgraph_decode w p = Returns s) \<and>
   (CreateSubgraph_decode w p = Returns s \<longrightarrow> Unmarshal_Subgraph w p = Inr s \<and> Subgraph_ID s \<noteq> []) \<and>
   (\<not> (\<exists>e. Unmarshal_Subgraph w p = Inr e \<and> Subgraph_ID e \<noteq> []) \<and> Unmarshal_map w p = Inr m \<longrightarrow>
      CreateSubgraph_decode w p = Fails (''subgraph creation failed: '' @ fmt_map m)) \<and>
   (\<not> (\<exists>e. Unmarshal_Subgraph w p = Inr e \<and> Subgraph_ID e \<noteq> []) \<and> Unmarshal_map w p = Inl err \<longrightarrow>
      CreateSubgraph_decode w p = Fails (''failed to parse response: '' @ err)) \<and>
   (Unmarshal_Branch w p = Inr b \<and> Branch_ID b \<noteq> [] \<longrightarrow> CreateBranch_decode w p = Returns b) \<and>
   (CreateBranch_decode w p = Returns b \<longrightarrow> Unmarshal_Branch w p = Inr b \<and> Branch_ID b \<noteq> []) \<and>
   (\<not> (\<exists>e. Unmarshal_Branch w p = Inr e \<and> Branch_ID e \<noteq> []) \<and> Unmarshal_map w p = Inr m \<longrightarrow>
      CreateBranch_decode w p =
        Fails (if map_of m ''__typename'' = Some (IString ''BranchAlreadyExistsError'')
                 then ''branch already exists''
               else if map_of m ''__typename'' = Some (IString ''GraphDoesNotExistError'')
                 then ''graph does not exist''
               else if map_of m ''__typename'' = Some (IString ''GraphNotSelfHostedError'')
                 then ''graph is not self-hosted''
               else ''branch creation failed: '' @ fmt_map m)) \<and>
   (\<not> (\<exists>e. Unmarshal_Branch w p = Inr e \<and> Branch_ID e \<noteq> []) \<and> Unmarshal_map w p = Inl err \<longrightarrow>
      CreateBranch_decode w p = Fails (''failed to parse response: '' @ err)) \<and>
   (map_of m ''__typename'' = Some (IString tag) \<longrightarrow> Contains (fmt_map m) tag) \<and>
   (api_GetAccountBySlug cl (ValueString (g_AccountSlug (decode_value greq))) = Inr account \<and>
    api_CreateGraph cl \<lparr>cgi_AccountID = Account_ID account,
        cgi_GraphSlug = ValueString (g_Slug (decode_value greq))\<rparr> = Inl err \<longrightarrow>
      State (fst (GraphResource_Create Format cl greq gresp)) = State gresp \<and>
      HasError (Diagnostics (fst (GraphResource_Create Format cl greq gresp)))) \<and>
   (api_CreateBranch cl \<lparr>cbi_AccountSlug = ValueString (b_AccountSlug (decode_value breq)),
        cbi_GraphSlug = ValueString (b_GraphSlug (decode_value breq)),
        cbi_BranchName = ValueString (b_Name (decode_value breq))\<rparr> = Inl err \<longrightarrow>
      State (fst (BranchResource_Create cl breq bresp)) = State bresp \<and>
      HasError (Diagnostics (fst (BranchResource_Create cl breq bresp)))) \<and>
   (api_CreateBranch_id cl \<lparr>cbi_id_GraphID = ValueString (bi_GraphID (decode_value ireq)),
        cbi_id_BranchName = ValueString (bi_Name (decode_value ireq))\<rparr> = Inl err \<longrightarrow>
      State (fst (BranchResource_Create_id Format cl ireq iresp)) = State iresp \<and>
      HasError (Diagnostics (fst (BranchResource_Create_id Format cl ireq iresp)))) \<and>
   (api_CreateSubgraph cl \<lparr>csi_BranchID = ValueString (s_BranchID (decode_value sreq)),
        csi_SubgraphName = ValueString (s_Name (decode_value sreq)),
        csi_URL = ValueString (s_URL (decode_value sreq))\<rparr> = Inl err \<longrightarrow>
      State (fst (SubgraphResource_Create Format cl sreq sresp)) = State sresp \<and>
      HasError (Diagnostics (fst (SubgraphResource_Create Format cl sreq sresp))))"
  by (intro conjI) (rule CreateGraph_decode_1, rule CreateGraph_decode_2, rule CreateGraph_decode_3, rule CreateGraph_decode_4, rule CreateBranch_id_decode_1, rule CreateBranch_id_decode_2, rule CreateBranch_id_decode_3, rule CreateBranch_id_decode_4, rule CreateSubgraph_decode_1, rule CreateSubgraph_decode_2, rule CreateSubgraph_decode_3, rule CreateSubgraph_decode_4, rule CreateBranch_decode_1, rule CreateBranch_decode_2, rule CreateBranch_decode_3, rule CreateBranch_decode_4, rule fmt_map_typename, rule GraphResource_Create_failed, rule BranchResource_Create_failed, rule BranchResource_Create_id_failed, rule SubgraphResource_Create_failed)

theorem Create_decode_witness:
  "CreateGraph_decode graph_created_world graph_created_payload = Returns created_graph \<and>
   CreateGraph_decode slug_exists_world slug_exists_payload
     = Fails ''graph creation failed: map[__typename:SlugAlreadyExistsError]'' \<and>
   Contains (fmt_map [(''__typename'', IString ''SlugAlreadyExistsError'')]) ''SlugAlreadyExistsError'' \<and>
   CreateBranch_decode branch_exists_world branch_exists_payload = Fails ''branch already exists'' \<and>
   State (fst (GraphResource_Create rfc3339
        ((failing_api ''graph creation failed: map[__typename:SlugAlreadyExistsError]'')
           \<lparr>api_GetAccountBySlug := (\<lambda>slug. Inr (Graph_Account created_graph))\<rparr>)
        (request (a_graph\<lparr>g_ID := StringUnknown, g_CreatedAt := StringUnknown\<rparr>))
        (response None))) = None"
proof -
  have g: "Unmarshal_Graph graph_created_world graph_created_payload = Inr created_graph \<and>
           Graph_ID created_graph \<noteq> []"
    by (simp add: graph_created_world_def fixed_world_def created_graph_def)
  have 1: "CreateGraph_decode graph_created_world graph_created_payload = Returns created_graph"
    by (rule Create_decode [where w = graph_created_world and p = graph_created_payload
          and g = created_graph, THEN conjunct1, THEN mp]) (rule g)
  have n: "\<not> (\<exists>e. Unmarshal_Graph slug_exists_world slug_exists_payload = Inr e \<and> Graph_ID e \<noteq> [])"
    by (simp add: slug_exists_world_def fixed_world_def zero_Graph_def)
  have m: "Unmarshal_map slug_exists_world slug_exists_payload
             = Inr [(''__typename'', IString ''SlugAlreadyExistsError'')]"
    by (simp add: slug_exists_world_def fixed_world_def)
  have t: "map_of [(''__typename'', IString ''SlugAlreadyExistsError'')] ''__typename''
             = Some (IString ''SlugAlreadyExistsError'')"
    by simp
  have 2: "CreateGraph_decode slug_exists_world slug_exists_payload
             = Fails (''graph creation failed: ''
                      @ fmt_map [(''__typename'', IString ''SlugAlreadyExistsError'')])"
    by (rule Create_decode [where w = slug_exists_world and p = slug_exists_payload
          and m = "[(''__typename'', IString ''SlugAlreadyExistsError'')]",
          THEN conjunct2, THEN conjunct2, THEN conjunct1, THEN mp]) (rule conjI [OF n m])
  have 3: "Contains (fmt_map [(''__typename'', IString ''SlugAlreadyExistsError'')])
             ''SlugAlreadyExistsError''"
    by (rule Create_decode [where m = "[(''__typename'', IString ''SlugAlreadyExistsError'')]"
          and tag = "''SlugAlreadyExistsError''", THEN conjunct2, THEN conjunct2, THEN conjunct2, THEN conjunct2, THEN conjunct2, THEN conjunct2, THEN conjunct2, THEN conjunct2, THEN conjunct2, THEN conjunct2, THEN conjunct2, THEN conjunct2, THEN conjunct2, THEN conjunct2, THEN conjunct2, THEN conjunct2, THEN conjunct1, THEN mp]) (rule t)
  have nb: "\<not> (\<exists>e. Unmarshal_Branch branch_exists_world branch_exists_payload = Inr e
                 \<and> Branch_ID e \<noteq> [])"
    by (simp add: branch_exists_world_def fixed_world_def zero_Branch_def)
  have mb: "Unmarshal_map branch_exists_world branch_exists_payload
              = Inr [(''__typename'', IString ''BranchAlreadyExistsError'')]"
    by (simp add: branch_exists_world_def fixed_world_def)
  have "CreateBranch_decode branch_exists_world branch_exists_payload
          = Fails (if map_of [(''__typename'', IString ''BranchAlreadyExistsError'')] ''__typename''
                        = Some (IString ''BranchAlreadyExistsError'')
                     then ''branch already exists''
                   else if map_of [(''__typename'', IString ''BranchAlreadyExistsError'')] ''__typename''
                        = Some (IString ''GraphDoesNotExistError'')
                     then ''graph does not exist''
                   else if map_of [(''__typename'', IString ''BranchAlreadyExistsError'')] ''__typename''
                        = Some (IString ''GraphNotSelfHostedError'')
                     then ''graph is not self-hosted''
                   else ''branch creation failed: ''
                        @ fmt_map [(''__typename'', IString ''BranchAlreadyExistsError'')])"
    by (rule Create_decode [where w = branch_exists_world and p = branch_exists_payload
          and m = "[(''__typename'', IString ''BranchAlreadyExistsError'')]",
          THEN conjunct2, THEN conjunct2, THEN conjunct2, THEN conjunct2, THEN conjunct2, THEN conjunct2, THEN conjunct2, THEN conjunct2, THEN conjunct2, THEN conjunct2, THEN conjunct2, THEN conjunct2, THEN conjunct2, THEN conjunct2, THEN conjunct1, THEN mp]) (rule conjI [OF nb mb])
  then have 4: "CreateBranch_decode branch_exists_world branch_exists_payload
                  = Fails ''branch already exists''"
    by simp
  let ?cl = "(failing_api ''graph creation failed: map[__typename:SlugAlreadyExistsError]'')
               \<lparr>api_GetAccountBySlug := (\<lambda>slug. Inr (Graph_Account created_graph))\<rparr>"
  let ?req = "request (a_graph\<lparr>g_ID := StringUnknown, g_CreatedAt := StringUnknown\<rparr>)"
  have h: "api_GetAccountBySlug ?cl (ValueString (g_AccountSlug (decode_value ?req)))
             = Inr (Graph_Account created_graph) \<and>
           api_CreateGraph ?cl \<lparr>cgi_AccountID = Account_ID (Graph_Account created_graph),
               cgi_GraphSlug = ValueString (g_Slug (decode_value ?req))\<rparr>
             = Inl ''graph creation failed: map[__typename:SlugAlreadyExistsError]''"
    by (simp add: failing_api_def)
  have 5: "State (fst (GraphResource_Create rfc3339 ?cl ?req (response None))) = State (response None)"
    by (rule Create_decode [where cl = ?cl and greq = ?req
          and account = "Graph_Account created_graph"
          and err = "''graph creation failed: map[__typename:SlugAlreadyExistsError]''"
          and Format = rfc3339 and gresp = "response None",
          THEN conjunct2, THEN conjunct2, THEN conjunct2, THEN conjunct2, THEN conjunct2, THEN conjunct2, THEN conjunct2, THEN conjunct2, THEN conjunct2, THEN conjunct2, THEN conjunct2, THEN conjunct2, THEN conjunct2, THEN conjunct2, THEN conjunct2, THEN conjunct2, THEN conjunct2, THEN conjunct1, THEN mp, THEN conjunct1]) (rule h)
  have f: "fmt_map [(''__typename'', IString ''SlugAlreadyExistsError'')]
             = ''map[__typename:SlugAlreadyExistsError]''"
    by (simp add: fmt_map_def)
  from 1 2 3 4 5 show ?thesis by (simp add: f response_def)
qed

text \<open>
  C3, the unamended statement. \<open>CreateBranch\<close> keyed by slugs does not carry the
  tag of the failure variant: on \<open>BranchAlreadyExistsError\<close> the error is a fixed
  message, which is not the printed map and does not contain the tag.
\<close>

theorem CreateBranch_counterexample:
  "CreateBranch branch_exists_world (NewClient ''key'') new_branch = Fails ''branch already exists'' \<and>
   Unmarshal_map branch_exists_world branch_exists_payload
     = Inr [(''__typename'', IString ''BranchAlreadyExistsError'')] \<and>
   \<not> Contains ''branch already exists'' ''BranchAlreadyExistsError'' \<and>
   ''branch already exists''
     \<noteq> ''branch creation failed: '' @ fmt_map [(''__typename'', IString ''BranchAlreadyExistsError'')]"
proof -
  have "CreateBranch branch_exists_world (NewClient ''key'') new_branch
          = Fails ''branch already exists''"
    unfolding CreateBranch_def branch_exists_world_def fixed_world_ExecuteQuery Let_def
    by (simp add: fixed_world_def CreateBranch_decode_def zero_Branch_def)
  moreover have "\<not> Contains ''branch already exists'' ''BranchAlreadyExistsError''"
    by (simp add: HasPrefix_def)
  ultimately show ?thesis
    by (simp add: branch_exists_world_def fixed_world_def)
qed


section \<open>The Delete hooks\<close>

lemma BranchResource_Delete_does_not_exist:
  assumes "\<not> HasError (Diagnostics resp)" "\<not> HasError (decode_diags req)"
    and "api_DeleteBranch cl \<lparr>dbi_AccountSlug = ValueString (b_AccountSlug (decode_value req)),
            dbi_GraphSlug = ValueString (b_GraphSlug (decode_value req)),
            dbi_BranchName = ValueString (b_Name (decode_value req))\<rparr> = Some err"
  shows "\<not> HasError (Diagnostics (fst (BranchResource_Delete cl req resp))) \<longleftrightarrow>
           Contains err ''does not exist''"
  using assms
  by (simp add: BranchResource_Delete_def Let_def response_simps)

lemma DeleteGraph_gone:
  "DeleteGraph gone_world (NewClient ''key'') ''graph-1'' = Fails gone_error"
  unfolding DeleteGraph_def gone_world_def fixed_world_ExecuteQuery Let_def
  by (simp add: gone_response_def fmt_errors_def gone_error_def)

lemma Contains_gone_error: "Contains gone_error ''does not exist''"
proof -
  have "gone_error = ''failed to delete graph: GraphQL errors: [Graph '' @ ''does not exist'' @ '']''"
    by (simp add: gone_error_def)
  then show ?thesis unfolding Contains_iff by blast
qed

text \<open>
  C4, at the failing input. The deletion of a graph the server no longer has comes
  back, from \<open>DeleteGraph\<close>, as an error whose text contains \<open>does not exist\<close>.
  The Delete hook of the branch resource (keyed by slugs) reports no diagnostic for such
  an error, so the host runtime drops the record. The Delete hooks of the graph resource,
  of the subgraph resource and of the branch resource keyed by identifier report an error
  diagnostic, and the host runtime keeps the record.
\<close>

theorem Delete_hooks_does_not_exist:
  "DeleteGraph gone_world (NewClient ''key'') ''graph-1'' = Fails gone_error \<and>
   Contains gone_error ''does not exist'' \<and>
   \<not> HasError (Diagnostics (fst (BranchResource_Delete (failing_api gone_error)
         (request a_branch) (response (Some a_branch))))) \<and>
   State (host_after_Delete (fst (BranchResource_Delete (failing_api gone_error)
         (request a_branch) (response (Some a_branch))))) = None \<and>
   HasError (Diagnostics (fst (GraphResource_Delete (failing_api gone_error)
         (request a_graph) (response (Some a_graph))))) \<and>
   State (host_after_Delete (fst (GraphResource_Delete (failing_api gone_error)
         (request a_graph) (response (Some a_graph))))) = Some a_graph \<and>
   HasError (Diagnostics (fst (SubgraphResource_Delete (failing_api gone_error)
         (request a_subgraph) (response (Some a_subgraph))))) \<and>
   State (host_after_Delete (fst (SubgraphResource_Delete (failing_api gone_error)
         (request a_subgraph) (response (Some a_subgraph))))) = Some a_subgraph \<and>
   HasError (Diagnostics (fst (BranchResource_Delete_id (failing_api gone_error)
         (request a_branch_id) (response (Some a_branch_id))))) \<and>
   State (host_after_Delete (fst (BranchResource_Delete_id (failing_api gone_error)
         (request a_branch_id) (response (Some a_branch_id))))) = Some a_branch_id"
proof -
  note c = Contains_gone_error
  have b: "fst (BranchResource_Delete (failing_api gone_error)
                  (request a_branch) (response (Some a_branch))) = response (Some a_branch)"
    using c by (simp add: BranchResource_Delete_def Let_def failing_api_def request_def
        response_def resp_Append_def HasError_Nil)
  have g: "fst (GraphResource_Delete (failing_api gone_error)
                  (request a_graph) (response (Some a_graph)))
             = resp_AddError ''Client Error'' (''Unable to delete graph: '' @ gone_error)
                 (response (Some a_graph))"
    by (simp add: GraphResource_Delete_def Let_def failing_api_def request_def
        response_def resp_Append_def HasError_Nil)
  have s: "fst (SubgraphResource_Delete (failing_api gone_error)
                  (request a_subgraph) (response (Some a_subgraph)))
             = resp_AddError ''Client Error'' (''Unable to delete subgraph: '' @ gone_error)
                 (response (Some a_subgraph))"
    by (simp add: SubgraphResource_Delete_def Let_def failing_api_def request_def
        response_def resp_Append_def HasError_Nil)
  have i: "fst (BranchResource_Delete_id (failing_api gone_error)
                  (request a_branch_id) (response (Some a_branch_id)))
             = resp_AddError ''Client Error'' (''Unable to delete branch: '' @ gone_error)
                 (response (Some a_branch_id))"
    by (simp add: BranchResource_Delete_id_def Let_def failing_api_def request_def
        response_def resp_Append_def HasError_Nil)
  show ?thesis
    unfolding b g s i
    using DeleteGraph_gone c
    by (simp add: host_after_Delete_def HasError_resp_AddError State_resp_AddError
        State_RemoveResource response_def HasError_Nil)
qed


section \<open>The Read hooks\<close>

lemma GraphResource_Read_1:
  "\<not> HasError (Diagnostics gresp) \<and> \<not> HasError (decode_diags greq) \<and>
    api_GetGraph cl (ValueString (g_AccountSlug (decode_value greq))) (ValueString (g_Slug (decode_value greq))) = Inl ''graph not found'' \<longrightarrow>
      State (fst (GraphResource_Read Format cl greq gresp)) = None \<and>
      \<not> HasError (Diagnostics (fst (GraphResource_Read Format cl greq gresp)))"
  by (simp add: GraphResource_Read_def Let_def response_simps)

lemma GraphResource_Read_2:
  "\<not> HasError (Diagnostics gresp) \<and> \<not> HasError (decode_diags greq) \<and>
    api_GetGraph cl (ValueString (g_AccountSlug (decode_value greq))) (ValueString (g_Slug (decode_value greq))) = Inl err \<and> err \<noteq> ''graph not found'' \<longrightarrow>
      State (fst (GraphResource_Read Format cl greq gresp)) = State gresp \<and>
      HasError (Diagnostics (fst (GraphResource_Read Format cl greq gresp)))"
  by (simp add: GraphResource_Read_def Let_def response_simps)

lemma GraphResource_Read_3:
  "\<not> HasError (Diagnostics gresp) \<and> \<not> HasError (decode_diags greq) \<and>
    api_GetGraph cl (ValueString (g_AccountSlug (decode_value greq))) (ValueString (g_Slug (decode_value greq))) = Inr graph \<longrightarrow>
      State (fst (GraphResource_Read Format cl greq gresp))
        = Some ((decode_value greq)\<lparr>g_ID := StringValue (Graph_ID graph),
             g_CreatedAt := StringValue (Format (Graph_CreatedAt graph) layout)\<rparr>) \<and>
      \<not> HasError (Diagnostics (fst (GraphResource_Read Format cl greq gresp)))"
  by (simp add: GraphResource_Read_def Let_def response_simps)

lemma BranchResource_Read_1:
  "\<not> HasError (Diagnostics bresp) \<and> \<not> HasError (decode_diags breq) \<and>
    api_GetBranch cl (ValueString (b_AccountSlug (decode_value breq)))
       (ValueString (b_GraphSlug (decode_value breq))) (ValueString (b_Name (decode_value breq))) = Inl ''branch not found'' \<longrightarrow>
      State (fst (BranchResource_Read cl breq bresp)) = None \<and>
      \<not> HasError (Diagnostics (fst (BranchResource_Read cl breq bresp)))"
  by (simp add: BranchResource_Read_def Let_def response_simps)

lemma BranchResource_Read_2:
  "\<not> HasError (Diagnostics bresp) \<and> \<not> HasError (decode_diags breq) \<and>
    api_GetBranch cl (ValueString (b_AccountSlug (decode_value breq)))
       (ValueString (b_GraphSlug (decode_value breq))) (ValueString (b_Name (decode_value breq))) = Inl err \<and> err \<noteq> ''branch not found'' \<longrightarrow>
      State (fst (BranchResource_Read cl breq bresp)) = State bresp \<and>
      HasError (Diagnostics (fst (BranchResource_Read cl breq bresp)))"
  by (simp add: BranchResource_Read_def Let_def response_simps)

lemma BranchResource_Read_3:
  "\<not> HasError (Diagnostics bresp) \<and> \<not> HasError (decode_diags breq) \<and>
    api_GetBranch cl (ValueString (b_AccountSlug (decode_value breq)))
       (ValueString (b_GraphSlug (decode_value breq))) (ValueString (b_Name (decode_value breq))) = Inr branch \<longrightarrow>
      State (fst (BranchResource_Read cl breq bresp))
        = Some ((decode_value breq)\<lparr>b_ID := StringValue (Branch_ID branch),
             b_Environment := StringValue (Branch_Environment branch),
             b_OperationChecksEnabled := BoolValue (Branch_OperationChecksEnabled branch),
             b_OperationChecksIgnoreUsageData :=
               BoolValue (Branch_OperationChecksIgnoreUsageData branch)\<rparr>) \<and>
      \<not> HasError (Diagnostics (fst (BranchResource_Read cl breq bresp)))"
  by (simp add: BranchResource_Read_def Let_def response_simps)

lemma BranchResource_Read_id_1:
  "\<not> HasError (Diagnostics iresp) \<and> \<not> HasError (decode_diags ireq) \<and>
    api_GetBranch_id cl (ValueString (bi_GraphID (decode_value ireq))) (ValueString (bi_Name (decode_value ireq))) = Inl ''branch not found'' \<longrightarrow>
      State (fst (BranchResource_Read_id Format cl ireq iresp)) = None \<and>
      \<not> HasError (Diagnostics (fst (BranchResource_Read_id Format cl ireq iresp)))"
  by (simp add: BranchResource_Read_id_def Let_def response_simps)

lemma BranchResource_Read_id_2:
  "\<not> HasError (Diagnostics iresp) \<and> \<not> HasError (decode_diags ireq) \<and>
    api_GetBranch_id cl (ValueString (bi_GraphID (decode_value ireq))) (ValueString (bi_Name (decode_value ireq))) = Inl err \<and> err \<noteq> ''branch not found'' \<longrightarrow>
      State (fst (BranchResource_Read_id Format cl ireq iresp)) = State iresp \<and>
      HasError (Diagnostics (fst (BranchResource_Read_id Format cl ireq iresp)))"
  by (simp add: BranchResource_Read_id_def Let_def response_simps)

lemma BranchResource_Read_id_3:
  "\<not> HasError (Diagnostics iresp) \<and> \<not> HasError (decode_diags ireq) \<and>
    api_GetBranch_id cl (ValueString (bi_GraphID (decode_value ireq))) (ValueString (bi_Name (decode_value ireq))) = Inr branch_id \<longrightarrow>
      State (fst (BranchResource_Read_id Format cl ireq iresp))
        = Some ((decode_value ireq)\<lparr>bi_ID := StringValue (Branch_id_ID branch_id),
             bi_CreatedAt := StringValue (Format (Branch_id_CreatedAt branch_id) layout)\<rparr>) \<and>
      \<not> HasError (Diagnostics (fst (BranchResource_Read_id Format cl ireq iresp)))"
  by (simp add: BranchResource_Read_id_def Let_def response_simps)

lemma SubgraphResource_Read_1:
  "\<not> HasError (Diagnostics sresp) \<and> \<not> HasError (decode_diags sreq) \<and>
    api_GetSubgraph cl (ValueString (s_BranchID (decode_value sreq))) (ValueString (s_Name (decode_value sreq))) = Inl ''subgraph not found'' \<longrightarrow>
      State (fst (SubgraphResource_Read Format cl sreq sresp)) = None \<and>
      \<not> HasError (Diagnostics (fst (SubgraphResource_Read Format cl sreq sresp)))"
  by (simp add: SubgraphResource_Read_def Let_def response_simps)

lemma SubgraphResource_Read_2:
  "\<not> HasError (Diagnostics sresp) \<and> \<not> HasError (decode_diags sreq) \<and>
    api_GetSubgraph cl (ValueString (s_BranchID (decode_value sreq))) (ValueString (s_Name (decode_value sreq))) = Inl err \<and> err \<noteq> ''subgraph not found'' \<longrightarrow>
      State (fst (SubgraphResource_Read Format cl sreq sresp)) = State sresp \<and>
      HasError (Diagnostics (fst (SubgraphResource_Read Format cl sreq sresp)))"
  by (simp add: SubgraphResource_Read_def Let_def response_simps)

lemma SubgraphResource_Read_3:
  "\<not> HasError (Diagnostics sresp) \<and> \<not> HasError (decode_diags sreq) \<and>
    api_GetSubgraph cl (ValueString (s_BranchID (decode_value sreq))) (ValueString (s_Name (decode_value sreq))) = Inr subgraph \<longrightarrow>
      State (fst (SubgraphResource_Read Format cl sreq sresp))
        = Some ((decode_value sreq)\<lparr>s_ID := StringValue (Subgraph_ID subgraph),
             s_URL := StringValue (Subgraph_URL subgraph),
             s_CreatedAt := StringValue (Format (Subgraph_CreatedAt subgraph) layout)\<rparr>) \<and>
      \<not> HasError (Diagnostics (fst (SubgraphResource_Read Format cl sreq sresp)))"
  by (simp add: SubgraphResource_Read_def Let_def response_simps)

text \<open>
  C5. Take a Read hook (graph, branch in either variant, subgraph) whose prior state
  decodes without an error diagnostic. When the lookup fails with the not-found error
  of the entity, the hook removes the record and reports no error. When the lookup fails
  with any other error, the hook reports an error diagnostic and leaves the state record as
  it was. When the lookup succeeds, the hook stores the prior record with every computed
  field overwritten from the entity: the identifier and the creation time of a graph, of a
  branch keyed by graph identifier and of a subgraph (whose URL is overwritten too), and
  the identifier, the environment and the two check flags of a branch keyed by slugs.
\<close>

theorem Read_hooks:
  "(\<not> HasError (Diagnostics gresp) \<and> \<not> HasError (decode_diags greq) \<and>
    api_GetGraph cl (ValueString (g_AccountSlug (decode_value greq))) (ValueString (g_Slug (decode_value greq))) = Inl ''graph not found'' \<longrightarrow>
      State (fst (GraphResource_Read Format cl greq gresp)) = None \<and>
      \<not> HasError (Diagnostics (fst (GraphResource_Read Format cl greq gresp)))) \<and>
   (\<not> HasError (Diagnostics gresp) \<and> \<not> HasError (decode_diags greq) \<and>
    api_GetGraph cl (ValueString (g_AccountSlug (decode_value greq))) (ValueString (g_Slug (decode_value greq))) = Inl err \<and> err \<noteq> ''graph not found'' \<longrightarrow>
      State (fst (GraphResource_Read Format cl greq gresp)) = State gresp \<and>
      HasError (Diagnostics (fst (GraphResource_Read Format cl greq gresp)))) \<and>
   (\<not> HasError (Diagnostics gresp) \<and> \<not> HasError (decode_diags greq) \<and>
    api_GetGraph cl (ValueString (g_AccountSlug (decode_value greq))) (ValueString (g_Slug (decode_value greq))) = Inr graph \<longrightarrow>
      State (fst (GraphResource_Read Format cl greq gresp))
        = Some ((decode_value greq)\<lparr>g_ID := StringValue (Graph_ID graph),
             g_CreatedAt := StringValue (Format (Graph_CreatedAt graph) layout)\<rparr>) \<and>
      \<not> HasError (Diagnostics (fst (GraphResource_Read Format cl greq gresp)))) \<and>
   (\<not> HasError (Diagnostics bresp) \<and> \<not> HasError (decode_diags breq) \<and>
    api_GetBranch cl (ValueString (b_AccountSlug (decode_value breq)))
       (ValueString (b_GraphSlug (decode_value breq))) (ValueString (b_Name (decode_value breq))) = Inl ''branch not found'' \<longrightarrow>
      State (fst (BranchResource_Read cl breq bresp)) = None \<and>
      \<not> HasError (Diagnostics (fst (BranchResource_Read cl breq bresp)))) \<and>
   (\<not> HasError (Diagnostics bresp) \<and> \<not> HasError (decode_diags breq) \<and>
    api_GetBranch cl (ValueString (b_AccountSlug (decode_value breq)))
       (ValueString (b_GraphSlug (decode_value breq))) (ValueString (b_Name (decode_value breq))) = Inl err \<and> err \<noteq> ''branch not found'' \<longrightarrow>
      State (fst (BranchResource_Read cl breq bresp)) = State bresp \<and>
      HasError (Diagnostics (fst (BranchResource_Read cl breq bresp)))) \<and>
   (\<not> HasError (Diagnostics bresp) \<and> \<not> HasError (decode_diags breq) \<and>
    api_GetBranch cl (ValueString (b_AccountSlug (decode_value breq)))
       (ValueString (b_GraphSlug (decode_value breq))) (ValueString (b_Name (decode_value breq))) = Inr branch \<longrightarrow>
      State (fst (BranchResource_Read cl breq bresp))
        = Some ((decode_value breq)\<lparr>b_ID := StringValue (Branch_ID branch),
             b_Environment := StringValue (Branch_Environment branch),
             b_OperationChecksEnabled := BoolValue (Branch_OperationChecksEnabled branch),
             b_OperationChecksIgnoreUsageData :=
               BoolValue (Branch_OperationChecksIgnoreUsageData branch)\<rparr>) \<and>
      \<not> HasError (Diagnostics (fst (BranchResource_Read cl breq bresp)))) \<and>
   (\<not> HasError (Diagnostics iresp) \<and> \<not> HasError (decode_diags ireq) \<and>
    api_GetBranch_id cl (ValueString (bi_GraphID (decode_value ireq))) (ValueString (bi_Name (decode_value ireq))) = Inl ''branch not found'' \<longrightarrow>
      State (fst (BranchResource_Read_id Format cl ireq iresp)) = None \<and>
      \<not> HasError (Diagnostics (fst (BranchResource_Read_id Format cl ireq iresp)))) \<and>
   (\<not> HasError (Diagnostics iresp) \<and> \<not> HasError (decode_diags ireq) \<and>
    api_GetBranch_id cl (ValueString (bi_GraphID (decode_value ireq))) (ValueString (bi_Name (decode_value ireq))) = Inl err \<and> err \<noteq> ''branch not found'' \<longrightarrow>
      State (fst (BranchResource_Read_id Format cl ireq iresp)) = State iresp \<and>
      HasError (Diagnostics (fst (BranchResource_Read_id Format cl ireq iresp)))) \<and>
   (\<not> HasError (Diagnostics iresp) \<and> \<not> HasError (decode_diags ireq) \<and>
    api_GetBranch_id cl (ValueString (bi_GraphID (decode_value ireq))) (ValueString (bi_Name (decode_value ireq))) = Inr branch_id \<longrightarrow>
      State (fst (BranchResource_Read_id Format cl ireq iresp))
        = Some ((decode_value ireq)\<lparr>bi_ID := StringValue (Branch_id_ID branch_id),
             bi_CreatedAt := StringValue (Format (Branch_id_CreatedAt branch_id) layout)\<rparr>) \<and>
      \<not> HasError (Diagnostics (fst (BranchResource_Read_id Format cl ireq iresp)))) \<and>
   (\<not> HasError (Diagnostics sresp) \<and> \<not> HasError (decode_diags sreq) \<and>
    api_GetSubgraph cl (ValueString (s_BranchID (decode_value sreq))) (ValueString (s_Name (decode_value sreq))) = Inl ''subgraph not found'' \<longrightarrow>
      State (fst (SubgraphResource_Read Format cl sreq sresp)) = None \<and>
      \<not> HasError (Diagnostics (fst (SubgraphResource_Read Format cl sreq sresp)))) \<and>
   (\<not> HasError (Diagnostics sresp) \<and> \<not> HasError (decode_diags sreq) \<and>
    api_GetSubgraph cl (ValueString (s_BranchID (decode_value sreq))) (ValueString (s_Name (decode_value sreq))) = Inl err \<and> err \<noteq> ''subgraph not found'' \<longrightarrow>
      State (fst (SubgraphResource_Read Format cl sreq sresp)) = State sresp \<and>
      HasError (Diagnostics (fst (SubgraphResource_Read Format cl sreq sresp)))) \<and>
   (\<not> HasError (Diagnostics sresp) \<and> \<not> HasError (decode_diags sreq) \<and>
    api_GetSubgraph cl (ValueString (s_BranchID (decode_value sreq))) (ValueString (s_Name (decode_value sreq))) = Inr subgraph \<longrightarrow>
      State (fst (SubgraphResource_Read Format cl sreq sresp))
        = Some ((decode_value sreq)\<lparr>s_ID := StringValue (Subgraph_ID subgraph),
             s_URL := StringValue (Subgraph_URL subgraph),
             s_CreatedAt := StringValue (Format (Subgraph_CreatedAt subgraph) layout)\<rparr>) \<and>
      \<not> HasError (Diagnostics (fst (SubgraphResource_Read Format cl sreq sresp))))"
  by (intro conjI) (rule GraphResource_Read_1, rule GraphResource_Read_2, rule GraphResource_Read_3, rule BranchResource_Read_1, rule BranchResource_Read_2, rule BranchResource_Read_3, rule BranchResource_Read_id_1, rule BranchResource_Read_id_2, rule BranchResource_Read_id_3, rule SubgraphResource_Read_1, rule SubgraphResource_Read_2, rule SubgraphResource_Read_3)

theorem Read_hooks_witness:
  "State (fst (GraphResource_Read rfc3339 (failing_api ''graph not found'')
        (request a_graph) (response (Some a_graph)))) = None \<and>
   \<not> HasError (Diagnostics (fst (GraphResource_Read rfc3339 (failing_api ''graph not found'')
        (request a_graph) (response (Some a_graph))))) \<and>
   State (fst (GraphResource_Read rfc3339 (failing_api ''failed to get graph: timeout'')
        (request a_graph) (response (Some a_graph)))) = Some a_graph \<and>
   HasError (Diagnostics (fst (GraphResource_Read rfc3339 (failing_api ''failed to get graph: timeout'')
        (request a_graph) (response (Some a_graph))))) \<and>
   State (fst (GraphResource_Read rfc3339
        ((failing_api [])\<lparr>api_GetGraph := (\<lambda>accountSlug graphSlug. Inr created_graph)\<rparr>)
        (request (a_graph\<lparr>g_ID := StringValue ''stale''\<rparr>)) (response (Some a_graph))))
     = Some a_graph"
proof -
  have p: "\<not> HasError (Diagnostics (response (Some a_graph))) \<and>
           \<not> HasError (decode_diags (request a_graph))"
    by (simp add: response_def request_def HasError_Nil)
  have 1: "State (fst (GraphResource_Read rfc3339 (failing_api ''graph not found'')
        (request a_graph) (response (Some a_graph)))) = None \<and>
      \<not> HasError (Diagnostics (fst (GraphResource_Read rfc3339 (failing_api ''graph not found'')
        (request a_graph) (response (Some a_graph)))))"
    by (rule Read_hooks [where cl = "failing_api ''graph not found''" and greq = "request a_graph"
          and gresp = "response (Some a_graph)" and Format = rfc3339, THEN conjunct1, THEN mp])
       (simp add: p failing_api_def)
  have 2: "State (fst (GraphResource_Read rfc3339 (failing_api ''failed to get graph: timeout'')
        (request a_graph) (response (Some a_graph)))) = State (response (Some a_graph)) \<and>
      HasError (Diagnostics (fst (GraphResource_Read rfc3339
        (failing_api ''failed to get graph: timeout'')
        (request a_graph) (response (Some a_graph)))))"
    by (rule Read_hooks [where cl = "failing_api ''failed to get graph: timeout''"
          and greq = "request a_graph" and gresp = "response (Some a_graph)"
          and Format = rfc3339 and err = "''failed to get graph: timeout''", THEN conjunct2, THEN conjunct1, THEN mp])
       (simp add: p failing_api_def)
  let ?cl = "(failing_api [])\<lparr>api_GetGraph := (\<lambda>accountSlug graphSlug. Inr created_graph)\<rparr>"
  let ?req = "request (a_graph\<lparr>g_ID := StringValue ''stale''\<rparr>)"
  have p3: "\<not> HasError (Diagnostics (response (Some a_graph))) \<and>
            \<not> HasError (decode_diags ?req)"
    by (simp add: response_def request_def HasError_Nil)
  have 3: "State (fst (GraphResource_Read rfc3339 ?cl ?req (response (Some a_graph))))
        = Some ((decode_value ?req)\<lparr>g_ID := StringValue (Graph_ID created_graph),
             g_CreatedAt := StringValue (rfc3339 (Graph_CreatedAt created_graph) layout)\<rparr>) \<and>
      \<not> HasError (Diagnostics (fst (GraphResource_Read rfc3339 ?cl ?req (response (Some a_graph)))))"
    by (rule Read_hooks [where cl = ?cl and greq = ?req
          and gresp = "response (Some a_graph)" and Format = rfc3339
          and graph = created_graph, THEN conjunct2, THEN conjunct2, THEN conjunct1, THEN mp])
       (simp add: p3 failing_api_def)
  have e: "(decode_value ?req)\<lparr>g_ID := StringValue (Graph_ID created_graph),
             g_CreatedAt := StringValue (rfc3339 (Graph_CreatedAt created_graph) layout)\<rparr> = a_graph"
    by (simp add: request_def a_graph_def created_graph_def rfc3339_def)
  from 1 2 3 show ?thesis unfolding e by (simp add: response_def)
qed


section \<open>The Import hooks\<close>

lemma GraphResource_ImportState_malformed:
  assumes "isl (parseImportID req_ID)"
  shows "GraphResource_ImportState Format cl req_ID resp =
           (resp_AddError ''Import Error''
              (''Invalid import ID format. Expected 'account_slug/graph_slug', got: '' @ req_ID)
              resp, [])"
  using assms by (cases "parseImportID req_ID") (simp_all add: GraphResource_ImportState_def)

lemma BranchResource_ImportState_id_malformed:
  assumes "isl (parseBranchImportID req_ID)"
  shows "BranchResource_ImportState_id Format cl req_ID resp =
           (resp_AddError ''Import Error''
              (''Invalid import ID format. Expected 'graph_id/branch_name', got: '' @ req_ID)
              resp, [])"
  using assms
  by (cases "parseBranchImportID req_ID") (simp_all add: BranchResource_ImportState_id_def)

lemma SubgraphResource_ImportState_malformed:
  assumes "isl (parseSubgraphImportID req_ID)"
  shows "SubgraphResource_ImportState Format cl req_ID resp =
           (resp_AddError ''Import Error''
              (''Invalid import ID format. Expected 'branch_id/subgraph_name', got: '' @ req_ID)
              resp, [])"
  using assms
  by (cases "parseSubgraphImportID req_ID") (simp_all add: SubgraphResource_ImportState_def)

lemma BranchResource_ImportState_count:
  assumes "count_list req_ID CHR ''/'' \<noteq> 2"
  shows "BranchResource_ImportState cl req_ID resp =
           (resp_AddError ''Import Error''
              (''Invalid import ID format. Expected 'account_slug/graph_slug/branch_name', got: ''
               @ req_ID) resp, [])"
  using assms by (simp add: BranchResource_ImportState_def length_Split Let_def)

text \<open>
  C6, at the failing input. The import key \<open>acct//main\<close> of the branch resource keyed
  by slugs has three segments, the second one empty. The hook reports no format error:
  it looks the branch up with the empty graph slug, and the only diagnostic is the one
  of the failed lookup.
\<close>

theorem BranchResource_ImportState_empty_segment:
  "Split ''acct//main'' CHR ''/'' = [''acct'', [], ''main''] \<and>
   snd (BranchResource_ImportState (failing_api ''branch not found'') ''acct//main'' (response None))
     = [Call_GetBranch ''acct'' [] ''main''] \<and>
   Diagnostics (fst (BranchResource_ImportState (failing_api ''branch not found'') ''acct//main''
       (response None)))
     = [NewErrorDiagnostic ''Import Error''
          ''Unable to read branch during import: branch not found'']"
  by (simp add: BranchResource_ImportState_def Let_def failing_api_def response_def
      SetAttribute_def resp_AddError_def AddError_def)


section \<open>The Update hooks\<close>

lemma GraphResource_Update_no_call:
  "snd (GraphResource_Update cl greq gresp) = []"
  by (simp add: GraphResource_Update_def Let_def)

lemma GraphResource_Update_error:
  "HasError (Diagnostics (fst (GraphResource_Update cl greq gresp))) \<and>
      State (fst (GraphResource_Update cl greq gresp)) = State gresp"
  by (simp add: GraphResource_Update_def Let_def response_simps)

lemma GraphResource_Update_diag:
  "\<not> HasError (Diagnostics gresp) \<and> \<not> HasError (decode_diags greq) \<longrightarrow>
      NewErrorDiagnostic ''Update Not Supported''
        ''Graph updates are not supported. Changes to account_slug or slug require resource replacement.''
        \<in> set (Diagnostics (fst (GraphResource_Update cl greq gresp)))"
  by (simp add: GraphResource_Update_def Let_def response_simps AddError_member)

lemma BranchResource_Update_no_call:
  "snd (BranchResource_Update cl breq bresp) = []"
  by (simp add: BranchResource_Update_def Let_def)

lemma BranchResource_Update_error:
  "HasError (Diagnostics (fst (BranchResource_Update cl breq bresp))) \<and>
      State (fst (BranchResource_Update cl breq bresp)) = State bresp"
  by (simp add: BranchResource_Update_def Let_def response_simps)

lemma BranchResource_Update_diag:
  "\<not> HasError (Diagnostics bresp) \<and> \<not> HasError (decode_diags breq) \<longrightarrow>
      NewErrorDiagnostic ''Update Not Supported''
        ''Branch updates are not supported. Changes to account_slug, graph_slug, or name require resource replacement.''
        \<in> set (Diagnostics (fst (BranchResource_Update cl breq bresp)))"
  by (simp add: BranchResource_Update_def Let_def response_simps AddError_member)

lemma BranchResource_Update_id_no_call:
  "snd (BranchResource_Update_id cl ireq iresp) = []"
  by (simp add: BranchResource_Update_id_def Let_def)

lemma BranchResource_Update_id_error:
  "HasError (Diagnostics (fst (BranchResource_Update_id cl ireq iresp))) \<and>
      State (fst (BranchResource_Update_id cl ireq iresp)) = State iresp"
  by (simp add: BranchResource_Update_id_def Let_def response_simps)

lemma BranchResource_Update_id_diag:
  "\<not> HasError (Diagnostics iresp) \<and> \<not> HasError (decode_diags ireq) \<longrightarrow>
      NewErrorDiagnostic ''Update Not Supported''
        ''Branch updates are not supported. Changes to graph_id or name require resource replacement.''
        \<in> set (Diagnostics (fst (BranchResource_Update_id cl ireq iresp)))"
  by (simp add: BranchResource_Update_id_def Let_def response_simps AddError_member)

text \<open>
  C7. Every invocation of the Update hook of the graph resource and of the branch resource
  (either variant) makes no call to the client, leaves the state record as it was and
  leaves an error diagnostic in the response, so it is no silent no-op. Whenever the plan
  decodes without an error diagnostic, that diagnostic is the error "Update Not
  Supported" with the resource's own explanation.
\<close>

theorem Update_not_supported:
  "(snd (GraphResource_Update cl greq gresp) = []) \<and>
   (HasError (Diagnostics (fst (GraphResource_Update cl greq gresp))) \<and>
      State (fst (GraphResource_Update cl greq gresp)) = State gresp) \<and>
   (\<not> HasError (Diagnostics gresp) \<and> \<not> HasError (decode_diags greq) \<longrightarrow>
      NewErrorDiagnostic ''Update Not Supported''
        ''Graph updates are not supported. Changes to account_slug or slug require resource replacement.''
        \<in> set (Diagnostics (fst (GraphResource_Update cl greq gresp)))) \<and>
   (snd (BranchResource_Update cl breq bresp) = []) \<and>
   (HasError (Diagnostics (fst (BranchResource_Update cl breq bresp))) \<and>
      State (fst (BranchResource_Update cl breq bresp)) = State bresp) \<and>
   (\<not> HasError (Diagnostics bresp) \<and> \<not> HasError (decode_diags breq) \<longrightarrow>
      NewErrorDiagnostic ''Update Not Supported''
        ''Branch updates are not supported. Changes to account_slug, graph_slug, or name require resource replacement.''
        \<in> set (Diagnostics (fst (BranchResource_Update cl breq bresp)))) \<and>
   (snd (BranchResource_Update_id cl ireq iresp) = []) \<and>
   (HasError (Diagnostics (fst (BranchResource_Update_id cl ireq iresp))) \<and>
      State (fst (BranchResource_Update_id cl ireq iresp)) = State iresp) \<and>
   (\<not> HasError (Diagnostics iresp) \<and> \<not> HasError (decode_diags ireq) \<longrightarrow>
      NewErrorDiagnostic ''Update Not Supported''
        ''Branch updates are not supported. Changes to graph_id or name require resource replacement.''
        \<in> set (Diagnostics (fst (BranchResource_Update_id cl ireq iresp))))"
  by (intro conjI) (rule GraphResource_Update_no_call, rule GraphResource_Update_error [THEN conjunct1], rule GraphResource_Update_error [THEN conjunct2], rule GraphResource_Update_diag, rule BranchResource_Update_no_call, rule BranchResource_Update_error [THEN conjunct1], rule BranchResource_Update_error [THEN conjunct2], rule BranchResource_Update_diag, rule BranchResource_Update_id_no_call, rule BranchResource_Update_id_error [THEN conjunct1], rule BranchResource_Update_id_error [THEN conjunct2], rule BranchResource_Update_id_diag)

theorem Update_not_supported_witness:
  "NewErrorDiagnostic ''Update Not Supported''
     ''Graph updates are not supported. Changes to account_slug or slug require resource replacement.''
     \<in> set (Diagnostics (fst (GraphResource_Update (failing_api []) (request a_graph)
                                   (response (Some a_graph))))) \<and>
   NewErrorDiagnostic ''Update Not Supported''
     ''Branch updates are not supported. Changes to account_slug, graph_slug, or name require resource replacement.''
     \<in> set (Diagnostics (fst (BranchResource_Update (failing_api []) (request a_branch)
                                   (response (Some a_branch))))) \<and>
   NewErrorDiagnostic ''Update Not Supported''
     ''Branch updates are not supported. Changes to graph_id or name require resource replacement.''
     \<in> set (Diagnostics (fst (BranchResource_Update_id (failing_api []) (request a_branch_id)
                                   (response (Some a_branch_id))))) \<and>
   snd (GraphResource_Update (failing_api []) (request a_graph) (response (Some a_graph))) = [] \<and>
   State (fst (GraphResource_Update (failing_api []) (request a_graph) (response (Some a_graph))))
     = Some a_graph"
proof -
  have p: "\<And>m. \<not> HasError (Diagnostics (response (Some m))) \<and>
                \<not> HasError (decode_diags (request m))"
    by (simp add: response_def request_def HasError_Nil)
  note t = Update_not_supported [where cl = "failing_api []"
      and greq = "request a_graph" and gresp = "response (Some a_graph)"
      and breq = "request a_branch" and bresp = "response (Some a_branch)"
      and ireq = "request a_branch_id" and iresp = "response (Some a_branch_id)"]
  note g0 = t [THEN conjunct1]
  note g1 = t [THEN conjunct2, THEN conjunct1, THEN conjunct2]
  note g2 = t [THEN conjunct2, THEN conjunct2, THEN conjunct1, THEN mp, OF p]
  note b2 = t [THEN conjunct2, THEN conjunct2, THEN conjunct2, THEN conjunct2, THEN conjunct2, THEN conjunct1, THEN mp, OF p]
  note i2 = t [THEN conjunct2, THEN conjunct2, THEN conjunct2, THEN conjunct2, THEN conjunct2, THEN conjunct2, THEN conjunct2, THEN conjunct2, THEN mp, OF p]
  from g0 g1 g2 b2 i2 show ?thesis by (simp add: response_def)
qed


section \<open>Updating the URL of a subgraph\<close>

lemma SubgraphResource_Update_call:
  "\<not> HasError (Diagnostics resp) \<and> \<not> HasError (decode_diags req) \<and>
    decode_value req = prior\<lparr>s_URL := StringValue url\<rparr> \<longrightarrow>
      snd (SubgraphResource_Update cl req resp) = [Call_UpdateSubgraph (ValueString (s_ID prior)) url]"
  by (auto simp: SubgraphResource_Update_def Let_def response_simps split: sum.splits)

lemma SubgraphResource_Update_ok:
  "\<not> HasError (Diagnostics resp) \<and> \<not> HasError (decode_diags req) \<and>
    decode_value req = prior\<lparr>s_URL := StringValue url\<rparr> \<and>
    api_UpdateSubgraph cl (ValueString (s_ID prior)) url = Inr subgraph \<longrightarrow>
      State (fst (SubgraphResource_Update cl req resp))
        = Some (prior\<lparr>s_URL := StringValue (Subgraph_URL subgraph)\<rparr>) \<and>
      \<not> HasError (Diagnostics (fst (SubgraphResource_Update cl req resp)))"
  by (auto simp: SubgraphResource_Update_def Let_def response_simps split: sum.splits)

lemma SubgraphResource_Update_failed:
  "\<not> HasError (Diagnostics resp) \<and> \<not> HasError (decode_diags req) \<and>
    decode_value req = prior\<lparr>s_URL := StringValue url\<rparr> \<and>
    api_UpdateSubgraph cl (ValueString (s_ID prior)) url = Inl err \<longrightarrow>
      State (fst (SubgraphResource_Update cl req resp)) = State resp \<and>
      HasError (Diagnostics (fst (SubgraphResource_Update cl req resp)))"
  by (auto simp: SubgraphResource_Update_def Let_def response_simps split: sum.splits)

text \<open>
  C8. Take an invocation of the Update hook of the subgraph resource whose plan decodes
  without an error diagnostic and is the prior record with a new URL. The hook makes
  exactly one call, \<open>UpdateSubgraph\<close> with the record's identifier and the new URL,
  and so no Create and no Delete. When the call succeeds, the state record is the prior
  record with its URL overwritten by the URL of the returned subgraph, every other field
  as before, and no error is reported. When the call fails, the state is left as it was
  and an error diagnostic is reported.
\<close>

theorem SubgraphResource_Update_in_place:
  "(\<not> HasError (Diagnostics resp) \<and> \<not> HasError (decode_diags req) \<and>
    decode_value req = prior\<lparr>s_URL := StringValue url\<rparr> \<longrightarrow>
      snd (SubgraphResource_Update cl req resp) = [Call_UpdateSubgraph (ValueString (s_ID prior)) url]) \<and>
   (\<not> HasError (Diagnostics resp) \<and> \<not> HasError (decode_diags req) \<and>
    decode_value req = prior\<lparr>s_URL := StringValue url\<rparr> \<and>
    api_UpdateSubgraph cl (ValueString (s_ID prior)) url = Inr subgraph \<longrightarrow>
      State (fst (SubgraphResource_Update cl req resp))
        = Some (prior\<lparr>s_URL := StringValue (Subgraph_URL subgraph)\<rparr>) \<and>
      \<not> HasError (Diagnostics (fst (SubgraphResource_Update cl req resp)))) \<and>
   (\<not> HasError (Diagnostics resp) \<and> \<not> HasError (decode_diags req) \<and>
    decode_value req = prior\<lparr>s_URL := StringValue url\<rparr> \<and>
    api_UpdateSubgraph cl (ValueString (s_ID prior)) url = Inl err \<longrightarrow>
      State (fst (SubgraphResource_Update cl req resp)) = State resp \<and>
      HasError (Diagnostics (fst (SubgraphResource_Update cl req resp))))"
  by (intro conjI) (rule SubgraphResource_Update_call, rule SubgraphResource_Update_ok, rule SubgraphResource_Update_failed)

theorem SubgraphResource_Update_in_place_witness:
  "snd (SubgraphResource_Update
          ((failing_api [])\<lparr>api_UpdateSubgraph := (\<lambda>id' url. Inr updated_subgraph)\<rparr>)
          (request (a_subgraph\<lparr>s_URL := StringValue ''https://users-v2.example.com/graphql''\<rparr>))
          (response (Some a_subgraph)))
     = [Call_UpdateSubgraph ''subgraph-1'' ''https://users-v2.example.com/graphql''] \<and>
   State (fst (SubgraphResource_Update
          ((failing_api [])\<lparr>api_UpdateSubgraph := (\<lambda>id' url. Inr updated_subgraph)\<rparr>)
          (request (a_subgraph\<lparr>s_URL := StringValue ''https://users-v2.example.com/graphql''\<rparr>))
          (response (Some a_subgraph))))
     = Some (a_subgraph\<lparr>s_URL := StringValue ''https://users-v2.example.com/graphql''\<rparr>)"
proof -
  let ?cl = "(failing_api [])\<lparr>api_UpdateSubgraph := (\<lambda>id' url. Inr updated_subgraph)\<rparr>"
  let ?req = "request (a_subgraph\<lparr>s_URL := StringValue ''https://users-v2.example.com/graphql''\<rparr>)"
  have p: "\<not> HasError (Diagnostics (response (Some a_subgraph))) \<and>
           \<not> HasError (decode_diags ?req) \<and>
           decode_value ?req = a_subgraph\<lparr>s_URL := StringValue ''https://users-v2.example.com/graphql''\<rparr>"
    by (simp add: response_def request_def HasError_Nil)
  have q: "api_UpdateSubgraph ?cl (ValueString (s_ID a_subgraph))
             ''https://users-v2.example.com/graphql'' = Inr updated_subgraph"
    by simp
  note t = SubgraphResource_Update_in_place [where cl = ?cl and req = ?req
      and resp = "response (Some a_subgraph)" and prior = a_subgraph
      and url = "''https://users-v2.example.com/graphql''" and subgraph = updated_subgraph]
  note 1 = t [THEN conjunct1, THEN mp, OF p]
  have pq: "\<not> HasError (Diagnostics (response (Some a_subgraph))) \<and>
           \<not> HasError (decode_diags ?req) \<and>
           decode_value ?req = a_subgraph\<lparr>s_URL := StringValue ''https://users-v2.example.com/graphql''\<rparr> \<and>
           api_UpdateSubgraph ?cl (ValueString (s_ID a_subgraph))
             ''https://users-v2.example.com/graphql'' = Inr updated_subgraph"
    using p q by (intro conjI) (rule conjunct1, assumption, rule conjunct1, rule conjunct2, assumption, rule conjunct2, rule conjunct2, assumption, assumption)
  note 2 = t [THEN conjunct2, THEN conjunct1, THEN mp, OF pq, THEN conjunct1]
  from 1 2 show ?thesis by (simp add: a_subgraph_def updated_subgraph_def)
qed


section \<open>Provider configuration: the API key\<close>

lemma Configure_key_empty:
  assumes "\<not> HasError (decode_diags req)"
    and "(if IsNull (APIKey (decode_value req)) then Getenv ''GRAFBASE_API_KEY''
          else ValueString (APIKey (decode_value req))) = []"
  shows "GrafbaseProvider_Configure Getenv req new_ConfigureResponse =
           \<lparr>cfg_Diagnostics =
              AddError ''Unable to find API key''
                (''API key cannot be an empty string. '' @
                 ''Set the api_key attribute in the provider configuration or use the GRAFBASE_API_KEY environment variable.'')
                (Append [] (decode_diags req)),
            DataSourceData = None, ResourceData = None\<rparr>"
  using assms
  by (simp add: GrafbaseProvider_Configure_def new_ConfigureResponse_def Let_def
      HasError_Append HasError_Nil)

lemma Configure_key_nonempty:
  assumes "\<not> HasError (decode_diags req)"
    and "key = (if IsNull (APIKey (decode_value req)) then Getenv ''GRAFBASE_API_KEY''
                else ValueString (APIKey (decode_value req)))"
    and "key \<noteq> []"
  shows "GrafbaseProvider_Configure Getenv req new_ConfigureResponse =
           \<lparr>cfg_Diagnostics = Append [] (decode_diags req),
            DataSourceData = Some (NewClient key), ResourceData = Some (NewClient key)\<rparr>"
  using assms
  by (simp add: GrafbaseProvider_Configure_def new_ConfigureResponse_def Let_def
      HasError_Append HasError_Nil)

text \<open>
  C9. When the provider configuration decodes without an error diagnostic, the key used
  is the configured value if the \<open>api_key\<close> attribute is not null and the value of
  \<open>GRAFBASE_API_KEY\<close> otherwise. If that key is non-empty, the client built from it is
  handed to resources and data sources and no error is reported. If it is empty (in
  particular when the attribute is null and the variable is unset or empty), the
  response carries the error diagnostic "Unable to find API key" and hands over no client.
\<close>

theorem Configure_api_key:
  assumes "\<not> HasError (decode_diags req)"
  shows "let data = decode_value req;
             key = (if IsNull (APIKey data) then Getenv ''GRAFBASE_API_KEY''
                    else ValueString (APIKey data));
             resp = GrafbaseProvider_Configure Getenv req new_ConfigureResponse
         in (key \<noteq> [] \<longrightarrow>
               ResourceData resp = Some (NewClient key) \<and>
               DataSourceData resp = Some (NewClient key) \<and>
               apiKey (NewClient key) = key \<and>
               \<not> HasError (cfg_Diagnostics resp)) \<and>
            (key = [] \<longrightarrow>
               ResourceData resp = None \<and> DataSourceData resp = None \<and>
               HasError (cfg_Diagnostics resp) \<and>
               (\<exists>d \<in> set (cfg_Diagnostics resp).
                  diag_severity d = SeverityError \<and> diag_summary d = ''Unable to find API key''))"
proof -
  let ?key = "if IsNull (APIKey (decode_value req)) then Getenv ''GRAFBASE_API_KEY''
              else ValueString (APIKey (decode_value req))"
  show ?thesis
  proof (cases "?key = []")
    case True
    have "NewErrorDiagnostic ''Unable to find API key''
            (''API key cannot be an empty string. '' @
             ''Set the api_key attribute in the provider configuration or use the GRAFBASE_API_KEY environment variable.'')
          \<in> set (cfg_Diagnostics (GrafbaseProvider_Configure Getenv req new_ConfigureResponse))"
      using Configure_key_empty [of req Getenv, OF assms True] by (simp add: AddError_member)
    then have "\<exists>d \<in> set (cfg_Diagnostics (GrafbaseProvider_Configure Getenv req new_ConfigureResponse)).
                 diag_severity d = SeverityError \<and> diag_summary d = ''Unable to find API key''"
      by (rule bexI [rotated]) (simp add: NewErrorDiagnostic_def)
    with Configure_key_empty [of req Getenv, OF assms True] True show ?thesis
      by (simp add: Let_def HasError_AddError)
  next
    case False
    from Configure_key_nonempty [of req _ Getenv, OF assms refl False] False assms show ?thesis
      by (simp add: Let_def HasError_Append HasError_Nil NewClient_def)
  qed
qed

theorem Configure_api_key_witness:
  "ResourceData (GrafbaseProvider_Configure (\<lambda>v. if v = ''GRAFBASE_API_KEY'' then ''env-key'' else [])
       \<lparr>decode_diags = [], decode_value = \<lparr>APIKey = StringValue ''cfg-key''\<rparr>\<rparr> new_ConfigureResponse)
     = Some (NewClient ''cfg-key'') \<and>
   ResourceData (GrafbaseProvider_Configure (\<lambda>v. if v = ''GRAFBASE_API_KEY'' then ''env-key'' else [])
       \<lparr>decode_diags = [], decode_value = \<lparr>APIKey = StringNull\<rparr>\<rparr> new_ConfigureResponse)
     = Some (NewClient ''env-key'') \<and>
   ResourceData (GrafbaseProvider_Configure (\<lambda>v. [])
       \<lparr>decode_diags = [], decode_value = \<lparr>APIKey = StringNull\<rparr>\<rparr> new_ConfigureResponse)
     = None \<and>
   HasError (cfg_Diagnostics (GrafbaseProvider_Configure (\<lambda>v. [])
       \<lparr>decode_diags = [], decode_value = \<lparr>APIKey = StringNull\<rparr>\<rparr> new_ConfigureResponse))"
  using
    Configure_api_key [of "\<lparr>decode_diags = [], decode_value = \<lparr>APIKey = StringValue ''cfg-key''\<rparr>\<rparr>"
      "\<lambda>v. if v = ''GRAFBASE_API_KEY'' then ''env-key'' else []"]
    Configure_api_key [of "\<lparr>decode_diags = [], decode_value = \<lparr>APIKey = StringNull\<rparr>\<rparr>"
      "\<lambda>v. if v = ''GRAFBASE_API_KEY'' then ''env-key'' else []"]
    Configure_api_key [of "\<lparr>decode_diags = [], decode_value = \<lparr>APIKey = StringNull\<rparr>\<rparr>"
      "\<lambda>v. []"]
  by (simp add: Let_def HasError_Nil)


section \<open>Deleting a branch: the type assertion\<close>

lemma DeleteBranch_decoded:
  assumes "ExecuteQuery w c DeleteBranch_query
             [(''accountSlug'', IString (dbi_AccountSlug input)),
              (''graphSlug'', IString (dbi_GraphSlug input)),
              (''branchName'', IString (dbi_BranchName input))] = (Some resp, None)"
    and "Unmarshal_RawMessage w ''branchDelete'' (Data resp) = Inr branchDelete"
    and "Unmarshal_map w branchDelete = Inr deleteResp"
  shows "DeleteBranch w c input =
           (case map_of deleteResp ''__typename'' of
              Some (IString typename) \<Rightarrow>
                if typename = ''Query'' then Returns ()
                else if typename = ''BranchDoesNotExistError'' then Fails ''branch does not exist''
                else if typename = ''CannotDeleteProductionBranchError''
                  then Fails ''cannot delete production branch''
                else Fails (''branch deletion failed: '' @ fmt_map deleteResp)
            | v \<Rightarrow> Panics (interface_conversion v ''string''))"
  using assms by (simp add: DeleteBranch_def)

lemma DeleteBranch_typename_string:
  assumes "ExecuteQuery w c DeleteBranch_query
             [(''accountSlug'', IString (dbi_AccountSlug input)),
              (''graphSlug'', IString (dbi_GraphSlug input)),
              (''branchName'', IString (dbi_BranchName input))] = (Some resp, None)"
    and "Unmarshal_RawMessage w ''branchDelete'' (Data resp) = Inr branchDelete"
    and "Unmarshal_map w branchDelete = Inr deleteResp"
    and "map_of deleteResp ''__typename'' = Some (IString typename)"
  shows "DeleteBranch w c input = Returns () \<or> (\<exists>err. DeleteBranch w c input = Fails err)"
  unfolding DeleteBranch_decoded [OF assms(1-3)] using assms(4) by simp

text \<open>
  C10, at the failing inputs. The server answers the deletion of a branch with status
  200; the \<open>branchDelete\<close> payload is the empty object in the first case and an
  object whose \<open>__typename\<close> is the number 1 in the second. In both,
  \<open>DeleteBranch\<close> panics at the type assertion, with the message of the Go runtime
  for the dynamic type found: it returns neither nil nor an error.
\<close>

theorem DeleteBranch_panics:
  "DeleteBranch no_typename_world (NewClient ''key'') main_branch
     = Panics ''interface conversion: interface {} is nil, not string'' \<and>
   DeleteBranch number_typename_world (NewClient ''key'') main_branch
     = Panics ''interface conversion: interface {} is float64, not string''"
proof -
  have 1: "DeleteBranch no_typename_world (NewClient ''key'') main_branch
             = Panics ''interface conversion: interface {} is nil, not string''"
    unfolding DeleteBranch_def no_typename_world_def fixed_world_ExecuteQuery Let_def
    by (simp add: fixed_world_def interface_conversion_def)
  have 2: "DeleteBranch number_typename_world (NewClient ''key'') main_branch
             = Panics ''interface conversion: interface {} is float64, not string''"
    unfolding DeleteBranch_def number_typename_world_def fixed_world_ExecuteQuery Let_def
    by (simp add: fixed_world_def interface_conversion_def)
  from 1 2 show ?thesis ..
qed


end
